(* ===== verification/Prelude.thy ===== *)
theory Prelude
  imports Main
begin

text \<open>
  Shared vocabulary of the development: the JavaScript runtime primitives that the
  scanner code (src/server/services/tiktokService.js) and the client
  (src/client/src/components/VideoScanner.tsx) call on strings, and the generic
  lemmas about them that the component theories use.

  Strings are \<open>char list\<close>; a character is a byte, so a JavaScript string is read as
  its UTF-8 bytes. \<open>String.prototype.trim\<close> is modelled on the ASCII white space
  (TAB, LF, VT, FF, CR, SPACE); the non-ASCII white space JavaScript also strips
  (NBSP, U+FEFF, the Unicode space separators) is not modelled.
  \<open>undefined\<close> and \<open>null\<close> are \<open>None\<close>; the truthiness of a string is its being
  non-empty.
\<close>

named_theorems js_simps "evaluation rules of the JavaScript string primitives"

section \<open>Truthiness and optional chaining\<close>

text \<open>\<open>a || b\<close> on strings: the empty string is falsy.\<close>

definition js_or :: "string \<Rightarrow> string \<Rightarrow> string" where
  "js_or a b = (if a = [] then b else a)"

text \<open>\<open>x?.f || d\<close>: an undefined or empty value falls back to the default.\<close>

definition opt_or :: "string option \<Rightarrow> string \<Rightarrow> string" where
  "opt_or x d = (case x of None \<Rightarrow> d | Some a \<Rightarrow> js_or a d)"

text \<open>\<open>xs[i]\<close> read through \<open>?.\<close>: out of range is \<open>undefined\<close>.\<close>

definition js_index :: "'a list \<Rightarrow> nat \<Rightarrow> 'a option" where
  "js_index xs i = (if i < length xs then Some (xs ! i) else None)"

text \<open>
  \<open>q a || q b || \<dots>\<close> over objects: the first candidate that yields an object
  (objects are truthy, \<open>null\<close> is falsy). Used for every chain of
  \<open>querySelector\<close> calls in the source.
\<close>

fun first_some :: "('s \<Rightarrow> 'a option) \<Rightarrow> 's list \<Rightarrow> 'a option" where
  "first_some q [] = None"
| "first_some q (s # ss) = (case q s of Some a \<Rightarrow> Some a | None \<Rightarrow> first_some q ss)"

section \<open>Characters\<close>

definition is_ws :: "char \<Rightarrow> bool" where
  "is_ws c = (let n = (of_char c :: nat) in n = 32 \<or> (9 \<le> n \<and> n \<le> 13))"

text \<open>\<open>\d\<close> of a regular expression without the \<open>u\<close> flag: the ASCII digits.\<close>

definition is_digit :: "char \<Rightarrow> bool" where
  "is_digit c = (let n = (of_char c :: nat) in 48 \<le> n \<and> n \<le> 57)"

section \<open>String operations\<close>

text \<open>\<open>s.trim()\<close>\<close>

definition js_trim :: "string \<Rightarrow> string" where
  "js_trim s = rev (dropWhile is_ws (rev (dropWhile is_ws s)))"

text \<open>\<open>s.startsWith(p)\<close>\<close>

definition starts_with :: "string \<Rightarrow> string \<Rightarrow> bool" where
  "starts_with p s = (take (length p) s = p)"

text \<open>\<open>s.includes(p)\<close>\<close>

fun js_includes :: "string \<Rightarrow> string \<Rightarrow> bool" where
  "js_includes [] p = (p = [])"
| "js_includes (c # cs) p = (starts_with p (c # cs) \<or> js_includes cs p)"

text \<open>\<open>s.replace(p, r)\<close> with a string pattern: only the first occurrence.\<close>

fun js_replace :: "string \<Rightarrow> string \<Rightarrow> string \<Rightarrow> string" where
  "js_replace p r [] = (if p = [] then r else [])"
| "js_replace p r (c # cs) =
     (if starts_with p (c # cs) then r @ drop (length p) (c # cs)
      else c # js_replace p r cs)"

text \<open>
  \<open>s.split(sep)\<close> for a non-empty separator: the pieces between the occurrences
  of \<open>sep\<close>, found left to right without overlap; the result is never empty.
  The scan position moves past a whole separator, so the recursion is on the length
  of the rest of the string, not on its structure.
\<close>

function split_from :: "string \<Rightarrow> string \<Rightarrow> string \<Rightarrow> string list" where
  "split_from sep acc [] = [acc]"
| "split_from sep acc (c # cs) =
     (if sep \<noteq> [] \<and> starts_with sep (c # cs)
      then acc # split_from sep [] (drop (length sep) (c # cs))
      else split_from sep (acc @ [c]) cs)"
  by pat_completeness auto
termination
  by (relation "measure (\<lambda>(sep, acc, s). length s)") auto

text \<open>\<open>"abc".split("")\<close> splits into characters; the source never does this.\<close>

definition js_split :: "string \<Rightarrow> string \<Rightarrow> string list" where
  "js_split s sep = (if sep = [] then map (\<lambda>c. [c]) s else split_from sep [] s)"

text \<open>\<open>xs.join(sep)\<close>\<close>

fun js_join :: "string \<Rightarrow> string list \<Rightarrow> string" where
  "js_join sep [] = []"
| "js_join sep [x] = x"
| "js_join sep (x # y # ys) = x @ sep @ js_join sep (y # ys)"

text \<open>\<open>s.replace(/[^\d]/g, '')\<close>\<close>

definition digits_only :: "string \<Rightarrow> string" where
  "digits_only s = filter is_digit s"

text \<open>
  \<open>parseInt(d)\<close> on a non-empty string of ASCII digits: its decimal value. (JavaScript
  returns a double, exact below \<open>2^53\<close>; larger counts are kept exact here.)
\<close>

definition digits_value :: "string \<Rightarrow> nat" where
  "digits_value d = foldl (\<lambda>n c. 10 * n + ((of_char c :: nat) - 48)) 0 d"

text \<open>\<open>`${n}`\<close> for a non-negative integer.\<close>

fun show_nat :: "nat \<Rightarrow> string" where
  "show_nat n =
     (if n < 10 then [''0123456789'' ! n]
      else show_nat (n div 10) @ [''0123456789'' ! (n mod 10)])"

declare show_nat.simps [simp del]

text \<open>
  \<open>encodeURIComponent(s)\<close>: the unreserved characters pass, every other byte becomes
  \<open>%XX\<close> with upper-case hex digits.
\<close>

definition uri_unreserved :: "char \<Rightarrow> bool" where
  "uri_unreserved c =
     (let n = of_char c :: nat in
        (65 \<le> n \<and> n \<le> 90) \<or> (97 \<le> n \<and> n \<le> 122) \<or> (48 \<le> n \<and> n \<le> 57)
        \<or> c \<in> set ''-_.!~*'()'')"

definition hex_char :: "nat \<Rightarrow> char" where
  "hex_char n = ''0123456789ABCDEF'' ! n"

definition uri_encode_char :: "char \<Rightarrow> string" where
  "uri_encode_char c =
     (if uri_unreserved c then [c]
      else [CHR ''%'', hex_char (of_char c div 16), hex_char (of_char c mod 16)])"

definition uri_encode :: "string \<Rightarrow> string" where
  "uri_encode s = concat (map uri_encode_char s)"

section \<open>Lemmas on the primitives\<close>

lemma js_or_simps [simp, js_simps]:
  "js_or [] b = b"
  "js_or (c # cs) b = c # cs"
  by (simp_all add: js_or_def)

lemma js_or_nonempty [simp]: "js_or a b \<noteq> [] \<longleftrightarrow> a \<noteq> [] \<or> b \<noteq> []"
  by (simp add: js_or_def)

lemma opt_or_simps [simp, js_simps]:
  "opt_or None d = d"
  "opt_or (Some a) d = js_or a d"
  by (simp_all add: opt_or_def)

lemma js_index_simps [simp, js_simps]:
  "js_index [] i = None"
  "js_index (x # xs) 0 = Some x"
  "js_index (x # xs) (Suc i) = js_index xs i"
  by (simp_all add: js_index_def)

lemma first_some_skip:
  "\<forall>u \<in> set us. q u = None \<Longrightarrow> first_some q (us @ vs) = first_some q vs"
  by (induction us) auto

lemma first_some_None_iff: "first_some q ss = None \<longleftrightarrow> (\<forall>s \<in> set ss. q s = None)"
  by (induction ss) (auto split: option.splits)

lemma first_some_append:
  "first_some q (xs @ ys) = (case first_some q xs of None \<Rightarrow> first_some q ys | Some a \<Rightarrow> Some a)"
  by (induction xs) (auto split: option.splits)

text \<open>Trimming: the result has no white space at either end, and a string with
  none there is its own trim.\<close>

lemma rev_dropWhile_rev_split: "xs = rev (dropWhile P (rev xs)) @ rev (takeWhile P (rev xs))"
  by (metis rev_append rev_rev_ident takeWhile_dropWhile_id)

lemma js_trim_prefix: "\<exists>t. dropWhile is_ws s = js_trim s @ t"
  unfolding js_trim_def using rev_dropWhile_rev_split by blast

lemma js_trim_hd: "js_trim s \<noteq> [] \<Longrightarrow> \<not> is_ws (hd (js_trim s))"
proof -
  assume ne: "js_trim s \<noteq> []"
  obtain t where t: "dropWhile is_ws s = js_trim s @ t" using js_trim_prefix by blast
  then have "hd (dropWhile is_ws s) = hd (js_trim s)" using ne by simp
  moreover have "dropWhile is_ws s \<noteq> []" using t ne by simp
  ultimately show ?thesis by (metis hd_dropWhile)
qed

lemma js_trim_last: "js_trim s \<noteq> [] \<Longrightarrow> \<not> is_ws (last (js_trim s))"
  unfolding js_trim_def by (metis hd_dropWhile last_rev rev_is_Nil_conv)

lemma js_trim_id_iff: "js_trim s = s \<longleftrightarrow> s = [] \<or> (\<not> is_ws (hd s) \<and> \<not> is_ws (last s))"
proof
  assume "js_trim s = s"
  then show "s = [] \<or> (\<not> is_ws (hd s) \<and> \<not> is_ws (last s))"
    using js_trim_hd js_trim_last by metis
next
  assume h: "s = [] \<or> (\<not> is_ws (hd s) \<and> \<not> is_ws (last s))"
  show "js_trim s = s"
  proof (cases "s = []")
    case True
    then show ?thesis by (simp add: js_trim_def)
  next
    case False
    with h have "dropWhile is_ws s = s" by (simp add: dropWhile_eq_self_iff)
    moreover from False h have "dropWhile is_ws (rev s) = rev s"
      by (simp add: dropWhile_eq_self_iff hd_rev)
    ultimately show ?thesis by (simp add: js_trim_def)
  qed
qed

lemma js_trim_idem [simp]: "js_trim (js_trim s) = js_trim s"
  using js_trim_hd js_trim_last js_trim_id_iff by metis

lemma js_trim_ws_Cons [simp]: "is_ws c \<Longrightarrow> js_trim (c # s) = js_trim s"
  by (simp add: js_trim_def)

lemma is_ws_space [simp]: "is_ws (CHR '' '')"
  by (simp add: is_ws_def)

text \<open>Splitting at a one-character separator inverts joining with it.\<close>

lemma split_from_skip:
  "c \<notin> set x \<Longrightarrow> split_from [c] acc (x @ rest) = split_from [c] (acc @ x) rest"
  by (induction x arbitrary: acc) (auto simp: starts_with_def)

lemma split_from_sep [simp]: "split_from [c] acc (c # rest) = acc # split_from [c] [] rest"
  by (simp add: starts_with_def)

lemma split_from_join:
  "\<forall>x \<in> set xs. c \<notin> set x \<Longrightarrow> xs \<noteq> [] \<Longrightarrow> split_from [c] [] (js_join [c] xs) = xs"
proof (induction "[c]" xs rule: js_join.induct)
  case (2 x)
  then show ?case using split_from_skip [of c x "[]" "[]"] by simp
next
  case (3 x y ys)
  then have "split_from [c] [] (js_join [c] (x # y # ys)) = x # split_from [c] [] (js_join [c] (y # ys))"
    using split_from_skip [of c x "[]"] by (simp add: starts_with_def)
  with 3 show ?case by simp
qed simp

lemma split_from_sep_after:
  "c \<notin> set x \<Longrightarrow> split_from [c] [] (x @ c # rest) = x # split_from [c] [] rest"
  using split_from_skip [of c x "[]" "c # rest"] by (simp add: starts_with_def)

lemma starts_with_hd: "starts_with sep s \<Longrightarrow> sep \<noteq> [] \<Longrightarrow> s \<noteq> [] \<and> hd s = hd sep"
  by (cases sep; cases s) (auto simp: starts_with_def)

text \<open>Splitting at a longer separator: characters other than its first one are passed
  over, and an occurrence ends the current piece.\<close>

lemma split_from_skip_hd:
  "sep \<noteq> [] \<Longrightarrow> hd sep \<notin> set x \<Longrightarrow> split_from sep acc (x @ rest) = split_from sep (acc @ x) rest"
proof (induction x arbitrary: acc)
  case (Cons c x)
  then have "\<not> starts_with sep (c # x @ rest)" using starts_with_hd by fastforce
  with Cons show ?case by simp
qed simp

lemma split_from_at_sep: "sep \<noteq> [] \<Longrightarrow> split_from sep acc (sep @ rest) = acc # split_from sep [] rest"
  by (cases sep) (simp_all add: starts_with_def)

lemma split_from_no_hd: "sep \<noteq> [] \<Longrightarrow> hd sep \<notin> set x \<Longrightarrow> split_from sep acc x = [acc @ x]"
  using split_from_skip_hd [of sep x acc "[]"] by simp

lemma js_split_join:
  "\<forall>x \<in> set xs. c \<notin> set x \<Longrightarrow> xs \<noteq> [] \<Longrightarrow> js_split (js_join [c] xs) [c] = xs"
  by (simp add: js_split_def split_from_join)

lemma js_split_no_sep: "c \<notin> set x \<Longrightarrow> js_split x [c] = [x]"
  using split_from_skip [of c x "[]" "[]"] by (simp add: js_split_def)

lemma js_join_Cons_append: "js_join sep ((d @ y) # zs) = d @ js_join sep (y # zs)"
  by (cases zs) auto

lemma js_join_sep_Cons:
  "js_join (c # d) (x # ys) = js_join [c] (x # map (\<lambda>y. d @ y) ys)"
  by (induction ys arbitrary: x) (auto simp: js_join_Cons_append)

lemma js_trim_append_id:
  "js_trim a = a \<Longrightarrow> js_trim b = b \<Longrightarrow> a \<noteq> [] \<Longrightarrow> b \<noteq> [] \<Longrightarrow> js_trim (a @ m @ b) = a @ m @ b"
  by (simp add: js_trim_id_iff)

text \<open>The pieces of a split: the first is a prefix of the string, and none holds a
  one-character separator.\<close>

lemma split_from_first_prefix:
  "split_from sep acc s = x # xs \<Longrightarrow> \<exists>r. acc @ s = x @ r"
proof (induction sep acc s arbitrary: x xs rule: split_from.induct)
  case (2 sep acc c cs)
  then show ?case by (auto split: if_splits)
qed auto

lemma split_from_pieces:
  "c \<notin> set acc \<Longrightarrow> x \<in> set (split_from [c] acc s) \<Longrightarrow> c \<notin> set x"
proof (induction "[c]" acc s rule: split_from.induct)
  case (2 acc d cs)
  then show ?case by (auto simp: starts_with_def split: if_splits)
qed auto

lemma js_split_pieces: "x \<in> set (js_split s [c]) \<Longrightarrow> c \<notin> set x"
  using split_from_pieces [of c "[]"] by (simp add: js_split_def)

lemma js_split_first_prefix: "sep \<noteq> [] \<Longrightarrow> js_split s sep = x # xs \<Longrightarrow> \<exists>r. s = x @ r"
  using split_from_first_prefix [of sep "[]" s x xs] by (simp add: js_split_def)

lemma js_split_Nil_sep: "sep \<noteq> [] \<Longrightarrow> js_split [] sep = [[]]"
  by (simp add: js_split_def)

lemma js_trim_Nil [simp]: "js_trim [] = []"
  by (simp add: js_trim_def)

lemma js_trim_eq_Nil_iff: "js_trim s = [] \<longleftrightarrow> (\<forall>c \<in> set s. is_ws c)"
proof -
  have "(\<forall>c \<in> set (dropWhile is_ws s). is_ws c) \<longleftrightarrow> (\<forall>c \<in> set s. is_ws c)"
    by (metis dropWhile_eq_Nil_conv dropWhile_idem)
  then show ?thesis by (simp add: js_trim_def)
qed

lemma set_js_trim: "set (js_trim s) \<subseteq> set s"
  unfolding js_trim_def using set_dropWhileD by (metis set_rev subsetI)

lemma split_from_subset:
  "x \<in> set (split_from sep acc s) \<Longrightarrow> set x \<subseteq> set acc \<union> set s"
proof (induction sep acc s rule: split_from.induct)
  case (2 sep acc c cs)
  then show ?case
    using set_drop_subset [of "length sep" "c # cs"] by (auto split: if_splits)
qed auto

lemma js_split_subset: "sep \<noteq> [] \<Longrightarrow> x \<in> set (js_split s sep) \<Longrightarrow> set x \<subseteq> set s"
  using split_from_subset [of x sep "[]" s] by (simp add: js_split_def)

text \<open>Decimal digits: rendering a number and reading it back.\<close>

lemma of_char_digit: "n < 10 \<Longrightarrow> (of_char (''0123456789'' ! n) :: nat) = 48 + n"
  by (auto simp: less_Suc_eq numeral_eq_Suc)

lemma is_digit_digit: "n < 10 \<Longrightarrow> is_digit (''0123456789'' ! n)"
  by (simp add: is_digit_def of_char_digit)

lemma digits_value_snoc: "digits_value (xs @ [c]) = 10 * digits_value xs + ((of_char c :: nat) - 48)"
  by (simp add: digits_value_def)

lemma digits_value_show_nat [simp]: "digits_value (show_nat k) = k"
proof (induction k rule: show_nat.induct)
  case (1 k)
  show ?case
  proof (cases "k < 10")
    case True
    then show ?thesis by (simp add: show_nat.simps [of k] digits_value_def of_char_digit)
  next
    case False
    then have "digits_value (show_nat k) = 10 * digits_value (show_nat (k div 10)) + k mod 10"
      by (simp add: show_nat.simps [of k] digits_value_snoc of_char_digit)
    with "1" False show ?thesis by simp
  qed
qed

lemma digits_show_nat: "\<forall>c \<in> set (show_nat k). is_digit c"
proof (induction k rule: show_nat.induct)
  case (1 k)
  then show ?case by (subst show_nat.simps) (auto simp: is_digit_digit)
qed

lemma show_nat_nonempty [simp]: "show_nat k \<noteq> []"
  by (subst show_nat.simps) simp

lemma digits_only_rendered:
  "\<forall>c \<in> set (a @ b). \<not> is_digit c \<Longrightarrow> digits_only (a @ show_nat k @ b) = show_nat k"
  using digits_show_nat [of k] by (simp add: digits_only_def)

end
