(* ===== verification/Cookie_Codec.thy ===== *)
theory Cookie_Codec
  imports Prelude
begin

text \<open>
  The cookie header parser \<open>TikTokService.parseCookies\<close>
  (src/server/services/tiktokService.js, lines 40--57). The header is split at
  \<open>;\<close>; each piece is trimmed and split at \<open>=\<close>; the first two parts, when both are
  non-empty, become a cookie with their trimmed text, the fixed domain
  \<open>.tiktok.com\<close> and the root path. Parts after the second are discarded.

  Proved here: the parser inverts the header encoding of well-formed name/value
  pairs; what every parsed cookie satisfies; and two behaviours the spec's
  description of the parser does not have: a value containing \<open>=\<close> is cut at it,
  and a value made only of white space is kept as the empty value.
\<close>

record cookie =
  c_name :: string
  c_value :: string
  c_domain :: string
  c_path :: string

text \<open>One iteration of the loop: \<open>const [name, value] = pair.trim().split('=')\<close>,
  then \<open>if (name && value) cookies.push({...})\<close>.\<close>

definition parse_pair :: "string \<Rightarrow> cookie option" where
  "parse_pair pair =
     (let parts = js_split (js_trim pair) ''='' in
      case (js_index parts 0, js_index parts 1) of
        (Some name, Some value) \<Rightarrow>
          if name \<noteq> [] \<and> value \<noteq> []
          then Some \<lparr>c_name = js_trim name, c_value = js_trim value,
                     c_domain = ''.tiktok.com'', c_path = ''/''\<rparr>
          else None
      | _ \<Rightarrow> None)"

text \<open>The \<open>for (const pair of cookiePairs)\<close> loop, pushing in order.\<close>

fun parse_pairs :: "string list \<Rightarrow> cookie list" where
  "parse_pairs [] = []"
| "parse_pairs (p # ps) =
     (case parse_pair p of Some c \<Rightarrow> c # parse_pairs ps | None \<Rightarrow> parse_pairs ps)"

definition parseCookies :: "string \<Rightarrow> cookie list" where
  "parseCookies s = parse_pairs (js_split s '';'')"

text \<open>
  The header a browser sends for a list of name/value pairs (\<open>n1=v1; n2=v2\<close>): not
  code of the repository, the encoder against which the parser is read, and the
  pairs it can carry.
\<close>

definition cookie_header :: "(string \<times> string) list \<Rightarrow> string" where
  "cookie_header ps = js_join ''; '' (map (\<lambda>(n, v). n @ ''='' @ v) ps)"

definition well_formed_pair :: "string \<times> string \<Rightarrow> bool" where
  "well_formed_pair p = (case p of (n, v) \<Rightarrow>
     n \<noteq> [] \<and> v \<noteq> [] \<and> js_trim n = n \<and> js_trim v = v \<and>
     CHR '';'' \<notin> set n \<and> CHR '';'' \<notin> set v \<and> CHR ''='' \<notin> set n \<and> CHR ''='' \<notin> set v)"

section \<open>Parsing one pair\<close>

lemma parse_pairs_set: "c \<in> set (parse_pairs ps) \<longleftrightarrow> (\<exists>p \<in> set ps. parse_pair p = Some c)"
  by (induction ps) (auto split: option.splits)

lemma parse_pairs_append: "parse_pairs (xs @ ys) = parse_pairs xs @ parse_pairs ys"
  by (induction xs) (auto split: option.splits)

lemma parse_pair_encoded:
  assumes "well_formed_pair (n, v)" and "\<forall>c \<in> set pre. is_ws c"
  shows "parse_pair (pre @ n @ ''='' @ v) =
           Some \<lparr>c_name = n, c_value = v, c_domain = ''.tiktok.com'', c_path = ''/''\<rparr>"
proof -
  from assms(2) have "js_trim (pre @ n @ ''='' @ v) = js_trim (n @ ''='' @ v)"
    by (induction pre) auto
  also have "\<dots> = n @ ''='' @ v"
    using assms(1) js_trim_append_id [of n v "''=''"] by (simp add: well_formed_pair_def)
  finally have t: "js_trim (pre @ n @ ''='' @ v) = n @ ''='' @ v" .
  have "n @ ''='' @ v = js_join ''='' [n, v]" by simp
  then have "js_split (n @ ''='' @ v) ''='' = [n, v]"
    using assms(1) js_split_join [of "[n, v]" "CHR ''=''"] by (simp add: well_formed_pair_def)
  with t assms(1) show ?thesis
    by (simp add: parse_pair_def well_formed_pair_def)
qed

lemma parse_pairs_encoded:
  "\<forall>p \<in> set ps. well_formed_pair p \<Longrightarrow>
   map (\<lambda>c. (c_name c, c_value c)) (parse_pairs (map (\<lambda>(n, v). '' '' @ n @ ''='' @ v) ps)) = ps"
proof (induction ps)
  case (Cons p ps)
  obtain n v where p: "p = (n, v)" by fastforce
  have "parse_pair ('' '' @ n @ ''='' @ v) =
          Some \<lparr>c_name = n, c_value = v, c_domain = ''.tiktok.com'', c_path = ''/''\<rparr>"
    using Cons.prems p by (intro parse_pair_encoded) auto
  with Cons p show ?case by simp
qed simp

lemma cookie_header_Cons:
  "cookie_header ((n, v) # qs) =
     js_join '';'' ((n @ ''='' @ v) # map (\<lambda>(n, v). '' '' @ n @ ''='' @ v) qs)"
proof -
  have "cookie_header ((n, v) # qs) =
          js_join (CHR '';'' # '' '') ((n @ ''='' @ v) # map (\<lambda>(n, v). n @ ''='' @ v) qs)"
    by (simp add: cookie_header_def)
  also have "\<dots> = js_join '';'' ((n @ ''='' @ v) # map (\<lambda>(n, v). '' '' @ n @ ''='' @ v) qs)"
    by (subst js_join_sep_Cons) (simp add: case_prod_unfold comp_def)
  finally show ?thesis .
qed

text \<open>What one accepted pair yields.\<close>

lemma parse_pair_Some:
  assumes "parse_pair p = Some c"
  shows "\<exists>name value rest. js_split (js_trim p) ''='' = name # value # rest \<and>
           name \<noteq> [] \<and> value \<noteq> [] \<and>
           c = \<lparr>c_name = js_trim name, c_value = js_trim value,
                c_domain = ''.tiktok.com'', c_path = ''/''\<rparr>"
  using assms
  by (auto simp: parse_pair_def js_index_def Let_def split: if_splits option.splits)
     (metis Cons_nth_drop_Suc One_nat_def Suc_lessI drop0 length_greater_0_conv)

text \<open>Every piece of the header the parser reads is free of \<open>;\<close>, and every part of a
  pair is free of \<open>=\<close> and made of characters of the pair.\<close>

lemma parse_pair_chars:
  assumes "parse_pair p = Some c"
  shows "set (c_name c) \<subseteq> set p \<and> set (c_value c) \<subseteq> set p \<and>
         CHR ''='' \<notin> set (c_name c) \<and> CHR ''='' \<notin> set (c_value c) \<and> c_name c \<noteq> []"
proof -
  obtain name val rest where parts: "js_split (js_trim p) ''='' = name # val # rest"
    and ne: "name \<noteq> []" "val \<noteq> []"
    and c: "c = \<lparr>c_name = js_trim name, c_value = js_trim val,
                  c_domain = ''.tiktok.com'', c_path = ''/''\<rparr>"
    using parse_pair_Some [OF assms] by blast
  have sub: "set x \<subseteq> set p" if "x \<in> set (js_split (js_trim p) ''='')" for x
    using js_split_subset [of "''=''" x "js_trim p"] set_js_trim [of p] that by auto
  have eq: "CHR ''='' \<notin> set x" if "x \<in> set (js_split (js_trim p) ''='')" for x
    using js_split_pieces that by fastforce
  obtain r where r: "js_trim p = name @ r"
    using js_split_first_prefix [of "''=''" "js_trim p"] parts by auto
  with ne have "\<not> is_ws (hd name)"
    using js_trim_hd [of p] by (metis Nil_is_append_conv hd_append2)
  with ne have "js_trim name \<noteq> []"
    by (metis js_trim_eq_Nil_iff list.set_sel(1))
  moreover have "name \<in> set (js_split (js_trim p) ''='')" "val \<in> set (js_split (js_trim p) ''='')"
    using parts by simp_all
  then have "set name \<subseteq> set p" "set val \<subseteq> set p"
    "CHR ''='' \<notin> set name" "CHR ''='' \<notin> set val"
    using sub eq by blast+
  ultimately show ?thesis
    using c set_js_trim [of name] set_js_trim [of val] by auto
qed

text \<open>C4: Round trip. Parsing the header that carries a list of well-formed name/value
  pairs (non-empty, trimmed, free of \<open>;\<close> and \<open>=\<close>) gives back exactly these
  pairs, in order.\<close>

theorem parseCookies_cookie_header:
  assumes "\<forall>p \<in> set ps. well_formed_pair p"
  shows "map (\<lambda>c. (c_name c, c_value c)) (parseCookies (cookie_header ps)) = ps"
proof (cases ps)
  case Nil
  then show ?thesis
    by (simp add: parseCookies_def cookie_header_def js_split_def parse_pair_def js_trim_def)
next
  case (Cons p qs)
  obtain n v where p: "p = (n, v)" by fastforce
  let ?xs = "(n @ ''='' @ v) # map (\<lambda>(n, v). '' '' @ n @ ''='' @ v) qs"
  have "\<forall>x \<in> set ?xs. CHR '';'' \<notin> set x"
    using assms Cons p by (auto simp: well_formed_pair_def)
  then have "js_split (cookie_header ps) '';'' = ?xs"
    using Cons p cookie_header_Cons js_split_join [of ?xs "CHR '';''"] by simp
  moreover have "parse_pair (n @ ''='' @ v) =
          Some \<lparr>c_name = n, c_value = v, c_domain = ''.tiktok.com'', c_path = ''/''\<rparr>"
    using assms Cons p parse_pair_encoded [of n v "[]"] by simp
  ultimately show ?thesis
    using assms Cons p parse_pairs_encoded [of qs] by (simp add: parseCookies_def)
qed

theorem parseCookies_cookie_header_witness:
  "map (\<lambda>c. (c_name c, c_value c))
     (parseCookies (cookie_header [(''sid'', ''a1b2''), (''tt_csrf'', ''xyz'')])) =
   [(''sid'', ''a1b2''), (''tt_csrf'', ''xyz'')]"
proof -
  have wf: "\<forall>p \<in> set [(''sid'', ''a1b2''), (''tt_csrf'', ''xyz'')]. well_formed_pair p"
    by (simp add: well_formed_pair_def js_trim_def is_ws_def)
  show ?thesis by (rule parseCookies_cookie_header [OF wf])
qed

text \<open>C9: Every cookie the parser returns is scoped to the fixed domain \<open>.tiktok.com\<close>
  and the root path, has a non-empty trimmed name, a trimmed value, and neither holds
  \<open>;\<close> or \<open>=\<close>. (The value may be empty; see the next claim.)\<close>

theorem parseCookies_sound:
  assumes "c \<in> set (parseCookies s)"
  shows "c_domain c = ''.tiktok.com'' \<and> c_path c = ''/'' \<and>
         c_name c \<noteq> [] \<and> js_trim (c_name c) = c_name c \<and> js_trim (c_value c) = c_value c \<and>
         CHR '';'' \<notin> set (c_name c) \<and> CHR '';'' \<notin> set (c_value c) \<and>
         CHR ''='' \<notin> set (c_name c) \<and> CHR ''='' \<notin> set (c_value c)"
proof -
  obtain p where p: "p \<in> set (js_split s '';'')" and pc: "parse_pair p = Some c"
    using assms by (auto simp: parseCookies_def parse_pairs_set)
  have semi: "CHR '';'' \<notin> set p" using js_split_pieces p by fastforce
  obtain name val where
    c: "c = \<lparr>c_name = js_trim name, c_value = js_trim val,
            c_domain = ''.tiktok.com'', c_path = ''/''\<rparr>"
    using parse_pair_Some [OF pc] by blast
  from c have trims: "js_trim (c_name c) = c_name c" "js_trim (c_value c) = c_value c"
    by simp_all
  show ?thesis
    using parse_pair_chars [OF pc] semi c trims by auto
qed

theorem parseCookies_sound_witness:
  "c_domain (hd (parseCookies '' sid = a1 ; tok=x=y; junk'')) = ''.tiktok.com'' \<and>
   c_name (last (parseCookies '' sid = a1 ; tok=x=y; junk'')) \<noteq> [] \<and>
   CHR ''='' \<notin> set (c_value (last (parseCookies '' sid = a1 ; tok=x=y; junk'')))"
proof -
  have "parseCookies '' sid = a1 ; tok=x=y; junk'' \<noteq> []"
    by code_simp
  then have "hd (parseCookies '' sid = a1 ; tok=x=y; junk'') \<in> set (parseCookies '' sid = a1 ; tok=x=y; junk'')"
    and "last (parseCookies '' sid = a1 ; tok=x=y; junk'') \<in> set (parseCookies '' sid = a1 ; tok=x=y; junk'')"
    by simp_all
  then show ?thesis using parseCookies_sound by blast
qed

text \<open>C10: A value that itself contains \<open>=\<close> (base64 padding, nested key=value) is cut
  at its first \<open>=\<close>: only the text between the first and the second \<open>=\<close> of the
  pair is kept, and the rest of the value is lost.\<close>

theorem parseCookies_value_cut:
  assumes "well_formed_pair (n, v)" and "CHR '';'' \<notin> set w" and "js_trim w = w"
  shows "parseCookies (n @ ''='' @ v @ ''='' @ w) =
           [\<lparr>c_name = n, c_value = v, c_domain = ''.tiktok.com'', c_path = ''/''\<rparr>]"
proof -
  let ?p = "n @ ''='' @ v @ ''='' @ w"
  have wf: "n \<noteq> []" "v \<noteq> []" "js_trim n = n" "js_trim v = v"
    "CHR ''='' \<notin> set n" "CHR ''='' \<notin> set v" "CHR '';'' \<notin> set n" "CHR '';'' \<notin> set v"
    using assms(1) by (auto simp: well_formed_pair_def)
  have "js_split ?p '';'' = [?p]"
    using wf assms(2) by (intro js_split_no_sep) simp
  moreover have "js_trim ?p = ?p"
  proof -
    have "\<not> is_ws (hd n)" using wf js_trim_hd [of n] by simp
    moreover have "\<not> is_ws (last ?p)"
      using assms(3) js_trim_last [of w] by (cases "w = []") (auto simp: is_ws_def)
    ultimately show ?thesis using wf by (simp add: js_trim_id_iff)
  qed
  moreover have "js_split ?p ''='' = n # v # js_split w ''=''"
    using wf split_from_sep_after [of "CHR ''=''" n] split_from_sep_after [of "CHR ''=''" v]
    by (simp add: js_split_def)
  ultimately show ?thesis
    using wf by (simp add: parseCookies_def parse_pair_def)
qed

theorem parseCookies_value_cut_witness:
  "parseCookies (''token'' @ ''='' @ ''YWJj'' @ ''='' @ ''='') =
     [\<lparr>c_name = ''token'', c_value = ''YWJj'', c_domain = ''.tiktok.com'', c_path = ''/''\<rparr>]"
proof -
  have "well_formed_pair (''token'', ''YWJj'')"
    by (simp add: well_formed_pair_def js_trim_def is_ws_def)
  moreover have "CHR '';'' \<notin> set ''=''" "js_trim ''='' = ''=''"
    by (simp_all add: js_trim_def is_ws_def)
  ultimately show ?thesis by (rule parseCookies_value_cut)
qed

text \<open>A pair whose value part is only white space (\<open>a= =b\<close>: the value part is a
  blank) passes the \<open>name && value\<close> test and is kept with the empty value, although
  the parser is described as dropping pairs whose value is empty after trimming.\<close>

theorem parseCookies_blank_value:
  "parseCookies ''a= =b'' =
     [\<lparr>c_name = ''a'', c_value = [], c_domain = ''.tiktok.com'', c_path = ''/''\<rparr>]"
  by (simp add: parseCookies_def parse_pair_def js_split_def starts_with_def js_trim_def
      is_ws_def js_index_def)

end
