(* ===== verification/Video_Model.thy ===== *)
theory Video_Model
  imports Prelude
begin

text \<open>
  The record every scanner returns. \<open>page.evaluate\<close> in the scanners builds an object
  with the metadata fields (here \<open>video_data\<close>); the scanner then spreads it into the
  final object with the synthetic \<open>id\<close>, \<open>downloaded\<close> and \<open>status\<close>
  (here \<open>video\<close>, an extension of \<open>video_data\<close>), e.g.
  src/server/services/tiktokService.js lines 180--190 and 203--209. The status values
  are those of the client's \<open>VideoItem\<close> (src/client/src/services/videoService.ts,
  lines 19--32), which also carries an optional error message.
\<close>

datatype status = Pending | Scanning | Downloading | Completed | Error

record video_data =
  tiktok_id :: string
  title :: string
  content :: string
  likes :: nat
  views :: nat
  uploader :: string
  thumbnail_url :: string
  video_url :: string
  platform :: string

record video = video_data +
  v_id :: string
  downloaded :: bool
  status :: status
  error_msg :: "string option"

text \<open>
  The placeholder image every scanner falls back to:
  \<open>`https://via.placeholder.com/160x120/ff0050/ffffff?text=${encodeURIComponent(title)}`\<close>.
\<close>

definition placeholder_thumb :: "string \<Rightarrow> string" where
  "placeholder_thumb t = ''https://via.placeholder.com/160x120/ff0050/ffffff?text='' @ uri_encode t"

text \<open>
  \<open>{ id, ...data, downloaded: false, status: 'pending' }\<close>: the spread of the
  evaluated object into a fresh record.
\<close>

definition pending_record :: "string \<Rightarrow> video_data \<Rightarrow> video" where
  "pending_record i d =
     video_data.extend d \<lparr>v_id = i, downloaded = False, status = Pending, error_msg = None\<rparr>"

text \<open>What the scanners promise of every record they return.\<close>

definition fresh_record :: "video \<Rightarrow> bool" where
  "fresh_record v \<longleftrightarrow> status v = Pending \<and> \<not> downloaded v \<and> thumbnail_url v \<noteq> [] \<and> error_msg v = None"

lemma placeholder_thumb_nonempty [simp]: "placeholder_thumb t \<noteq> []"
  by (simp add: placeholder_thumb_def)

lemma pending_record_fields [simp]:
  "v_id (pending_record i d) = i"
  "downloaded (pending_record i d) = False"
  "status (pending_record i d) = Pending"
  "error_msg (pending_record i d) = None"
  "tiktok_id (pending_record i d) = tiktok_id d"
  "title (pending_record i d) = title d"
  "content (pending_record i d) = content d"
  "likes (pending_record i d) = likes d"
  "views (pending_record i d) = views d"
  "uploader (pending_record i d) = uploader d"
  "thumbnail_url (pending_record i d) = thumbnail_url d"
  "video_url (pending_record i d) = video_url d"
  "platform (pending_record i d) = platform d"
  by (simp_all add: pending_record_def video_data.defs video.defs)

lemma fresh_pending_record [simp]:
  "fresh_record (pending_record i d) \<longleftrightarrow> thumbnail_url d \<noteq> []"
  by (simp add: fresh_record_def)

end
