(* ===== verification/Field_Extractor.thy ===== *)
theory Field_Extractor
  imports Video_Model
begin

text \<open>
  Reading fields from a rendered page (src/server/services/tiktokService.js). The
  scanners never parse HTML themselves: inside \<open>page.evaluate\<close> they ask the browser
  \<open>document.querySelector(sel)\<close>, \<open>document.querySelectorAll(sel)\<close> and
  \<open>element.querySelector(sel)\<close>, and read \<open>textContent\<close>, \<open>src\<close>,
  \<open>getAttribute('data-src')\<close> and \<open>href\<close> of what they get. A page is therefore
  modelled by its answers to these queries: a \<open>page\<close> record holds the path of
  \<open>window.location\<close>, the first element each selector finds, and the elements
  \<open>querySelectorAll\<close> returns; a \<open>node\<close> holds the properties read from an element
  and the answers of its own \<open>querySelector\<close>. Which elements a CSS selector matches is
  the browser's business and is not modelled.

  The fallback chains of the source (\<open>q(a) || q(b) || \<dots>\<close>) take the first selector
  that finds an element, whatever its text; the text is then trimmed and replaced by
  the field's default when empty. The spec (section 4.3) describes a chain that goes
  on to the next selector when the text is empty; that contract is stated here too
  (\<open>spec_text_field\<close>) and compared with the code.
\<close>

datatype node = Node
  (n_text: string)
  (n_src: string)
  (n_data_src: "string option")
  (n_href: string)
  (n_sub: "(string \<times> node) list")

record page =
  pathname :: string
  doc_one :: "(string \<times> node) list"
  doc_all :: "(string \<times> node list) list"

definition query :: "page \<Rightarrow> string \<Rightarrow> node option" where
  "query pg sel = map_of (doc_one pg) sel"

definition query_all :: "page \<Rightarrow> string \<Rightarrow> node list" where
  "query_all pg sel = (case map_of (doc_all pg) sel of None \<Rightarrow> [] | Some ns \<Rightarrow> ns)"

definition node_query :: "node \<Rightarrow> string \<Rightarrow> node option" where
  "node_query n sel = map_of (n_sub n) sel"

section \<open>Text and count fields\<close>

text \<open>\<open>el?.textContent?.trim() || d\<close>\<close>

definition text_of :: "node option \<Rightarrow> string \<Rightarrow> string" where
  "text_of el d = opt_or (map_option (\<lambda>n. js_trim (n_text n)) el) d"

text \<open>\<open>parseInt(el?.textContent?.replace(/[^\d]/g, '') || '0')\<close>\<close>

definition count_of :: "node option \<Rightarrow> nat" where
  "count_of el = digits_value (opt_or (map_option (\<lambda>n. digits_only (n_text n)) el) ''0'')"

text \<open>
  The contract of the spec for a text field: the first candidate whose trimmed text is
  non-empty, else the default. Not code of the repository.
\<close>

definition spec_text_field :: "(string \<Rightarrow> node option) \<Rightarrow> string list \<Rightarrow> string \<Rightarrow> string" where
  "spec_text_field q sels d =
     (case first_some (\<lambda>s. case q s of
                             None \<Rightarrow> None
                           | Some n \<Rightarrow> if js_trim (n_text n) = [] then None else Some (js_trim (n_text n)))
             sels of
        None \<Rightarrow> d
      | Some t \<Rightarrow> t)"

section \<open>Media URLs\<close>

text \<open>\<open>extractMediaUrls\<close>, lines 444--525. The thumbnail loop tries, per selector, the
  \<open>src\<close> of the image found and then its \<open>data-src\<close> attribute, and goes on to the
  next selector when both are empty; then any image whose \<open>src\<close> names a known CDN.\<close>

definition thumb_sels :: "string list" where
  \<open>thumb_sels =
     [''img[src*="tiktok"]'', ''img[src*="amazonaws"]'', ''img[src*="cdn"]'', ''img[src*="sf16"]'',
      ''img[data-src*="tiktok"]'', ''img[data-src*="amazonaws"]'', ''img[data-src*="cdn"]'',
      ''img[data-src*="sf16"]'', ''.video-thumbnail img'', ''.video-poster img'',
      ''[data-e2e="video-thumbnail"] img'', ''[data-e2e="browse-video-thumbnail"] img'',
      ''img[alt*="video"]'', ''img[alt*="thumbnail"]'', ''img[alt*="poster"]'']\<close>

definition img_url :: "node \<Rightarrow> string option" where
  "img_url img =
     (if n_src img \<noteq> [] then Some (n_src img)
      else case n_data_src img of
             Some d \<Rightarrow> if d \<noteq> [] then Some d else None
           | None \<Rightarrow> None)"

definition cdn_image :: "node \<Rightarrow> bool" where
  "cdn_image img \<longleftrightarrow>
     n_src img \<noteq> [] \<and> js_includes (n_src img) ''http'' \<and>
     (js_includes (n_src img) ''tiktok'' \<or> js_includes (n_src img) ''amazonaws'' \<or>
      js_includes (n_src img) ''cdn'')"

definition extract_thumbnail :: "page \<Rightarrow> string" where
  "extract_thumbnail pg =
     (case first_some (\<lambda>s. Option.bind (query pg s) img_url) thumb_sels of
        Some u \<Rightarrow> u
      | None \<Rightarrow> (case find cdn_image (query_all pg ''img'') of
                   Some img \<Rightarrow> n_src img
                 | None \<Rightarrow> []))"

definition media_sels :: "string list" where
  \<open>media_sels =
     [''video source'', ''video'', ''[data-e2e="video-player"] source'',
      ''[data-e2e="video-player"] video'', ''.video-player source'', ''.video-player video'']\<close>

text \<open>\<open>if (element && element.src) return element.src\<close>: an element without a source
  does not stop the loop.\<close>

definition extract_video_url :: "page \<Rightarrow> string" where
  "extract_video_url pg =
     (case first_some (\<lambda>s. case query pg s of
                             Some e \<Rightarrow> if n_src e \<noteq> [] then Some (n_src e) else None
                           | None \<Rightarrow> None) media_sels of
        Some u \<Rightarrow> u
      | None \<Rightarrow> [])"

definition extractMediaUrls :: "page \<Rightarrow> string \<times> string" where
  "extractMediaUrls pg = (extract_thumbnail pg, extract_video_url pg)"

section \<open>Properties of the field reads\<close>

text \<open>A count rendered in decimal inside a label with no other digits
  (\<open>"1234 likes"\<close>, \<open>"Views: 87"\<close>) is read back as that number.\<close>

theorem count_of_rendered:
  assumes "\<forall>c \<in> set (a @ b). \<not> is_digit c" and "n_text n = a @ show_nat k @ b"
  shows "count_of (Some n) = k"
  using assms by (simp add: count_of_def digits_only_rendered js_or_def)

theorem count_of_rendered_witness:
  "count_of (Some (Node (''Likes: '' @ show_nat 1234 @ '' total'') [] None [] [])) = 1234"
proof -
  have "\<forall>c \<in> set (''Likes: '' @ '' total''). \<not> is_digit c"
    by (simp add: is_digit_def)
  then show ?thesis by (rule count_of_rendered) simp
qed

text \<open>The count parser on the spec's examples and beyond: \<open>"12,345 views"\<close> reads
  12345, an empty text and a missing element read 0, and an abbreviated count
  \<open>"1.2M"\<close> reads 12, since every non-digit, the decimal point and the unit
  included, is deleted before parsing.\<close>

theorem count_of_examples:
  "count_of (Some (Node ''12,345 views'' [] None [] [])) = 12345 \<and>
   count_of (Some (Node [] [] None [] [])) = 0 \<and>
   count_of None = 0 \<and>
   count_of (Some (Node ''1.2M'' [] None [] [])) = 12"
  by (simp add: count_of_def digits_only_def digits_value_def is_digit_def)

text \<open>When only the \<open>N\<close>-th selector of a chain and possibly later ones find an
  element, the field is that element's trimmed text, or the default when it is blank.\<close>

theorem text_chain_nth:
  assumes "\<forall>u \<in> set us. q u = None" and "q s = Some n"
  shows "text_of (first_some q (us @ s # vs)) d = js_or (js_trim (n_text n)) d"
  using assms by (simp add: first_some_skip text_of_def)

theorem text_chain_nth_witness:
  "text_of (first_some (map_of [(''h1'', Node '' Dance  '' [] None [] [])])
      [''.video-meta-title'', ''h1'', ''.video-title'']) ''Untitled Video'' = ''Dance''"
proof -
  have "text_of (first_some (map_of [(''h1'', Node '' Dance  '' [] None [] [])])
          ([''.video-meta-title''] @ ''h1'' # [''.video-title''])) ''Untitled Video'' =
        js_or (js_trim (n_text (Node '' Dance  '' [] None [] []))) ''Untitled Video''"
    by (rule text_chain_nth) simp_all
  then show ?thesis by (simp add: js_trim_def is_ws_def)
qed

text \<open>C11: The code's chain and the spec's differ on a blank element: when the first
  selector of a chain that finds an element finds one whose text is blank, the code
  returns the field's default, while the spec's chain goes on and returns what the
  selectors after it give.\<close>

theorem text_chain_blank_diverges:
  assumes "\<forall>u \<in> set us. q u = None" and "q s = Some n" and "js_trim (n_text n) = []"
  shows "text_of (first_some q (us @ s # vs)) d = d \<and>
         spec_text_field q (us @ s # vs) d = spec_text_field q vs d"
  using assms by (simp add: first_some_skip text_of_def opt_or_def js_or_def spec_text_field_def)

theorem text_chain_blank_diverges_witness:
  "text_of (first_some (map_of [(''h1'', Node ''  '' [] None [] []), (''.video-title'', Node '' Dance '' [] None [] [])])
     [''.video-meta-title'', ''h1'', ''.video-title'']) ''Untitled Video'' = ''Untitled Video'' \<and>
   spec_text_field (map_of [(''h1'', Node ''  '' [] None [] []), (''.video-title'', Node '' Dance '' [] None [] [])])
     [''.video-meta-title'', ''h1'', ''.video-title''] ''Untitled Video'' = ''Dance''"
proof -
  have "spec_text_field (map_of [(''h1'', Node ''  '' [] None [] []), (''.video-title'', Node '' Dance '' [] None [] [])])
          [''.video-title''] ''Untitled Video'' = ''Dance''"
    by code_simp
  then show ?thesis
    using text_chain_blank_diverges [of "[''.video-meta-title'']"
        "map_of [(''h1'', Node ''  '' [] None [] []), (''.video-title'', Node '' Dance '' [] None [] [])]"
        "''h1''" "Node ''  '' [] None [] []" "[''.video-title'']" "''Untitled Video''"]
    by (simp add: js_trim_def is_ws_def)
qed

text \<open>Image fields try a second attribute before the next selector: when the first
  thumbnail selector that yields anything finds an image with an empty \<open>src\<close>, its
  non-empty \<open>data-src\<close> is the thumbnail.\<close>

theorem extract_thumbnail_data_src:
  assumes "thumb_sels = us @ s # vs" and "\<forall>u \<in> set us. Option.bind (query pg u) img_url = None"
    and "query pg s = Some img" and "n_src img = []" and "n_data_src img = Some d" and "d \<noteq> []"
  shows "extract_thumbnail pg = d"
proof -
  have "first_some (\<lambda>s. Option.bind (query pg s) img_url) (us @ s # vs) = Some d"
    using assms(2-6) by (simp add: first_some_skip img_url_def)
  then show ?thesis by (simp add: extract_thumbnail_def assms(1))
qed

theorem extract_thumbnail_data_src_witness:
  \<open>extract_thumbnail \<lparr>pathname = ''/'',
     doc_one = [(''img[src*="tiktok"]'', Node [] [] (Some ''https://p16.tiktokcdn.com/a.jpeg'') [] [])],
     doc_all = []\<rparr> = ''https://p16.tiktokcdn.com/a.jpeg''\<close>
  by (rule extract_thumbnail_data_src
        [where us = "[]" and img = "Node [] [] (Some ''https://p16.tiktokcdn.com/a.jpeg'') [] []"])
     (simp_all add: thumb_sels_def query_def)

end
