(* ===== verification/Browser_Session.thy ===== *)
theory Browser_Session
  imports Cookie_Codec Field_Extractor
begin

text \<open>
  The state of a \<open>TikTokService\<close> object and its use of the browser
  (src/server/services/tiktokService.js, lines 7--38 and 563--568).

  \<^item> The service holds \<open>this.browser\<close> (null until launched) and \<open>this.cookies\<close> (the
    raw header, null until \<open>setCookies\<close>). The record \<open>svc\<close> holds both, and the
    list of calls made to Puppeteer so far (\<open>calls\<close>): launches, pages opened and
    closed, cookies set, navigations, scrolls. The order of that list is the order of
    the \<open>await\<close>s of the code, so ordering and resource claims are claims about it.
  \<^item> What the browser answers is not under the code's control: the record \<open>world\<close>
    gives the outcome of \<open>puppeteer.launch\<close>, of a navigation (the page reached, or
    the error thrown together with the document as far as it loaded) and of a scroll
    followed by its wait. Every theorem holds for every world. An answer is a function
    of the call's arguments (the URL and the cookies set on the page), not of the calls
    made before it; \<open>browser.newPage()\<close> and \<open>page.setCookie()\<close> are taken to succeed,
    so their failures, which the code would catch like a navigation error, are not
    modelled.
  \<^item> Page calls whose outcome does not reach the data (\<open>setUserAgent\<close>,
    \<open>setViewport\<close>, \<open>waitForTimeout\<close>, the soft \<open>waitForSelector\<close>) are not
    logged: they neither fail in the model nor change the snapshot read afterwards.
\<close>

text \<open>A thrown JavaScript error: its \<open>name\<close> and \<open>message\<close>.\<close>

datatype js_error = JsError (err_name: string) (err_msg: string)

datatype browser_call =
    Launch
  | NewPage
  | SetCookies "cookie list"
  | Goto string
  | Scroll
  | ClosePage
  | CloseBrowser

datatype nav = Loaded page | Failed js_error page

record world =
  launch_result :: "js_error option"
  goto_result :: "cookie list option \<Rightarrow> string \<Rightarrow> nav"
  scroll_result :: "page \<Rightarrow> js_error + page"

record svc =
  browser :: bool
  cookies :: "string option"
  calls :: "browser_call list"

text \<open>\<open>new TikTokService()\<close>\<close>

definition new_service :: svc where
  "new_service = \<lparr>browser = False, cookies = None, calls = []\<rparr>"

definition log :: "svc \<Rightarrow> browser_call list \<Rightarrow> svc" where
  "log s cs = s\<lparr>calls := calls s @ cs\<rparr>"

text \<open>\<open>initBrowser\<close>: launch only when no browser is held.\<close>

definition initBrowser :: "world \<Rightarrow> svc \<Rightarrow> (js_error + unit) \<times> svc" where
  "initBrowser w s =
     (if browser s then (Inr (), s)
      else case launch_result w of
             None \<Rightarrow> (Inr (), (log s [Launch])\<lparr>browser := True\<rparr>)
           | Some e \<Rightarrow> (Inl e, log s [Launch]))"

definition setCookies :: "string \<Rightarrow> svc \<Rightarrow> svc" where
  "setCookies c s = s\<lparr>cookies := Some c\<rparr>"

definition closeBrowser :: "svc \<Rightarrow> svc" where
  "closeBrowser s = (if browser s then (log s [CloseBrowser])\<lparr>browser := False\<rparr> else s)"

text \<open>\<open>if (this.cookies) { await page.setCookie(...await this.parseCookies(this.cookies)) }\<close>:
  the cookies a new page gets, none when the header is null or empty.\<close>

definition page_cookies :: "svc \<Rightarrow> cookie list option" where
  "page_cookies s = (case cookies s of
                       Some c \<Rightarrow> if c \<noteq> [] then Some (parseCookies c) else None
                     | None \<Rightarrow> None)"

text \<open>
  The prologue the three scanners share: \<open>initBrowser\<close>, \<open>browser.newPage()\<close>, the
  cookies (lines 115--122, 278--285, 356--363).
\<close>

definition open_page :: "world \<Rightarrow> svc \<Rightarrow> (js_error + unit) \<times> svc" where
  "open_page w s =
     (case initBrowser w s of
        (Inl e, s1) \<Rightarrow> (Inl e, s1)
      | (Inr u, s1) \<Rightarrow>
          (Inr u, log s1 (NewPage # (case page_cookies s1 of Some cs \<Rightarrow> [SetCookies cs] | None \<Rightarrow> []))))"

text \<open>\<open>await page.goto(url, ...)\<close>: the call is logged whatever its outcome.\<close>

definition navigate :: "world \<Rightarrow> svc \<Rightarrow> string \<Rightarrow> nav \<times> svc" where
  "navigate w s url = (goto_result w (page_cookies s) url, log s [Goto url])"

text \<open>Pages opened and not closed in a log of calls: a measure on the log, not code.\<close>

definition page_balance :: "browser_call list \<Rightarrow> int" where
  "page_balance cs = int (count_list cs NewPage) - int (count_list cs ClosePage)"

section \<open>Lemmas\<close>

lemma page_balance_append [simp]: "page_balance (xs @ ys) = page_balance xs + page_balance ys"
  by (simp add: page_balance_def)

lemma page_balance_simps [simp]:
  "page_balance [] = 0"
  "page_balance (NewPage # cs) = 1 + page_balance cs"
  "page_balance (ClosePage # cs) = page_balance cs - 1"
  "page_balance (Launch # cs) = page_balance cs"
  "page_balance (SetCookies x # cs) = page_balance cs"
  "page_balance (Goto u # cs) = page_balance cs"
  "page_balance (Scroll # cs) = page_balance cs"
  "page_balance (CloseBrowser # cs) = page_balance cs"
  by (simp_all add: page_balance_def)


lemma log_simps [simp]:
  "browser (log s cs) = browser s"
  "cookies (log s cs) = cookies s"
  "calls (log s cs) = calls s @ cs"
  by (simp_all add: log_def)

lemma page_cookies_log [simp]: "page_cookies (log s cs) = page_cookies s"
  by (simp add: page_cookies_def)

lemma initBrowser_cookies: "initBrowser w s = (r, s') \<Longrightarrow> cookies s' = cookies s"
  by (auto simp: initBrowser_def split: if_splits option.splits)

lemma initBrowser_calls:
  "initBrowser w s = (r, s') \<Longrightarrow> calls s' = calls s \<or> calls s' = calls s @ [Launch]"
  by (auto simp: initBrowser_def split: if_splits option.splits)

lemma initBrowser_held: "browser s \<Longrightarrow> initBrowser w s = (Inr (), s)"
  by (simp add: initBrowser_def)

lemma initBrowser_Inr: "initBrowser w s = (Inr u, s') \<Longrightarrow> browser s'"
  by (auto simp: initBrowser_def split: if_splits option.splits)

lemma open_page_cookies: "open_page w s = (r, s') \<Longrightarrow> cookies s' = cookies s"
  by (auto simp: open_page_def dest: initBrowser_cookies split: prod.splits sum.splits)

lemma open_page_browser: "open_page w s = (Inr u, s') \<Longrightarrow> browser s'"
  by (auto simp: open_page_def dest: initBrowser_Inr split: prod.splits sum.splits)

lemma open_page_held:
  "browser s \<Longrightarrow> open_page w s =
     (Inr (), log s (NewPage # (case page_cookies s of Some cs \<Rightarrow> [SetCookies cs] | None \<Rightarrow> [])))"
  by (simp add: open_page_def initBrowser_held)

lemma navigate_state [simp]:
  "snd (navigate w s url) = log s [Goto url]"
  by (simp add: navigate_def)

end
