(* ===== verification/Link_Scanner.thy ===== *)
theory Link_Scanner
  imports Browser_Session
begin

text \<open>
  \<open>TikTokService.scanVideoLink\<close> (src/server/services/tiktokService.js, lines
  113--274): one video page to one record.

  The success path opens a page, navigates, reads the metadata through five selector
  chains and the media URLs through \<open>extractMediaUrls\<close>, closes the page and spreads
  the result into a pending record whose thumbnail falls back to the placeholder.

  The \<open>catch\<close> block retries once after a \<open>TimeoutError\<close>. The retry calls
  \<open>page.waitForTimeout\<close>, but \<open>page\<close> is a \<open>const\<close> declared inside the \<open>try\<close>
  block, so it is not in scope in the \<open>catch\<close> block: the scope chain of the catch
  clause (the clause, the method with \<open>videoLink\<close> and \<open>platform\<close>, the module with
  \<open>axios\<close>, \<open>cheerio\<close>, \<open>puppeteer\<close>, \<open>fs\<close>, \<open>path\<close> and the class) binds no
  \<open>page\<close>, and the reference throws a \<open>ReferenceError\<close>, which the inner \<open>catch\<close>
  swallows; the method then returns \<open>null\<close>. The retry block is modelled for any
  binding of \<open>page\<close> (\<open>link_retry\<close>), and the catch clause applies it to the binding it
  really has (\<open>catch_page_binding\<close>, none).
\<close>

section \<open>The metadata read of the video page\<close>

definition title_sels :: "string list" where
  \<open>title_sels = [''h1[data-e2e="video-title"]'', ''.video-meta-title'', ''h1'',
                 ''[data-e2e="browse-video-title"]'', ''.video-title'']\<close>

definition content_sels :: "string list" where
  \<open>content_sels = [''.video-meta-caption'', ''.video-description'', ''p'',
                   ''[data-e2e="browse-video-desc"]'', ''.video-caption'']\<close>

definition likes_sels :: "string list" where
  \<open>likes_sels = [''[data-e2e="like-count"]'', ''.like-count'', ''[data-e2e="like-icon"] + span'',
                 ''[data-e2e="browse-like-count"]'', ''.like-icon + span'']\<close>

definition views_sels :: "string list" where
  \<open>views_sels = [''[data-e2e="video-views"]'', ''.video-views'', ''.view-count'',
                 ''[data-e2e="browse-video-count"]'', ''.video-count'']\<close>

definition uploader_sels :: "string list" where
  \<open>uploader_sels = [''[data-e2e="video-author-uniqueId"]'', ''.author-unique-id'', ''.username'',
                    ''[data-e2e="browse-user-uniqueId"]'', ''.user-unique-id'']\<close>

text \<open>\<open>u.split('/video/')[1]?.split('?')[0]\<close>, shared by the three scanners.\<close>

definition video_id_part :: "string \<Rightarrow> string option" where
  "video_id_part u = Option.bind (js_index (js_split u ''/video/'') 1) (\<lambda>x. js_index (js_split x ''?'') 0)"

text \<open>\<open>window.location.pathname.split('/video/')[1]?.split('?')[0] || 'unknown'\<close>\<close>

definition path_video_id :: "string \<Rightarrow> string" where
  "path_video_id p = opt_or (video_id_part p) ''unknown''"

text \<open>The object \<open>page.evaluate\<close> returns, lines 145--191.\<close>

definition eval_video_page :: "page \<Rightarrow> string \<Rightarrow> video_data" where
  "eval_video_page pg plat =
     \<lparr>tiktok_id = path_video_id (pathname pg),
      title = text_of (first_some (query pg) title_sels) ''Untitled Video'',
      content = text_of (first_some (query pg) content_sels) [],
      likes = count_of (first_some (query pg) likes_sels),
      views = count_of (first_some (query pg) views_sels),
      uploader = text_of (first_some (query pg) uploader_sels) ''Unknown User'',
      thumbnail_url = [], video_url = [], platform = plat\<rparr>"

text \<open>Lines 194--209: media URLs, the placeholder fallback, and the spread
  \<open>{id: `video_${tiktok_id}`, ...videoData, ...mediaData, downloaded: false, status: 'pending'}\<close>.\<close>

definition link_record :: "page \<Rightarrow> string \<Rightarrow> video" where
  "link_record pg plat =
     (let d = eval_video_page pg plat;
          (th, vu) = extractMediaUrls pg;
          th' = (if th = [] then placeholder_thumb (title d) else th)
      in pending_record (''video_'' @ tiktok_id d) (d\<lparr>thumbnail_url := th', video_url := vu\<rparr>))"

section \<open>The retry block\<close>

definition retry_img_sels :: "string list" where
  \<open>retry_img_sels = [''img[src*="tiktok"]'', ''img[src*="amazonaws"]'', ''img[src*="cdn"]'',
                     ''img[src*="sf16"]'']\<close>

text \<open>Lines 219--266, on the page the block would see: a title from \<open>h1\<close> or
  \<open>title\<close>, the id, the first CDN image with a \<open>src\<close>, zero metrics.\<close>

definition retry_record :: "page \<Rightarrow> string \<Rightarrow> video" where
  "retry_record pg plat =
     (let t = text_of (first_some (query pg) [''h1'', ''title'']) ''Untitled Video'';
          th = (case first_some (\<lambda>s. case query pg s of
                                       Some img \<Rightarrow> if n_src img \<noteq> [] then Some (n_src img) else None
                                     | None \<Rightarrow> None) retry_img_sels of
                  Some u \<Rightarrow> u | None \<Rightarrow> []);
          d = \<lparr>tiktok_id = path_video_id (pathname pg), title = t, content = [],
               likes = 0, views = 0, uploader = ''Unknown User'',
               thumbnail_url = (if th = [] then placeholder_thumb t else th),
               video_url = [], platform = plat\<rparr>
      in pending_record (''video_'' @ tiktok_id d) d)"

text \<open>The retry block for a binding of the identifier \<open>page\<close>: an unbound identifier
  throws a \<open>ReferenceError\<close> at its first use, \<open>page.waitForTimeout(2000)\<close>.\<close>

definition link_retry :: "page option \<Rightarrow> string \<Rightarrow> js_error + video" where
  "link_retry binding plat =
     (case binding of
        None \<Rightarrow> Inl (JsError ''ReferenceError'' ''page is not defined'')
      | Some pg \<Rightarrow> Inr (retry_record pg plat))"

text \<open>The binding of \<open>page\<close> in the scope of the catch clause: none, since the
  only declaration, \<open>const page\<close> on line 116, is local to the \<open>try\<close> block.\<close>

definition catch_page_binding :: "page \<Rightarrow> page option" where
  "catch_page_binding partial = None"

text \<open>Lines 211--273: the catch clause. A retry that returns closes the page; one that
  throws is logged and the method returns \<open>null\<close>.\<close>

definition link_catch :: "js_error \<Rightarrow> page \<Rightarrow> svc \<Rightarrow> string \<Rightarrow> video option \<times> svc" where
  "link_catch e partial s plat =
     (if err_name e = ''TimeoutError'' then
        (case link_retry (catch_page_binding partial) plat of
           Inr v \<Rightarrow> (Some v, log s [ClosePage])
         | Inl _ \<Rightarrow> (None, s))
      else (None, s))"

text \<open>The whole method. An error before the navigation leaves no page behind in
  JavaScript either, so \<open>partial\<close> is then the empty document.\<close>

definition empty_page :: page where
  "empty_page = \<lparr>pathname = [], doc_one = [], doc_all = []\<rparr>"

definition scanVideoLink :: "world \<Rightarrow> svc \<Rightarrow> string \<Rightarrow> string \<Rightarrow> video option \<times> svc" where
  "scanVideoLink w s url plat =
     (case open_page w s of
        (Inl e, s1) \<Rightarrow> link_catch e empty_page s1 plat
      | (Inr _, s1) \<Rightarrow>
          (case navigate w s1 url of
             (Failed e partial, s2) \<Rightarrow> link_catch e partial s2 plat
           | (Loaded pg, s2) \<Rightarrow> (Some (link_record pg plat), log s2 [ClosePage])))"

section \<open>Lemmas\<close>

lemma link_catch_None: "link_catch e partial s plat = (None, s)"
  by (simp add: link_catch_def link_retry_def catch_page_binding_def)

lemma link_record_fresh: "fresh_record (link_record pg plat)"
  by (simp add: link_record_def Let_def split: prod.splits)

lemma link_record_id: "v_id (link_record pg plat) = ''video_'' @ tiktok_id (link_record pg plat)"
  by (simp add: link_record_def Let_def split: prod.splits)

lemma scanVideoLink_Some:
  "fst (scanVideoLink w s url plat) = Some v \<Longrightarrow> \<exists>pg. v = link_record pg plat"
  by (auto simp: scanVideoLink_def navigate_def link_catch_None
      split: prod.splits sum.splits nav.splits)

section \<open>Properties\<close>

text \<open>C2: The retry after a navigation timeout never produces a record: the retry
  block dereferences \<open>page\<close>, which is out of scope in the catch clause, and the
  resulting \<open>ReferenceError\<close> is swallowed, so a link whose navigation times out is
  always dropped.\<close>

theorem scanVideoLink_timeout:
  assumes "browser s"
    and "goto_result w (page_cookies s) url = Failed (JsError ''TimeoutError'' m) partial"
  shows "fst (scanVideoLink w s url plat) = None"
  using assms
  by (simp add: scanVideoLink_def open_page_held navigate_def link_catch_def link_retry_def
      catch_page_binding_def)

theorem scanVideoLink_timeout_witness:
  "fst (scanVideoLink
          \<lparr>launch_result = None,
           goto_result = (\<lambda>_ _. Failed (JsError ''TimeoutError'' ''Navigation timeout of 60000 ms exceeded'')
                                   \<lparr>pathname = ''/@u/video/42'', doc_one = [(''h1'', Node ''Clip'' [] None [] [])],
                                    doc_all = []\<rparr>),
           scroll_result = Inr\<rparr>
          \<lparr>browser = True, cookies = None, calls = []\<rparr> ''https://www.tiktok.com/@u/video/42'' ''tiktok'') = None"
  by (rule scanVideoLink_timeout) simp_all

text \<open>A link scan that returns a record returns one pending, not downloaded, with a
  non-empty thumbnail URL (the placeholder when the page shows none) and the id
  \<open>video_\<close> followed by the platform id.\<close>

theorem scanVideoLink_fresh:
  assumes "fst (scanVideoLink w s url plat) = Some v"
  shows "fresh_record v \<and> v_id v = ''video_'' @ tiktok_id v"
  using scanVideoLink_Some [OF assms] link_record_fresh link_record_id by blast

theorem scanVideoLink_fresh_witness:
  "fresh_record (link_record empty_page ''tiktok'')"
proof -
  have "fst (scanVideoLink \<lparr>launch_result = None, goto_result = (\<lambda>_ _. Loaded empty_page),
                            scroll_result = Inr\<rparr>
               \<lparr>browser = False, cookies = None, calls = []\<rparr> ''https://www.tiktok.com/@u/video/1'' ''tiktok'') =
        Some (link_record empty_page ''tiktok'')"
    by (simp add: scanVideoLink_def open_page_def initBrowser_def navigate_def)
  from scanVideoLink_fresh [OF this] show ?thesis by blast
qed

text \<open>C8: A link scan run with the browser up closes the page it opens exactly when it
  returns a record; on every path that returns no record the page stays open.\<close>

theorem scanVideoLink_pages:
  assumes "browser s" and "scanVideoLink w s url plat = (r, s')"
  shows "page_balance (calls s') = page_balance (calls s) + (if r = None then 1 else 0)"
  using assms
  by (auto simp: scanVideoLink_def open_page_held navigate_def link_catch_None
      split: option.splits nav.splits)

theorem scanVideoLink_pages_witness:
  "page_balance (calls (snd (scanVideoLink
      \<lparr>launch_result = None, goto_result = (\<lambda>_ _. Failed (JsError ''Error'' ''net::ERR_NAME_NOT_RESOLVED'') empty_page),
       scroll_result = Inr\<rparr>
      \<lparr>browser = True, cookies = Some ''sid=1'', calls = []\<rparr> ''https://bad.example/video/1'' ''tiktok''))) = 1"
proof -
  let ?w = "\<lparr>launch_result = None,
             goto_result = (\<lambda>_ _. Failed (JsError ''Error'' ''net::ERR_NAME_NOT_RESOLVED'') empty_page),
             scroll_result = Inr\<rparr>"
  let ?s = "\<lparr>browser = True, cookies = Some ''sid=1'', calls = []\<rparr>"
  have r: "fst (scanVideoLink ?w ?s ''https://bad.example/video/1'' ''tiktok'') = None"
    by (simp add: scanVideoLink_def open_page_held navigate_def link_catch_None)
  have "page_balance (calls (snd (scanVideoLink ?w ?s ''https://bad.example/video/1'' ''tiktok''))) =
        page_balance (calls ?s) + (if fst (scanVideoLink ?w ?s ''https://bad.example/video/1'' ''tiktok'') = None then 1 else 0)"
    by (rule scanVideoLink_pages) simp_all
  with r show ?thesis by simp
qed

text \<open>The retry block itself is sound: with \<open>page\<close> bound, it returns a pending
  record with a non-empty thumbnail and zero metrics.\<close>

theorem link_retry_bound:
  "\<exists>v. link_retry (Some pg) plat = Inr v \<and> fresh_record v \<and> likes v = 0 \<and> views v = 0"
  by (simp add: link_retry_def retry_record_def Let_def)

text \<open>The platform id is read back from a profile-style video path
  \<open>/@user/video/id\<close> (user and id without \<open>/\<close>, id without \<open>?\<close>).\<close>

theorem path_video_id_profile_url:
  assumes "CHR ''/'' \<notin> set u" and "CHR ''/'' \<notin> set vid" and "CHR ''?'' \<notin> set vid" and "vid \<noteq> []"
  shows "path_video_id (''/@'' @ u @ ''/video/'' @ vid) = vid"
proof -
  have "js_split (''/@'' @ u @ ''/video/'' @ vid) ''/video/'' = [''/@'' @ u, vid]"
  proof -
    have "split_from ''/video/'' [] (''/@'' @ u @ ''/video/'' @ vid) =
          split_from ''/video/'' ''/@'' (u @ ''/video/'' @ vid)"
      by (simp add: starts_with_def)
    also have "\<dots> = split_from ''/video/'' (''/@'' @ u) (''/video/'' @ vid)"
      using assms(1) split_from_skip_hd [of "''/video/''" u "''/@''"] by simp
    also have "\<dots> = (''/@'' @ u) # split_from ''/video/'' [] vid"
      by (rule split_from_at_sep) simp
    also have "\<dots> = [''/@'' @ u, vid]"
      using assms(2) split_from_no_hd [of "''/video/''" vid "[]"] by simp
    finally show ?thesis by (simp add: js_split_def)
  qed
  moreover have "js_split vid ''?'' = [vid]" using assms(3) by (rule js_split_no_sep)
  ultimately show ?thesis
    using assms(4) by (simp add: path_video_id_def video_id_part_def js_index_def js_or_def)
qed

theorem path_video_id_profile_url_witness:
  "path_video_id ''/@vzry4n.cenas/video/7303728609955515653'' = ''7303728609955515653''"
  by (rule path_video_id_profile_url [of "''vzry4n.cenas''", simplified]) simp_all

text \<open>The title chain stops at the first element found even when its text is blank:
  on a page whose \<open>h1\<close> is blank and whose \<open>.video-title\<close> reads \<open>Dance\<close>, the
  scan records \<open>Untitled Video\<close>, where the spec's chain gives \<open>Dance\<close>.\<close>

theorem eval_video_page_blank_title:
  "title (eval_video_page
            \<lparr>pathname = ''/@u/video/1'',
             doc_one = [(''h1'', Node '' '' [] None [] []), (''.video-title'', Node ''Dance'' [] None [] [])],
             doc_all = []\<rparr> ''tiktok'') = ''Untitled Video'' \<and>
   spec_text_field (query \<lparr>pathname = ''/@u/video/1'',
             doc_one = [(''h1'', Node '' '' [] None [] []), (''.video-title'', Node ''Dance'' [] None [] [])],
             doc_all = []\<rparr>) title_sels ''Untitled Video'' = ''Dance''"
  by (simp add: eval_video_page_def title_sels_def query_def text_of_def spec_text_field_def
      js_trim_def is_ws_def)

end
