(* ===== verification/Feed_Scanners.thy ===== *)
theory Feed_Scanners
  imports Link_Scanner
begin

text \<open>
  \<open>TikTokService.scanUserProfile\<close>, \<open>scanHashtag\<close> and \<open>scrollToLoadMore\<close>
  (src/server/services/tiktokService.js, lines 276--442): one listing page to at most
  20 (profile) or 15 (hashtag) records.

  Both open a page as the link scanner does, navigate (to the profile URL, or to
  \<open>https://www.tiktok.com/tag/\<close> followed by the hashtag with its first \<open>#\<close>
  removed), scroll three times, read the feed items, close the page, cut the list and
  spread every item into a pending record with the placeholder thumbnail. Any error
  makes the scan return the empty list.

  The feed items are taken from \<open>querySelectorAll(a) || querySelectorAll(b) ||
  querySelectorAll(c)\<close>. \<open>querySelectorAll\<close> returns a \<open>NodeList\<close>, an object,
  which is truthy even when empty; the chain therefore always yields the list of the
  first selector, and the two fallback selectors are never used
  (\<open>feed_items\<close> models the chain with every candidate present).
\<close>

section \<open>Scrolling\<close>

text \<open>Lines 430--442: three rounds of \<open>window.scrollTo\<close> and a wait; the
  \<open>try\<close> around the loop ends it at the first error, keeping the page as it is.\<close>

fun scroll_loop :: "world \<Rightarrow> nat \<Rightarrow> page \<Rightarrow> page \<times> browser_call list" where
  "scroll_loop w 0 pg = (pg, [])"
| "scroll_loop w (Suc n) pg =
     (case scroll_result w pg of
        Inl _ \<Rightarrow> (pg, [Scroll])
      | Inr pg' \<Rightarrow> (case scroll_loop w n pg' of (p, cs) \<Rightarrow> (p, Scroll # cs)))"

definition scrollToLoadMore :: "world \<Rightarrow> svc \<Rightarrow> page \<Rightarrow> page \<times> svc" where
  "scrollToLoadMore w s pg = (case scroll_loop w 3 pg of (p, cs) \<Rightarrow> (p, log s cs))"

section \<open>Feed items\<close>

definition feed_items :: "page \<Rightarrow> string list \<Rightarrow> node list" where
  "feed_items pg sels =
     (case first_some (\<lambda>s. Some (query_all pg s)) sels of Some ns \<Rightarrow> ns | None \<Rightarrow> [])"

definition video_link_sel :: string where
  \<open>video_link_sel = ''a[href*="/video/"]''\<close>

text \<open>\<open>linkElement?.href?.split('/video/')[1]?.split('?')[0] || d\<close>\<close>

definition item_video_id :: "node \<Rightarrow> string \<Rightarrow> string" where
  "item_video_id el d = opt_or (Option.bind (node_query el video_link_sel) (\<lambda>a. video_id_part (n_href a))) d"

definition item_title_sels :: "string list" where
  \<open>item_title_sels = [''.video-title'', ''h3'', ''p'']\<close>

section \<open>Profile scan\<close>

definition profile_item_sels :: "string list" where
  \<open>profile_item_sels = [''[data-e2e="user-post-item"]'', ''.video-feed-item'', ''a[href*="/video/"]'']\<close>

definition item_likes_sels :: "string list" where
  \<open>item_likes_sels = [''.like-count'', ''[data-e2e="like-count"]'', ''.stats-item:first-child'']\<close>

definition item_views_sels :: "string list" where
  \<open>item_views_sels = [''.view-count'', ''[data-e2e="video-views"]'', ''.stats-item:last-child'']\<close>

text \<open>\<open>window.location.pathname.split('/@')[1]?.split('/')[0] || 'Unknown User'\<close>\<close>

definition path_uploader :: "string \<Rightarrow> string" where
  "path_uploader p =
     opt_or (Option.bind (js_index (js_split p ''/@'') 1) (\<lambda>x. js_index (js_split x ''/'') 0))
       ''Unknown User''"

text \<open>The object built for the item at \<open>index\<close>, lines 307--333.\<close>

definition profile_item :: "page \<Rightarrow> nat \<Rightarrow> node \<Rightarrow> video_data" where
  "profile_item pg i el =
     \<lparr>tiktok_id = item_video_id el (''unknown_'' @ show_nat i),
      title = text_of (first_some (node_query el) item_title_sels) (''Video '' @ show_nat (i + 1)),
      content = [],
      likes = count_of (first_some (node_query el) item_likes_sels),
      views = count_of (first_some (node_query el) item_views_sels),
      uploader = path_uploader (pathname pg),
      thumbnail_url = [], video_url = [], platform = ''tiktok''\<rparr>"

definition eval_profile_page :: "page \<Rightarrow> video_data list" where
  "eval_profile_page pg =
     map (\<lambda>(i, el). profile_item pg i el) (enumerate 0 (feed_items pg profile_item_sels))"

text \<open>\<open>{ id: prefix + tiktok_id, ...video, thumbnail_url: video.thumbnail_url || placeholder,
  downloaded: false, status: 'pending' }\<close>\<close>

definition feed_record :: "string \<Rightarrow> video_data \<Rightarrow> video" where
  "feed_record prefix d =
     pending_record (prefix @ tiktok_id d)
       (d\<lparr>thumbnail_url := js_or (thumbnail_url d) (placeholder_thumb (title d))\<rparr>)"

text \<open>Lines 339--346: \<open>videos.slice(0, 20).map(...)\<close>.\<close>

definition profile_records :: "page \<Rightarrow> video list" where
  "profile_records pg = map (feed_record ''user_'') (take 20 (eval_profile_page pg))"

definition scanUserProfile :: "world \<Rightarrow> svc \<Rightarrow> string \<Rightarrow> string \<Rightarrow> video list \<times> svc" where
  "scanUserProfile w s url plat =
     (case open_page w s of
        (Inl _, s1) \<Rightarrow> ([], s1)
      | (Inr _, s1) \<Rightarrow>
          (case navigate w s1 url of
             (Failed _ _, s2) \<Rightarrow> ([], s2)
           | (Loaded pg, s2) \<Rightarrow>
               (case scrollToLoadMore w s2 pg of
                  (pg', s3) \<Rightarrow> (profile_records pg', log s3 [ClosePage]))))"

section \<open>Hashtag scan\<close>

text \<open>\<open>`https://www.tiktok.com/tag/${hashtag.replace('#', '')}`\<close>\<close>

definition hashtag_url :: "string \<Rightarrow> string" where
  "hashtag_url tag = ''https://www.tiktok.com/tag/'' @ js_replace ''#'' [] tag"

definition hashtag_item_sels :: "string list" where
  \<open>hashtag_item_sels = [''[data-e2e="search-card-container"]'', ''.video-card'', ''a[href*="/video/"]'']\<close>

definition item_uploader_sels :: "string list" where
  \<open>item_uploader_sels = [''.author-unique-id'', ''.username'', ''a[href*="/@"]'']\<close>

text \<open>The object built for the item at \<open>index\<close>, lines 387--410.\<close>

definition hashtag_item :: "nat \<Rightarrow> node \<Rightarrow> video_data" where
  "hashtag_item i el =
     \<lparr>tiktok_id = item_video_id el (''hashtag_'' @ show_nat i),
      title = text_of (first_some (node_query el) item_title_sels) (''Hashtag Video '' @ show_nat (i + 1)),
      content = [], likes = 0, views = 0,
      uploader = text_of (first_some (node_query el) item_uploader_sels) ''Unknown User'',
      thumbnail_url = [], video_url = [], platform = ''tiktok''\<rparr>"

definition eval_hashtag_page :: "page \<Rightarrow> video_data list" where
  "eval_hashtag_page pg =
     map (\<lambda>(i, el). hashtag_item i el) (enumerate 0 (feed_items pg hashtag_item_sels))"

definition hashtag_records :: "page \<Rightarrow> video list" where
  "hashtag_records pg = map (feed_record ''hashtag_'') (take 15 (eval_hashtag_page pg))"

definition scanHashtag :: "world \<Rightarrow> svc \<Rightarrow> string \<Rightarrow> string \<Rightarrow> video list \<times> svc" where
  "scanHashtag w s tag plat =
     (case open_page w s of
        (Inl _, s1) \<Rightarrow> ([], s1)
      | (Inr _, s1) \<Rightarrow>
          (case navigate w s1 (hashtag_url tag) of
             (Failed _ _, s2) \<Rightarrow> ([], s2)
           | (Loaded pg, s2) \<Rightarrow>
               (case scrollToLoadMore w s2 pg of
                  (pg', s3) \<Rightarrow> (hashtag_records pg', log s3 [ClosePage]))))"

section \<open>Fixtures\<close>

text \<open>Pages and a world for the witnesses: a listing with one profile card and one
  search card under the first selectors, a profile page whose cards are only under
  the second (fallback) selector, and a world that loads a given page for any URL
  and whose scrolls change nothing.\<close>

definition fixture_listing :: page where
  \<open>fixture_listing =
     \<lparr>pathname = ''/@creator'', doc_one = [],
      doc_all = [(''[data-e2e="search-card-container"]'',
                   [Node ''clip'' [] None [] [(''a[href*="/video/"]'', Node [] [] None ''https://www.tiktok.com/@a/video/77?lang=en'' [])]]),
                 (''[data-e2e="user-post-item"]'', [Node ''post'' [] None [] []])]\<rparr>\<close>

definition fixture_fallback_only :: page where
  "fixture_fallback_only =
     \<lparr>pathname = ''/@creator'', doc_one = [], doc_all = [(''.video-feed-item'', [Node ''card'' [] None [] []])]\<rparr>"

definition fixture_world :: "page \<Rightarrow> world" where
  "fixture_world pg = \<lparr>launch_result = None, goto_result = (\<lambda>_ _. Loaded pg), scroll_result = Inr\<rparr>"

definition fixture_svc :: svc where
  "fixture_svc = \<lparr>browser = True, cookies = None, calls = []\<rparr>"

section \<open>Lemmas\<close>

lemma feed_items_first: "feed_items pg (s # ss) = query_all pg s"
  by (simp add: feed_items_def)

lemma feed_record_fresh: "fresh_record (feed_record p d)"
  by (simp add: feed_record_def js_or_def)

lemma feed_record_fields [simp]:
  "v_id (feed_record p d) = p @ tiktok_id d"
  "likes (feed_record p d) = likes d"
  "views (feed_record p d) = views d"
  "platform (feed_record p d) = platform d"
  "tiktok_id (feed_record p d) = tiktok_id d"
  by (simp_all add: feed_record_def)

lemma scanUserProfile_cases:
  "fst (scanUserProfile w s url plat) = [] \<or>
   (\<exists>pg. fst (scanUserProfile w s url plat) = profile_records pg)"
  by (auto simp: scanUserProfile_def navigate_def scrollToLoadMore_def
      split: prod.splits sum.splits nav.splits)

lemma scanHashtag_cases:
  "fst (scanHashtag w s tag plat) = [] \<or>
   (\<exists>pg. fst (scanHashtag w s tag plat) = hashtag_records pg)"
  by (auto simp: scanHashtag_def navigate_def scrollToLoadMore_def
      split: prod.splits sum.splits nav.splits)

lemma scroll_loop_calls:
  "length (snd (scroll_loop w n pg)) \<le> n \<and> set (snd (scroll_loop w n pg)) \<subseteq> {Scroll}"
  by (induction w n pg rule: scroll_loop.induct) (auto split: sum.splits prod.splits)

lemma fixture_world_simps [simp]:
  "launch_result (fixture_world pg) = None"
  "goto_result (fixture_world pg) c u = Loaded pg"
  "scroll_result (fixture_world pg) p = Inr p"
  by (simp_all add: fixture_world_def)

lemma scroll_loop_identity: "scroll_loop (fixture_world pg) n p = (p, replicate n Scroll)"
  by (induction n arbitrary: p) simp_all

lemmas fixture_simps = fixture_svc_def open_page_held navigate_def
  scrollToLoadMore_def scroll_loop_identity

lemma fixture_scans:
  "fst (scanHashtag (fixture_world fixture_listing) fixture_svc ''#dance'' ''douyin'') \<noteq> []"
  "fst (scanUserProfile (fixture_world fixture_listing) fixture_svc ''https://www.douyin.com/@creator'' ''douyin'') \<noteq> []"
  by (simp_all add: scanHashtag_def scanUserProfile_def fixture_simps
      hashtag_records_def eval_hashtag_page_def profile_records_def eval_profile_page_def
      feed_items_def hashtag_item_sels_def profile_item_sels_def query_all_def fixture_listing_def)

lemma profile_records_fresh: "v \<in> set (profile_records pg) \<Longrightarrow> fresh_record v"
  by (auto simp: profile_records_def feed_record_fresh dest!: in_set_takeD)

lemma hashtag_records_fresh: "v \<in> set (hashtag_records pg) \<Longrightarrow> fresh_record v"
  by (auto simp: hashtag_records_def feed_record_fresh dest!: in_set_takeD)

lemma scanUserProfile_fresh: "v \<in> set (fst (scanUserProfile w s url plat)) \<Longrightarrow> fresh_record v"
  using scanUserProfile_cases [of w s url plat] profile_records_fresh by auto

lemma scanHashtag_fresh: "v \<in> set (fst (scanHashtag w s tag plat)) \<Longrightarrow> fresh_record v"
  using scanHashtag_cases [of w s tag plat] hashtag_records_fresh by auto

lemma scanUserProfile_ids: "v \<in> set (fst (scanUserProfile w s url plat)) \<Longrightarrow> v_id v = ''user_'' @ tiktok_id v"
  using scanUserProfile_cases [of w s url plat] by (auto simp: profile_records_def dest!: in_set_takeD)

lemma scanHashtag_ids: "v \<in> set (fst (scanHashtag w s tag plat)) \<Longrightarrow> v_id v = ''hashtag_'' @ tiktok_id v"
  using scanHashtag_cases [of w s tag plat] by (auto simp: hashtag_records_def dest!: in_set_takeD)

lemma scanUserProfile_length: "length (fst (scanUserProfile w s url plat)) \<le> 20"
  using scanUserProfile_cases [of w s url plat] by (auto simp: profile_records_def)

lemma scanHashtag_length: "length (fst (scanHashtag w s tag plat)) \<le> 15"
  using scanHashtag_cases [of w s tag plat] by (auto simp: hashtag_records_def)

section \<open>Properties\<close>

text \<open>A profile scan keeps at most twenty records: exactly the first
  \<open>min 20 n\<close> of the \<open>n\<close> feed items (fifty items give twenty records).\<close>

theorem profile_records_length:
  \<open>length (profile_records pg) = min 20 (length (query_all pg ''[data-e2e="user-post-item"]''))\<close>
  by (simp add: profile_records_def eval_profile_page_def profile_item_sels_def feed_items_first)

text \<open>C13: Every record of a profile scan is pending, not downloaded, has a non-empty
  thumbnail, the id \<open>user_\<close> followed by its platform id, and the platform
  \<open>tiktok\<close> whatever platform the scan was asked for; a profile scan that returns
  records returns at most twenty.\<close>

theorem scanUserProfile_shape:
  assumes "v \<in> set (fst (scanUserProfile w s url plat))"
  shows "fresh_record v \<and> platform v = ''tiktok'' \<and> v_id v = ''user_'' @ tiktok_id v \<and>
         length (fst (scanUserProfile w s url plat)) \<le> 20"
proof -
  from assms scanUserProfile_cases [of w s url plat]
  obtain pg where pg: "fst (scanUserProfile w s url plat) = profile_records pg" by auto
  have "fresh_record v \<and> platform v = ''tiktok'' \<and> v_id v = ''user_'' @ tiktok_id v"
    using assms pg
    by (auto simp: profile_records_def eval_profile_page_def feed_record_fresh profile_item_def
        dest!: in_set_takeD)
  moreover have "length (profile_records pg) \<le> 20"
    by (simp add: profile_records_def)
  ultimately show ?thesis using pg by simp
qed

theorem scanUserProfile_shape_witness:
  "platform (hd (fst (scanUserProfile (fixture_world fixture_listing) fixture_svc
                  ''https://www.douyin.com/@creator'' ''douyin''))) = ''tiktok''"
proof -
  let ?r = "fst (scanUserProfile (fixture_world fixture_listing) fixture_svc
                  ''https://www.douyin.com/@creator'' ''douyin'')"
  from fixture_scans(2) have "hd ?r \<in> set ?r" by simp
  from scanUserProfile_shape [OF this] show ?thesis by blast
qed

text \<open>Every record of a hashtag scan is pending, not downloaded, with a non-empty
  thumbnail, zero likes and zero views, the id \<open>hashtag_\<close> followed by its platform
  id, and the platform \<open>tiktok\<close>, whatever platform the scan was asked for.\<close>

theorem scanHashtag_shape:
  assumes "v \<in> set (fst (scanHashtag w s tag plat))"
  shows "fresh_record v \<and> likes v = 0 \<and> views v = 0 \<and> platform v = ''tiktok'' \<and>
         v_id v = ''hashtag_'' @ tiktok_id v"
proof -
  from assms scanHashtag_cases [of w s tag plat]
  obtain pg where "v \<in> set (hashtag_records pg)" by auto
  then show ?thesis
    by (auto simp: hashtag_records_def eval_hashtag_page_def feed_record_fresh hashtag_item_def
        dest!: in_set_takeD)
qed

theorem scanHashtag_shape_witness:
  "likes (hd (fst (scanHashtag (fixture_world fixture_listing) fixture_svc ''#dance'' ''douyin''))) = 0 \<and>
   platform (hd (fst (scanHashtag (fixture_world fixture_listing) fixture_svc ''#dance'' ''douyin''))) = ''tiktok''"
proof -
  let ?r = "fst (scanHashtag (fixture_world fixture_listing) fixture_svc ''#dance'' ''douyin'')"
  from fixture_scans(1) have "hd ?r \<in> set ?r" by simp
  from scanHashtag_shape [OF this] show ?thesis by blast
qed

text \<open>A hashtag scan keeps the first \<open>min 15 n\<close> of the \<open>n\<close> search cards.\<close>

theorem hashtag_records_length:
  \<open>length (hashtag_records pg) = min 15 (length (query_all pg ''[data-e2e="search-card-container"]''))\<close>
  by (simp add: hashtag_records_def eval_hashtag_page_def hashtag_item_sels_def feed_items_first)

text \<open>C14: The fallback selectors of the feed chain are dead: when the first selector
  finds no card, the profile scan returns no record, whatever cards the fallback
  selectors would find.\<close>

theorem profile_fallback_unused:
  \<open>query_all pg ''[data-e2e="user-post-item"]'' = [] \<Longrightarrow> profile_records pg = []\<close>
  by (simp add: profile_records_def eval_profile_page_def profile_item_sels_def feed_items_first)

theorem profile_fallback_unused_witness:
  "query_all fixture_fallback_only ''.video-feed-item'' \<noteq> [] \<and> profile_records fixture_fallback_only = []"
proof -
  have e: \<open>query_all fixture_fallback_only ''[data-e2e="user-post-item"]'' = []\<close>
    by (simp add: query_all_def fixture_fallback_only_def)
  have "query_all fixture_fallback_only ''.video-feed-item'' \<noteq> []"
    by (simp add: query_all_def fixture_fallback_only_def)
  with profile_fallback_unused [OF e] show ?thesis by simp
qed

text \<open>The tag URL drops the first \<open>#\<close> of the hashtag wherever it stands and
  keeps any other: \<open>#dance\<close> and \<open>dan#ce\<close> both give the tag \<open>dance\<close>, and
  \<open>##dance\<close> gives \<open>#dance\<close>; the spec describes the removal of a leading \<open>#\<close>.\<close>

theorem hashtag_url_examples:
  "hashtag_url ''#dance'' = ''https://www.tiktok.com/tag/dance'' \<and>
   hashtag_url ''dan#ce'' = ''https://www.tiktok.com/tag/dance'' \<and>
   hashtag_url ''##dance'' = ''https://www.tiktok.com/tag/#dance''"
  by (simp add: hashtag_url_def starts_with_def)

end
