(* ===== verification/Scan_Orchestrator.thy ===== *)
theory Scan_Orchestrator
  imports Feed_Scanners
begin

text \<open>
  \<open>TikTokService.scanVideos\<close> (src/server/services/tiktokService.js, lines 59--111):
  one batch. It stores the cookie header, launches the browser, then runs the link
  scanner on every video link, the profile scanner on every profile and the hashtag
  scanner on every hashtag, in that order and one at a time, pushing what each
  returns onto one list. A launch error is the only error that reaches its
  \<open>catch\<close>: every scanner catches its own. The browser is not closed here; the HTTP
  route closes it after responding (see \<open>Server_Routes\<close>).

  Proved here: the result of a batch is the concatenation, in the fixed order, of
  what each scanner returns on its own (each scanner's result depends only on the
  world, the cookies and its input, not on the scans before it); a failed launch
  returns the failure result with its message and starts no scanner; a failing link
  does not fail the batch; every record of a batch is fresh; the batch launches the
  browser at most once; the size of a batch is bounded by the caps.
\<close>

record scan_request =
  req_platform :: string
  video_links :: "string list"
  user_profiles :: "string list"
  hashtags :: "string list"
  req_cookies :: string

record scan_result =
  success :: bool
  videos :: "video list"
  message :: "string option"
  total_count :: "nat option"

text \<open>The three \<open>for ... of\<close> loops, lines 71--94, each pushing onto \<open>videos\<close>.\<close>

fun scan_links :: "world \<Rightarrow> string \<Rightarrow> string list \<Rightarrow> video list \<times> svc \<Rightarrow> video list \<times> svc" where
  "scan_links w plat [] st = st"
| "scan_links w plat (l # ls) (vs, s) =
     (case scanVideoLink w s l plat of
        (Some v, s1) \<Rightarrow> scan_links w plat ls (vs @ [v], s1)
      | (None, s1) \<Rightarrow> scan_links w plat ls (vs, s1))"

text \<open>\<open>for (const x of xs) { const r = await scan(x); videos.push(...r); }\<close>\<close>

fun push_all :: "('x \<Rightarrow> svc \<Rightarrow> video list \<times> svc) \<Rightarrow> 'x list \<Rightarrow> video list \<times> svc \<Rightarrow> video list \<times> svc" where
  "push_all f [] st = st"
| "push_all f (x # xs) (vs, s) = (case f x s of (rs, s1) \<Rightarrow> push_all f xs (vs @ rs, s1))"

definition scan_profiles :: "world \<Rightarrow> string \<Rightarrow> string list \<Rightarrow> video list \<times> svc \<Rightarrow> video list \<times> svc" where
  "scan_profiles w plat = push_all (\<lambda>u s. scanUserProfile w s u plat)"

definition scan_hashtags :: "world \<Rightarrow> string \<Rightarrow> string list \<Rightarrow> video list \<times> svc \<Rightarrow> video list \<times> svc" where
  "scan_hashtags w plat = push_all (\<lambda>h s. scanHashtag w s h plat)"

definition scanVideos :: "world \<Rightarrow> svc \<Rightarrow> scan_request \<Rightarrow> scan_result \<times> svc" where
  "scanVideos w s req =
     (case initBrowser w (setCookies (req_cookies req) s) of
        (Inl e, s1) \<Rightarrow>
          (\<lparr>success = False, videos = [], message = Some (err_msg e), total_count = None\<rparr>, s1)
      | (Inr _, s1) \<Rightarrow>
          (case scan_hashtags w (req_platform req) (hashtags req)
                  (scan_profiles w (req_platform req) (user_profiles req)
                     (scan_links w (req_platform req) (video_links req) ([], s1))) of
             (vs, s2) \<Rightarrow>
               (\<lparr>success = True, videos = vs, message = None, total_count = Some (length vs)\<rparr>, s2)))"

text \<open>The contract of a batch: the record of each link that yields one, then the
  records of each profile, then those of each hashtag, each as its scanner returns it
  when run alone in the state after the launch.\<close>

definition batch_videos :: "world \<Rightarrow> svc \<Rightarrow> scan_request \<Rightarrow> video list" where
  "batch_videos w s1 req =
     List.map_filter (\<lambda>l. fst (scanVideoLink w s1 l (req_platform req))) (video_links req) @
     concat (map (\<lambda>u. fst (scanUserProfile w s1 u (req_platform req))) (user_profiles req)) @
     concat (map (\<lambda>h. fst (scanHashtag w s1 h (req_platform req))) (hashtags req))"

text \<open>Between two states: the second is the first with calls appended, none of
  them a launch.\<close>

definition appends_no_launch :: "svc \<Rightarrow> svc \<Rightarrow> bool" where
  "appends_no_launch s s' \<longleftrightarrow> (\<exists>cs. s' = log s cs \<and> Launch \<notin> set cs)"

text \<open>What every scanner of a batch satisfies in the state \<open>s\<close> after the launch:
  its result does not depend on the calls logged before it, and it only appends calls,
  none of them a launch.\<close>

definition held_step :: "svc \<Rightarrow> ('x \<Rightarrow> svc \<Rightarrow> 'r \<times> svc) \<Rightarrow> bool" where
  "held_step s f \<longleftrightarrow>
     (\<forall>x cs. Launch \<notin> set cs \<longrightarrow>
        fst (f x (log s cs)) = fst (f x s) \<and> appends_no_launch (log s cs) (snd (f x (log s cs))))"

text \<open>A request for the witnesses: one link, one profile, one hashtag.\<close>

definition fixture_request :: scan_request where
  "fixture_request = \<lparr>req_platform = ''tiktok'', video_links = [''https://www.tiktok.com/@a/video/77''],
     user_profiles = [''https://www.tiktok.com/@creator''], hashtags = [''#dance''], req_cookies = ''sid=1''\<rparr>"

section \<open>Lemmas\<close>

lemma log_log [simp]: "log (log s xs) ys = log s (xs @ ys)"
  by (simp add: log_def)

lemma log_Nil [simp]: "log s [] = s"
  by (simp add: log_def)

lemma appends_no_launch_log [simp]: "appends_no_launch s (log s cs) \<longleftrightarrow> Launch \<notin> set cs"
  by (auto simp: appends_no_launch_def dest: arg_cong [where f = calls])

lemma appends_no_launch_trans:
  "appends_no_launch s1 s2 \<Longrightarrow> appends_no_launch s2 s3 \<Longrightarrow> appends_no_launch s1 s3"
  by (auto simp: appends_no_launch_def)

lemma scroll_no_launch: "scroll_loop w n pg = (p, cs) \<Longrightarrow> Launch \<notin> set cs"
  using scroll_loop_calls [of w n pg] by auto

lemma scanVideoLink_held:
  "browser s \<Longrightarrow> appends_no_launch s (snd (scanVideoLink w s l p))"
  by (auto simp: scanVideoLink_def open_page_held navigate_def link_catch_None
      split: nav.splits option.splits)

lemma scanUserProfile_held:
  "browser s \<Longrightarrow> appends_no_launch s (snd (scanUserProfile w s u p))"
  by (auto simp: scanUserProfile_def open_page_held navigate_def scrollToLoadMore_def
      dest: scroll_no_launch split: nav.splits prod.splits option.splits)

lemma scanHashtag_held:
  "browser s \<Longrightarrow> appends_no_launch s (snd (scanHashtag w s h p))"
  by (auto simp: scanHashtag_def open_page_held navigate_def scrollToLoadMore_def
      dest: scroll_no_launch split: nav.splits prod.splits option.splits)

lemma scanVideoLink_log_indep:
  "browser s \<Longrightarrow> fst (scanVideoLink w (log s cs) l p) = fst (scanVideoLink w s l p)"
  by (simp add: scanVideoLink_def open_page_held navigate_def link_catch_None split: nav.splits)

lemma scanUserProfile_log_indep:
  "browser s \<Longrightarrow> fst (scanUserProfile w (log s cs) u p) = fst (scanUserProfile w s u p)"
  by (simp add: scanUserProfile_def open_page_held navigate_def scrollToLoadMore_def
      split: nav.splits prod.splits)

lemma scanHashtag_log_indep:
  "browser s \<Longrightarrow> fst (scanHashtag w (log s cs) h p) = fst (scanHashtag w s h p)"
  by (simp add: scanHashtag_def open_page_held navigate_def scrollToLoadMore_def
      split: nav.splits prod.splits)

lemma held_stepI:
  assumes "\<And>x cs. fst (f x (log s cs)) = fst (f x s)"
    and "\<And>x cs. appends_no_launch (log s cs) (snd (f x (log s cs)))"
  shows "held_step s f"
  using assms by (simp add: held_step_def)

lemma held_step_scanners:
  assumes "browser s"
  shows "held_step s (\<lambda>l s. scanVideoLink w s l p)"
    "held_step s (\<lambda>u s. scanUserProfile w s u p)"
    "held_step s (\<lambda>h s. scanHashtag w s h p)"
  using assms
  by (simp_all add: held_stepI scanVideoLink_log_indep scanUserProfile_log_indep
      scanHashtag_log_indep scanVideoLink_held scanUserProfile_held scanHashtag_held)

lemma held_step_apply:
  assumes "held_step s f" and "Launch \<notin> set cs"
  obtains ds where "f x (log s cs) = (fst (f x s), log s (cs @ ds))" and "Launch \<notin> set ds"
  using assms by (auto simp: held_step_def appends_no_launch_def prod_eq_iff)

lemma scan_links_eq:
  assumes "held_step s (\<lambda>l s. scanVideoLink w s l p)" and "Launch \<notin> set cs"
  shows "\<exists>ds. scan_links w p ls (vs, log s cs) =
           (vs @ List.map_filter (\<lambda>l. fst (scanVideoLink w s l p)) ls, log s ds) \<and> Launch \<notin> set ds"
  using assms(2)
proof (induction ls arbitrary: vs cs)
  case (Cons l ls)
  obtain ds where st: "scanVideoLink w (log s cs) l p = (fst (scanVideoLink w s l p), log s (cs @ ds))"
    and nd: "Launch \<notin> set ds"
    using held_step_apply [OF assms(1) Cons.prems] by blast
  have nl: "Launch \<notin> set (cs @ ds)" using Cons.prems nd by simp
  show ?case
  proof (cases "fst (scanVideoLink w s l p)")
    case None
    with st Cons.IH [OF nl, of vs] show ?thesis by (simp add: map_filter_simps)
  next
    case (Some v)
    with st Cons.IH [OF nl, of "vs @ [v]"] show ?thesis by (simp add: map_filter_simps)
  qed
qed auto

lemma push_all_eq:
  assumes "held_step s f" and "Launch \<notin> set cs"
  shows "\<exists>ds. push_all f xs (vs, log s cs) = (vs @ concat (map (\<lambda>x. fst (f x s)) xs), log s ds) \<and>
             Launch \<notin> set ds"
  using assms(2)
proof (induction xs arbitrary: vs cs)
  case (Cons x xs)
  obtain ds where "f x (log s cs) = (fst (f x s), log s (cs @ ds))" and "Launch \<notin> set ds"
    using held_step_apply [OF assms(1) Cons.prems] by blast
  with Cons.IH [of "cs @ ds" "vs @ fst (f x s)"] Cons.prems show ?case by auto
qed auto

lemma scanVideos_eq:
  assumes "initBrowser w (setCookies (req_cookies req) s) = (Inr u, s1)"
  defines "vs \<equiv> List.map_filter (\<lambda>l. fst (scanVideoLink w s1 l (req_platform req))) (video_links req) @
               concat (map (\<lambda>x. fst (scanUserProfile w s1 x (req_platform req))) (user_profiles req)) @
               concat (map (\<lambda>x. fst (scanHashtag w s1 x (req_platform req))) (hashtags req))"
  shows "\<exists>cs. scanVideos w s req =
     (\<lparr>success = True, videos = vs, message = None, total_count = Some (length vs)\<rparr>, log s1 cs) \<and>
     Launch \<notin> set cs"
proof -
  have b: "browser s1" using assms initBrowser_Inr by blast
  note h = held_step_scanners [OF b, of w "req_platform req"]
  let ?p = "req_platform req"
  define vl where "vl = List.map_filter (\<lambda>l. fst (scanVideoLink w s1 l ?p)) (video_links req)"
  define vp where "vp = concat (map (\<lambda>x. fst (scanUserProfile w s1 x ?p)) (user_profiles req))"
  define vh where "vh = concat (map (\<lambda>x. fst (scanHashtag w s1 x ?p)) (hashtags req))"
  obtain c1 where l: "scan_links w ?p (video_links req) ([], s1) = (vl, log s1 c1)" and n1: "Launch \<notin> set c1"
    using scan_links_eq [OF h(1), of "[]" "video_links req" "[]"] unfolding vl_def by auto
  obtain c2 where pr: "scan_profiles w ?p (user_profiles req) (vl, log s1 c1) = (vl @ vp, log s1 c2)"
    and n2: "Launch \<notin> set c2"
    using push_all_eq [OF h(2) n1, of "user_profiles req" vl] unfolding scan_profiles_def vp_def by blast
  obtain c3 where hs: "scan_hashtags w ?p (hashtags req) (vl @ vp, log s1 c2) = (vl @ vp @ vh, log s1 c3)"
    and n3: "Launch \<notin> set c3"
    using push_all_eq [OF h(3) n2, of "hashtags req" "vl @ vp"] unfolding scan_hashtags_def vh_def by auto
  have "vs = vl @ vp @ vh" unfolding vs_def vl_def vp_def vh_def ..
  with assms(1) l pr hs n3 show ?thesis by (auto simp: scanVideos_def)
qed

lemma length_concat_map_le: "(\<And>x. length (f x) \<le> k) \<Longrightarrow> length (concat (map f xs)) \<le> k * length xs"
  by (induction xs) (auto simp: add_mono)

lemma in_map_filterD: "v \<in> set (List.map_filter f xs) \<Longrightarrow> \<exists>x. f x = Some v"
  by (induction xs) (auto simp: map_filter_simps split: option.splits)

lemma length_map_filter_le: "length (List.map_filter f xs) \<le> length xs"
  by (induction xs) (auto simp: map_filter_simps split: option.splits)

lemma scanVideos_launch_failed:
  "initBrowser w (setCookies (req_cookies req) s) = (Inl e, s1) \<Longrightarrow>
   scanVideos w s req = (\<lparr>success = False, videos = [], message = Some (err_msg e), total_count = None\<rparr>, s1)"
  by (simp add: scanVideos_def)

lemma scanVideos_cases:
  "(\<exists>e s1. initBrowser w (setCookies (req_cookies req) s) = (Inl e, s1) \<and>
      scanVideos w s req = (\<lparr>success = False, videos = [], message = Some (err_msg e), total_count = None\<rparr>, s1)) \<or>
   (\<exists>u s1 cs. initBrowser w (setCookies (req_cookies req) s) = (Inr u, s1) \<and> Launch \<notin> set cs \<and>
      scanVideos w s req = (\<lparr>success = True, videos = batch_videos w s1 req, message = None,
                            total_count = Some (length (batch_videos w s1 req))\<rparr>, log s1 cs))"
proof (cases "initBrowser w (setCookies (req_cookies req) s)")
  case (Pair r s1)
  then show ?thesis
    using scanVideos_eq [of w req s _ s1] scanVideos_launch_failed [of w req s _ s1]
    by (cases r) (auto simp: batch_videos_def)
qed

lemma batch_videos_fresh: "v \<in> set (batch_videos w s1 req) \<Longrightarrow> fresh_record v"
  by (auto simp: batch_videos_def link_record_fresh dest!: in_map_filterD scanVideoLink_Some
      dest: scanUserProfile_fresh scanHashtag_fresh)

lemma batch_videos_ids:
  "v \<in> set (batch_videos w s1 req) \<Longrightarrow>
   v_id v = ''video_'' @ tiktok_id v \<or> v_id v = ''user_'' @ tiktok_id v \<or> v_id v = ''hashtag_'' @ tiktok_id v"
  by (auto simp: batch_videos_def link_record_id dest!: in_map_filterD scanVideoLink_Some
      dest: scanUserProfile_ids scanHashtag_ids)

lemma scanVideos_videos:
  "videos (fst (scanVideos w s req)) = [] \<or>
   (\<exists>s1. success (fst (scanVideos w s req)) \<and> videos (fst (scanVideos w s req)) = batch_videos w s1 req)"
  using scanVideos_cases [of w req s] by auto

section \<open>Properties\<close>

text \<open>C1: A batch whose browser launch succeeds reports success, and its records are,
  in this order, the record of every link that yields one, the records of every
  profile and those of every hashtag, each exactly what that scanner returns when run
  alone in the state after the launch: the scans before it do not change it, and a
  failing link, profile or hashtag only contributes nothing. The count is the number
  of records.\<close>

theorem scanVideos_batch:
  assumes "initBrowser w (setCookies (req_cookies req) s) = (Inr u, s1)"
  shows "fst (scanVideos w s req) =
           \<lparr>success = True, videos = batch_videos w s1 req, message = None,
            total_count = Some (length (batch_videos w s1 req))\<rparr>"
  using scanVideos_eq [OF assms] by (auto simp: batch_videos_def)

theorem scanVideos_batch_witness:
  "videos (fst (scanVideos (fixture_world fixture_listing) new_service fixture_request)) =
   batch_videos (fixture_world fixture_listing)
     \<lparr>browser = True, cookies = Some ''sid=1'', calls = [Launch]\<rparr> fixture_request"
proof -
  have "initBrowser (fixture_world fixture_listing) (setCookies (req_cookies fixture_request) new_service) =
        (Inr (), \<lparr>browser = True, cookies = Some ''sid=1'', calls = [Launch]\<rparr>)"
    by (simp add: initBrowser_def setCookies_def new_service_def fixture_request_def log_def)
  from scanVideos_batch [OF this] show ?thesis by simp
qed

text \<open>C5: When no browser is held and the launch fails, the batch reports failure with
  the launch error's message, no records and no count, having stored the cookie
  header and made one launch attempt and no other browser call.\<close>

theorem scanVideos_launch_failure:
  assumes "\<not> browser s" and "launch_result w = Some e"
  shows "scanVideos w s req =
           (\<lparr>success = False, videos = [], message = Some (err_msg e), total_count = None\<rparr>,
            log (setCookies (req_cookies req) s) [Launch])"
  using assms by (simp add: scanVideos_def initBrowser_def setCookies_def)

theorem scanVideos_launch_failure_witness:
  "scanVideos \<lparr>launch_result = Some (JsError ''Error'' ''Failed to launch the browser process!''),
               goto_result = (\<lambda>_ _. Loaded empty_page), scroll_result = Inr\<rparr>
     new_service fixture_request =
   (\<lparr>success = False, videos = [], message = Some ''Failed to launch the browser process!'', total_count = None\<rparr>,
    \<lparr>browser = False, cookies = Some ''sid=1'', calls = [Launch]\<rparr>)"
  using scanVideos_launch_failure [of new_service
          "\<lparr>launch_result = Some (JsError ''Error'' ''Failed to launch the browser process!''),
            goto_result = (\<lambda>_ _. Loaded empty_page), scroll_result = Inr\<rparr>"
          "JsError ''Error'' ''Failed to launch the browser process!''" fixture_request]
  by (simp add: new_service_def fixture_request_def setCookies_def log_def)

text \<open>C7: Every record a batch returns is pending, not downloaded, without an error
  and with a non-empty thumbnail URL.\<close>

theorem scanVideos_fresh:
  assumes "v \<in> set (videos (fst (scanVideos w s req)))"
  shows "fresh_record v"
  using scanVideos_cases [of w req s] assms by (auto dest: batch_videos_fresh)

theorem scanVideos_fresh_witness:
  "fresh_record (hd (videos (fst (scanVideos (fixture_world fixture_listing) new_service fixture_request))))"
proof -
  let ?r = "videos (fst (scanVideos (fixture_world fixture_listing) new_service fixture_request))"
  let ?s1 = "\<lparr>browser = True, cookies = Some ''sid=1'', calls = [Launch]\<rparr>"
  have "initBrowser (fixture_world fixture_listing) (setCookies (req_cookies fixture_request) new_service) =
        (Inr (), ?s1)"
    by (simp add: initBrowser_def setCookies_def new_service_def fixture_request_def log_def)
  then have "?r = batch_videos (fixture_world fixture_listing) ?s1 fixture_request"
    using scanVideos_eq by (fastforce simp: batch_videos_def)
  moreover have "batch_videos (fixture_world fixture_listing) ?s1 fixture_request \<noteq> []"
    by (simp add: batch_videos_def fixture_request_def scanVideoLink_def open_page_held navigate_def
        map_filter_simps)
  ultimately have "?r \<noteq> []" by simp
  then have "hd ?r \<in> set ?r" by simp
  from scanVideos_fresh [OF this] show ?thesis .
qed

text \<open>C12: A batch returns at most one record per link, twenty per profile and fifteen
  per hashtag.\<close>

theorem scanVideos_bound:
  "length (videos (fst (scanVideos w s req))) \<le>
     length (video_links req) + 20 * length (user_profiles req) + 15 * length (hashtags req)"
proof -
  have "length (batch_videos w s1 req) \<le>
          length (video_links req) + 20 * length (user_profiles req) + 15 * length (hashtags req)" for s1
    using length_map_filter_le [of "\<lambda>l. fst (scanVideoLink w s1 l (req_platform req))" "video_links req"]
      length_concat_map_le [of "\<lambda>u. fst (scanUserProfile w s1 u (req_platform req))" 20 "user_profiles req"]
      length_concat_map_le [of "\<lambda>h. fst (scanHashtag w s1 h (req_platform req))" 15 "hashtags req"]
    by (simp add: batch_videos_def scanUserProfile_length scanHashtag_length add_mono)
  with scanVideos_cases [of w req s] show ?thesis by auto
qed

text \<open>A batch launches the browser once when none is held and never when one is,
  whatever the scans do.\<close>

theorem scanVideos_single_launch:
  "count_list (calls (snd (scanVideos w s req))) Launch =
     count_list (calls s) Launch + (if browser s then 0 else 1)"
  using scanVideos_cases [of w req s]
  by (auto simp: initBrowser_def setCookies_def log_def split: if_splits option.splits)

end
