(* ===== verification/Server_Routes.thy ===== *)
theory Server_Routes
  imports Scan_Orchestrator "HOL-Library.Multiset"
begin

text \<open>
  The Express server (src/server/index.js) and the download stub
  (\<open>TikTokService.downloadVideo\<close>, src/server/services/tiktokService.js lines 527--561).

  \<^item> The SQLite database is a record \<open>store\<close>: the rows of table \<open>videos\<close> in rowid
    order with the table's \<open>sqlite_sequence\<close> entry (\<open>AUTOINCREMENT\<close> never reuses
    an id), the rows of \<open>scheduled_posts\<close> with theirs, the value
    \<open>CURRENT_TIMESTAMP\<close> has during a request, and the files under the downloads
    directory. The \<open>accounts\<close> table is created and never used.
  \<^item> \<open>INSERT OR REPLACE\<close> on the \<open>UNIQUE\<close> column \<open>tiktok_id\<close> deletes the row
    that has the same \<open>tiktok_id\<close> and inserts a new row with a fresh id.
  \<^item> \<open>WHERE id = ?\<close> compares the \<open>INTEGER\<close> column with the bound value: a number
    compares as itself, a string only when it reads as an integer (numeric affinity
    is applied to it); any other string equals no id.
  \<^item> Each route is a function from the store and the request body to the status
    code, the response and the new store. Statements the route does not await
    (\<open>stmt.run\<close>, \<open>db.run\<close>) are applied in the order they are issued, which is
    the order SQLite runs them on one connection.
  \<^item> \<open>Math.random()\<close> draws and the file system are an oracle \<open>dl_world\<close>; the
    three-second wait of the stub has no effect on the data and is not modelled.
\<close>

section \<open>The database\<close>

record row =
  row_id :: nat
  row_tiktok_id :: string
  row_title :: string
  row_content :: string
  row_likes :: nat
  row_views :: nat
  row_uploader :: string
  row_thumbnail_url :: string
  row_video_url :: string
  row_downloaded :: bool
  row_created_at :: nat

text \<open>A JSON scalar sent as an id: a number or a string.\<close>

datatype jkey = KNum nat | KStr string

record sched_post =
  post_id :: nat
  post_video_id :: "jkey option"
  post_account_id :: "jkey option"
  post_platform :: "string option"
  post_time :: "string option"
  post_status :: string
  post_created_at :: nat

record store =
  video_rows :: "row list"
  video_seq :: nat
  post_rows :: "sched_post list"
  post_seq :: nat
  clock :: nat
  files :: "string \<Rightarrow> string option"

definition empty_store :: store where
  "empty_store = \<lparr>video_rows = [], video_seq = 0, post_rows = [], post_seq = 0, clock = 0,
                  files = (\<lambda>_. None)\<rparr>"

text \<open>The rowid \<open>AUTOINCREMENT\<close> gives a new row: one more than the largest of the
  sequence and the ids in the table.\<close>

definition next_video_id :: "store \<Rightarrow> nat" where
  "next_video_id st = Suc (max (video_seq st) (fold max (map row_id (video_rows st)) 0))"

text \<open>Lines 89--101: the values bound to the statement, \<open>downloaded ? 1 : 0\<close> included.\<close>

definition row_of :: "nat \<Rightarrow> nat \<Rightarrow> video \<Rightarrow> row" where
  "row_of i t v =
     \<lparr>row_id = i, row_tiktok_id = tiktok_id v, row_title = title v, row_content = content v,
      row_likes = likes v, row_views = views v, row_uploader = uploader v,
      row_thumbnail_url = thumbnail_url v, row_video_url = video_url v,
      row_downloaded = downloaded v, row_created_at = t\<rparr>"

text \<open>Lines 83--87: \<open>INSERT OR REPLACE INTO videos ... VALUES (..., CURRENT_TIMESTAMP)\<close>.\<close>

definition insert_or_replace :: "store \<Rightarrow> video \<Rightarrow> store" where
  "insert_or_replace st v =
     (let i = next_video_id st
      in st\<lparr>video_rows := filter (\<lambda>r. row_tiktok_id r \<noteq> tiktok_id v) (video_rows st) @ [row_of i (clock st) v],
            video_seq := i\<rparr>)"

text \<open>\<open>id = ?\<close> for a bound key, lines 164 and 184. The column \<open>id\<close> has
  \<open>INTEGER\<close> affinity, so SQLite applies numeric affinity to a bound text: when the
  text, with blanks around it, is a well-formed integer or real literal it is compared as
  that number, and otherwise it stays a text, which equals no integer. A literal is an
  optional sign, digits with an optional fraction (at least one digit in all), and an
  optional exponent \<open>e\<close>/\<open>E\<close> with its own sign and digits; hexadecimal is not read.
  The reading gives a mantissa and a power of ten, compared exactly with the id.\<close>

definition sql_sign :: "string \<Rightarrow> int \<times> string" where
  "sql_sign t =
     (case t of
        c # r \<Rightarrow> if c = CHR ''-'' then (-1, r) else if c = CHR ''+'' then (1, r) else (1, t)
      | [] \<Rightarrow> (1, []))"

definition sql_fraction :: "string \<Rightarrow> string \<times> string" where
  "sql_fraction r =
     (case r of
        c # r' \<Rightarrow> if c = CHR ''.'' then (takeWhile is_digit r', dropWhile is_digit r') else ([], r)
      | [] \<Rightarrow> ([], []))"

definition sql_exponent :: "string \<Rightarrow> (int \<times> string) option" where
  "sql_exponent r =
     (case r of
        c # r' \<Rightarrow>
          if c = CHR ''e'' \<or> c = CHR ''E'' then
            (case sql_sign r' of (es, r'') \<Rightarrow>
               if takeWhile is_digit r'' = [] then None
               else Some (es * int (digits_value (takeWhile is_digit r'')), dropWhile is_digit r''))
          else Some (0, r)
      | [] \<Rightarrow> Some (0, []))"

definition sql_numeric :: "string \<Rightarrow> (int \<times> int) option" where
  "sql_numeric s =
     (case sql_sign (dropWhile is_ws s) of (sg, r) \<Rightarrow>
        (case sql_fraction (dropWhile is_digit r) of (fp, r2) \<Rightarrow>
           if takeWhile is_digit r = [] \<and> fp = [] then None
           else (case sql_exponent r2 of
                   None \<Rightarrow> None
                 | Some (e, r3) \<Rightarrow>
                     if list_all is_ws r3
                     then Some (sg * int (digits_value (takeWhile is_digit r @ fp)), e - int (length fp))
                     else None)))"

text \<open>The number \<open>m \<cdot> 10^e\<close> equals the id \<open>i\<close>.\<close>

definition sql_num_eq :: "int \<times> int \<Rightarrow> nat \<Rightarrow> bool" where
  "sql_num_eq x i =
     (case x of (m, e) \<Rightarrow> if 0 \<le> e then m * 10 ^ nat e = int i else m = int i * 10 ^ nat (- e))"

definition sql_id_eq :: "jkey \<Rightarrow> nat \<Rightarrow> bool" where
  "sql_id_eq k i =
     (case k of
        KNum n \<Rightarrow> n = i
      | KStr s \<Rightarrow> (case sql_numeric s of Some x \<Rightarrow> sql_num_eq x i | None \<Rightarrow> False))"

definition lookup_row :: "store \<Rightarrow> jkey \<Rightarrow> row option" where
  "lookup_row st k = find (\<lambda>r. sql_id_eq k (row_id r)) (video_rows st)"

text \<open>Line 184: \<open>UPDATE videos SET downloaded = 1 WHERE id = ?\<close>.\<close>

definition mark_downloaded :: "store \<Rightarrow> jkey \<Rightarrow> store" where
  "mark_downloaded st k =
     st\<lparr>video_rows := map (\<lambda>r. if sql_id_eq k (row_id r) then r\<lparr>row_downloaded := True\<rparr> else r)
                        (video_rows st)\<rparr>"

section \<open>The scan route\<close>

text \<open>The body of \<open>POST /api/scan-videos\<close>; a missing list or cookie header is
  \<open>None\<close>.\<close>

record scan_body =
  b_platform :: string
  b_video_links :: "string list option"
  b_user_profiles :: "string list option"
  b_hashtags :: "string list option"
  b_cookies :: "string option"

definition or_empty :: "'a list option \<Rightarrow> 'a list" where
  "or_empty x = (case x of None \<Rightarrow> [] | Some xs \<Rightarrow> xs)"

definition scan_request_of :: "scan_body \<Rightarrow> scan_request" where
  "scan_request_of b =
     \<lparr>req_platform = b_platform b, video_links = or_empty (b_video_links b),
      user_profiles = or_empty (b_user_profiles b), hashtags = or_empty (b_hashtags b),
      req_cookies = or_empty (b_cookies b)\<rparr>"

text \<open>Lines 65--121. A fresh service per request; the rows are written when the scan
  succeeds; the response is 200 or 400; the browser is closed afterwards. The
  \<open>catch\<close> answering 500 is unreachable: \<open>scanVideos\<close> catches every error itself.\<close>

definition scan_route :: "world \<Rightarrow> store \<Rightarrow> scan_body \<Rightarrow> (nat \<times> scan_result) \<times> store \<times> svc" where
  "scan_route w st b =
     (case scanVideos w new_service (scan_request_of b) of
        (r, s) \<Rightarrow>
          if success r then ((200, r), fold (\<lambda>v st. insert_or_replace st v) (videos r) st, closeBrowser s)
          else ((400, r), st, closeBrowser s))"

section \<open>The download stub\<close>

text \<open>What the stub cannot decide: the directory \<open>path.join(__dirname, '../downloads')\<close>,
  whether \<open>fs.mkdir\<close> or \<open>fs.writeFile\<close> throws for a file, and the \<open>k\<close>-th draw
  \<open>Math.floor(Math.random() * 10000000)\<close>, written \<open>rand k mod 10000000\<close>: the
  floor of \<open>r * 10^7\<close> for \<open>r\<close> in \<open>[0, 1)\<close> is any number below \<open>10^7\<close>, which is
  exactly the range of the remainder.\<close>

record dl_world =
  downloads_dir :: string
  fs_error :: "string \<Rightarrow> js_error option"
  rand :: "nat \<Rightarrow> nat"

record dl_ok =
  file_path :: string
  file_size :: nat

definition dl_file_name :: "string \<Rightarrow> string \<Rightarrow> string" where
  "dl_file_name plat vid = plat @ ''_'' @ vid @ ''_no_watermark.mp4''"

text \<open>Lines 527--561: the file written and the result, or the error rethrown. Its
  \<open>success\<close> is always \<open>true\<close>, so only the result's path and size are kept.\<close>

definition downloadVideo :: "dl_world \<Rightarrow> nat \<Rightarrow> store \<Rightarrow> string \<Rightarrow> string \<Rightarrow> (js_error + dl_ok) \<times> store" where
  "downloadVideo dw k st vid plat =
     (let p = downloads_dir dw @ ''/'' @ dl_file_name plat vid
      in case fs_error dw p of
           Some e \<Rightarrow> (Inl e, st)
         | None \<Rightarrow> (Inr \<lparr>file_path = p, file_size = rand dw k mod 10000000 + 1000000\<rparr>,
                    st\<lparr>files := (files st)(p := Some (''Dummy video content for '' @ vid))\<rparr>))"

section \<open>The download route\<close>

text \<open>\<open>videoIds\<close> of the body: absent, not an array, or an array of scalars.\<close>

datatype ids_arg = IdsMissing | IdsNotArray | IdsArray "jkey list"

record dl_body =
  b_video_ids :: ids_arg
  b_dl_platform :: "string option"
  b_dl_cookies :: "string option"

record dl_item =
  di_video_id :: jkey
  di_path :: string
  di_size :: nat

datatype dl_response =
    DlOk (downloaded_count: nat) (dl_results: "dl_item list") (dl_errors: "string list option")
  | DlBad string

definition key_str :: "jkey \<Rightarrow> string" where
  "key_str k = (case k of KNum n \<Rightarrow> show_nat n | KStr s \<Rightarrow> s)"

text \<open>Lines 160--199: one id after the other; \<open>k\<close> counts the random draws made.\<close>

fun dl_loop :: "dl_world \<Rightarrow> string \<Rightarrow> jkey list \<Rightarrow> nat \<times> store \<times> dl_item list \<times> string list \<Rightarrow>
                nat \<times> store \<times> dl_item list \<times> string list" where
  "dl_loop dw plat [] acc = acc"
| "dl_loop dw plat (x # xs) (k, st, rs, es) =
     (case lookup_row st x of
        None \<Rightarrow> dl_loop dw plat xs (k, st, rs, es @ [''Video '' @ key_str x @ '' not found''])
      | Some r \<Rightarrow>
          (case downloadVideo dw k st (row_tiktok_id r) plat of
             (Inl e, st1) \<Rightarrow>
               dl_loop dw plat xs (k, st1, rs, es @ [''Error downloading video '' @ key_str x @ '': '' @ err_msg e])
           | (Inr d, st1) \<Rightarrow>
               dl_loop dw plat xs (Suc k, mark_downloaded st1 x,
                                  rs @ [\<lparr>di_video_id = x, di_path = file_path d, di_size = file_size d\<rparr>], es)))"

text \<open>Lines 142--219. \<open>platform || 'tiktok'\<close>; the service created for the request never
  launches a browser, so closing it does nothing.\<close>

definition download_route :: "dl_world \<Rightarrow> store \<Rightarrow> dl_body \<Rightarrow> (nat \<times> dl_response) \<times> store" where
  "download_route dw st b =
     (case b_video_ids b of
        IdsArray (x # xs) \<Rightarrow>
          (let plat = (case b_dl_platform b of Some p \<Rightarrow> js_or p ''tiktok'' | None \<Rightarrow> ''tiktok'')
           in case dl_loop dw plat (x # xs) (0, st, [], []) of
                (_, st', rs, es) \<Rightarrow>
                  ((200, DlOk (length rs) rs (if es = [] then None else Some es)), st'))
      | _ \<Rightarrow> ((400, DlBad ''Video IDs are required''), st))"

section \<open>The schedule route and the listing\<close>

record sched_body =
  s_video_id :: "jkey option"
  s_account_id :: "jkey option"
  s_platform :: "string option"
  s_time :: "string option"

text \<open>Lines 222--255: \<open>INSERT INTO scheduled_posts\<close> with the default status and
  timestamp; the response carries \<open>this.lastID\<close>. The columns have no \<open>NOT NULL\<close>
  and SQLite checks \<open>FOREIGN KEY\<close> clauses only under \<open>PRAGMA foreign_keys = ON\<close>,
  which the server never sets, so the insert cannot fail on the data.\<close>

definition schedule_route :: "store \<Rightarrow> sched_body \<Rightarrow> (nat \<times> nat) \<times> store" where
  "schedule_route st b =
     (let i = Suc (max (post_seq st) (fold max (map post_id (post_rows st)) 0))
      in ((200, i),
          st\<lparr>post_rows := post_rows st @
               [\<lparr>post_id = i, post_video_id = s_video_id b, post_account_id = s_account_id b,
                 post_platform = s_platform b, post_time = s_time b, post_status = ''pending'',
                 post_created_at = clock st\<rparr>],
             post_seq := i\<rparr>))"

text \<open>Lines 124--139: \<open>SELECT * FROM videos ORDER BY created_at DESC\<close>. SQLite fixes no
  order among rows with the same timestamp, so the route's answer is any list that
  holds the rows and is sorted newest first; this predicate says which lists qualify.\<close>

definition videos_listing :: "store \<Rightarrow> row list \<Rightarrow> bool" where
  "videos_listing st rs \<longleftrightarrow>
     mset rs = mset (video_rows st) \<and> sorted_wrt (\<lambda>a b. row_created_at b \<le> row_created_at a) rs"

section \<open>The store invariant and the table view\<close>

text \<open>What the \<open>UNIQUE\<close>, \<open>PRIMARY KEY\<close> and \<open>AUTOINCREMENT\<close> declarations
  promise of the tables.\<close>

definition store_inv :: "store \<Rightarrow> bool" where
  "store_inv st \<longleftrightarrow>
     distinct (map row_id (video_rows st)) \<and> distinct (map row_tiktok_id (video_rows st)) \<and>
     (\<forall>i \<in> set (map row_id (video_rows st)). i \<le> video_seq st) \<and>
     distinct (map post_id (post_rows st)) \<and> (\<forall>i \<in> set (map post_id (post_rows st)). i \<le> post_seq st)"

text \<open>The videos table as a map from \<open>tiktok_id\<close> to its row.\<close>

definition video_table :: "store \<Rightarrow> string \<Rightarrow> row option" where
  "video_table st = map_of (map (\<lambda>r. (row_tiktok_id r, r)) (video_rows st))"

text \<open>A store for the witnesses: one downloaded row with id 1.\<close>

definition fixture_store :: store where
  "fixture_store =
     \<lparr>video_rows = [\<lparr>row_id = 1, row_tiktok_id = ''unknown'', row_title = ''Old'', row_content = [],
                     row_likes = 0, row_views = 0, row_uploader = [], row_thumbnail_url = [],
                     row_video_url = [], row_downloaded = True, row_created_at = 0\<rparr>],
      video_seq = 1, post_rows = [], post_seq = 0, clock = 5, files = (\<lambda>_. None)\<rparr>"

section \<open>Lemmas\<close>

lemma fold_max_ge: "a \<le> fold max xs (a::nat)" "x \<in> set xs \<Longrightarrow> x \<le> fold max xs (a::nat)"
proof (induction xs arbitrary: a)
  case (Cons y ys)
  { case 1 show ?case using Cons.IH(1) [of "max y a"] by simp }
  { case 2 then show ?case using Cons.IH [of "max y a"] by auto }
qed simp_all

lemma next_video_id_gt: "r \<in> set (video_rows st) \<Longrightarrow> row_id r < next_video_id st"
  using fold_max_ge(2) [of "row_id r" "map row_id (video_rows st)" 0]
  by (simp add: next_video_id_def less_Suc_eq_le)

lemma next_video_id_seq: "video_seq st < next_video_id st"
  by (simp add: next_video_id_def)

lemma insert_or_replace_simps [simp]:
  "video_rows (insert_or_replace st v) =
     filter (\<lambda>r. row_tiktok_id r \<noteq> tiktok_id v) (video_rows st) @ [row_of (next_video_id st) (clock st) v]"
  "video_seq (insert_or_replace st v) = next_video_id st"
  "post_rows (insert_or_replace st v) = post_rows st"
  "post_seq (insert_or_replace st v) = post_seq st"
  "clock (insert_or_replace st v) = clock st"
  "files (insert_or_replace st v) = files st"
  by (simp_all add: insert_or_replace_def Let_def)

lemma row_of_simps [simp]:
  "row_id (row_of i t v) = i" "row_tiktok_id (row_of i t v) = tiktok_id v"
  "row_downloaded (row_of i t v) = downloaded v" "row_created_at (row_of i t v) = t"
  by (simp_all add: row_of_def)

lemma insert_or_replace_inv: "store_inv st \<Longrightarrow> store_inv (insert_or_replace st v)"
  unfolding store_inv_def
  by (auto simp: distinct_map_filter dest: next_video_id_gt intro: less_imp_le
      simp del: distinct_map)

lemma map_of_keyed_filter:
  "map_of (map (\<lambda>r. (f r, r)) (filter (\<lambda>r. f r \<noteq> t) xs)) x =
     (if x = t then None else map_of (map (\<lambda>r. (f r, r)) xs) x)"
  by (induction xs) auto

lemma table_insert_or_replace:
  "video_table (insert_or_replace st v) = (video_table st)(tiktok_id v \<mapsto> row_of (next_video_id st) (clock st) v)"
  by (rule ext) (simp add: video_table_def map_of_keyed_filter map_add_def split: option.splits)


lemma next_video_id_mono: "next_video_id st < next_video_id (insert_or_replace st v)"
  by (simp add: next_video_id_def less_max_iff_disj less_Suc_eq_le)

lemma fold_insert_simps [simp]:
  "clock (fold (\<lambda>v st. insert_or_replace st v) vs st) = clock st"
  "post_rows (fold (\<lambda>v st. insert_or_replace st v) vs st) = post_rows st"
  "post_seq (fold (\<lambda>v st. insert_or_replace st v) vs st) = post_seq st"
  by (induction vs arbitrary: st) simp_all

lemma fold_insert_inv: "store_inv st \<Longrightarrow> store_inv (fold (\<lambda>v st. insert_or_replace st v) vs st)"
  by (induction vs arbitrary: st) (simp_all add: insert_or_replace_inv)

lemma fold_insert_other:
  "t \<notin> tiktok_id ` set vs \<Longrightarrow> video_table (fold (\<lambda>v st. insert_or_replace st v) vs st) t = video_table st t"
  by (induction vs arbitrary: st) (auto simp: table_insert_or_replace)

lemma fold_insert_next_mono:
  "next_video_id st \<le> next_video_id (fold (\<lambda>v st. insert_or_replace st v) vs st)"
  by (induction vs arbitrary: st) (auto intro: order.trans [OF less_imp_le [OF next_video_id_mono]])

lemma fold_insert_table:
  "t \<in> tiktok_id ` set vs \<Longrightarrow>
   \<exists>v \<in> set vs. tiktok_id v = t \<and>
     (\<exists>i. video_table (fold (\<lambda>v st. insert_or_replace st v) vs st) t = Some (row_of i (clock st) v) \<and>
          next_video_id st \<le> i)"
proof (induction vs arbitrary: st)
  case (Cons v vs)
  show ?case
  proof (cases "t \<in> tiktok_id ` set vs")
    case True
    from Cons.IH [OF True, of "insert_or_replace st v"] obtain v' i where
      "v' \<in> set vs" "tiktok_id v' = t"
      "video_table (fold (\<lambda>v st. insert_or_replace st v) vs (insert_or_replace st v)) t =
         Some (row_of i (clock st) v')"
      "next_video_id (insert_or_replace st v) \<le> i" by auto
    with next_video_id_mono [of st v] show ?thesis by force
  next
    case False
    with Cons.prems have "t = tiktok_id v" by simp
    with False show ?thesis
      by (auto simp: fold_insert_other table_insert_or_replace)
  qed
qed simp

lemma video_table_SomeD: "video_table st t = Some r \<Longrightarrow> r \<in> set (video_rows st)"
  by (auto simp: video_table_def dest: map_of_SomeD)


lemma mark_downloaded_simps [simp]:
  "map row_id (video_rows (mark_downloaded st k)) = map row_id (video_rows st)"
  "map row_tiktok_id (video_rows (mark_downloaded st k)) = map row_tiktok_id (video_rows st)"
  "video_seq (mark_downloaded st k) = video_seq st"
  "post_rows (mark_downloaded st k) = post_rows st"
  "post_seq (mark_downloaded st k) = post_seq st"
  by (simp_all add: mark_downloaded_def comp_def)

lemma downloadVideo_store:
  "downloadVideo dw n st vid plat = (r, st') \<Longrightarrow> st' = st\<lparr>files := files st'\<rparr>"
  by (auto simp: downloadVideo_def Let_def split: option.splits)

text \<open>The store invariant only reads the keys and sequences.\<close>

lemma store_inv_cong:
  assumes "map row_id (video_rows st') = map row_id (video_rows st)"
    and "map row_tiktok_id (video_rows st') = map row_tiktok_id (video_rows st)"
    and "video_seq st' = video_seq st" and "post_rows st' = post_rows st" and "post_seq st' = post_seq st"
  shows "store_inv st' = store_inv st"
  using assms by (simp only: store_inv_def)

lemma find_map_option: "find P (map f xs) = map_option f (find (P \<circ> f) xs)"
  by (induction xs) auto

lemma lookup_row_mark:
  "lookup_row (mark_downloaded st y) x =
     map_option (\<lambda>r. if sql_id_eq y (row_id r) then r\<lparr>row_downloaded := True\<rparr> else r) (lookup_row st x)"
  by (simp add: lookup_row_def mark_downloaded_def find_map_option comp_def if_distrib [of row_id] cong: if_cong)


lemma lookup_row_files [simp]: "lookup_row (st\<lparr>files := f\<rparr>) = lookup_row st"
  by (simp add: lookup_row_def fun_eq_iff)

lemma lookup_row_found: "lookup_row st x = Some r \<Longrightarrow> sql_id_eq x (row_id r)"
  by (auto simp: lookup_row_def dest: find_Some_iff [THEN iffD1])

lemma lookup_row_mark_same:
  "lookup_row st x = Some r \<Longrightarrow> lookup_row (mark_downloaded st x) x = Some (r\<lparr>row_downloaded := True\<rparr>)"
  by (simp add: lookup_row_mark lookup_row_found)

lemma lookup_row_mark_keeps:
  "lookup_row st y = Some r \<Longrightarrow> row_downloaded r \<Longrightarrow>
   \<exists>r'. lookup_row (mark_downloaded st x) y = Some r' \<and> row_downloaded r'"
  by (simp add: lookup_row_mark)

lemma lookup_row_mark_None: "(lookup_row (mark_downloaded st x) y = None) = (lookup_row st y = None)"
  by (simp add: lookup_row_mark)

lemma dl_loop_keys:
  "dl_loop dw plat xs (k, st, rs, es) = (k', st', rs', es') \<Longrightarrow>
   map row_id (video_rows st') = map row_id (video_rows st) \<and>
   map row_tiktok_id (video_rows st') = map row_tiktok_id (video_rows st) \<and>
   video_seq st' = video_seq st \<and> post_rows st' = post_rows st \<and> post_seq st' = post_seq st"
proof (induction xs arbitrary: k st rs es)
  case (Cons x xs)
  then show ?case
    by (auto simp: downloadVideo_def Let_def split: option.splits prod.splits sum.splits)
qed simp

lemma dl_loop_ok:
  assumes "fs_error dw = (\<lambda>_. None)"
  shows "dl_loop dw plat xs (k, st, rs, es) = (k', st', rs', es') \<Longrightarrow>
   length rs' = length rs + length (filter (\<lambda>x. lookup_row st x \<noteq> None) xs) \<and>
   (\<forall>y. (y \<in> set xs \<and> lookup_row st y \<noteq> None) \<or> (\<exists>r. lookup_row st y = Some r \<and> row_downloaded r) \<longrightarrow>
        (\<exists>r. lookup_row st' y = Some r \<and> row_downloaded r))"
proof (induction xs arbitrary: k st rs es)
  case (Cons x xs)
  show ?case
  proof (cases "lookup_row st x")
    case None
    with Cons show ?thesis by auto
  next
    case (Some r)
    let ?st1 = "mark_downloaded (st\<lparr>files := (files st)
                  (downloads_dir dw @ ''/'' @ dl_file_name plat (row_tiktok_id r) :=
                     Some (''Dummy video content for '' @ row_tiktok_id r))\<rparr>) x"
    have l: "dl_loop dw plat xs (Suc k, ?st1, rs @ [\<lparr>di_video_id = x,
               di_path = downloads_dir dw @ ''/'' @ dl_file_name plat (row_tiktok_id r),
               di_size = rand dw k mod 10000000 + 1000000\<rparr>], es) = (k', st', rs', es')"
      using Cons.prems Some assms by (simp add: downloadVideo_def Let_def)
    note IH = Cons.IH [OF l]
    have m: "lookup_row ?st1 x = Some (r\<lparr>row_downloaded := True\<rparr>)"
      using Some by (simp add: lookup_row_mark_same)
    have n: "(lookup_row ?st1 y = None) = (lookup_row st y = None)" for y
      by (simp add: lookup_row_mark_None)
    have f: "(\<lambda>y. lookup_row ?st1 y \<noteq> None) = (\<lambda>y. lookup_row st y \<noteq> None)"
      using n by (simp add: fun_eq_iff)
    have "length rs' = length rs + length (filter (\<lambda>x. lookup_row st x \<noteq> None) (x # xs))"
      using conjunct1 [OF IH] Some unfolding f by simp
    moreover have "\<exists>r. lookup_row st' y = Some r \<and> row_downloaded r"
      if "(y \<in> set (x # xs) \<and> lookup_row st y \<noteq> None) \<or> (\<exists>r. lookup_row st y = Some r \<and> row_downloaded r)" for y
    proof -
      have "(y \<in> set xs \<and> lookup_row ?st1 y \<noteq> None) \<or> (\<exists>r. lookup_row ?st1 y = Some r \<and> row_downloaded r)"
        using that m n lookup_row_mark_keeps [of _ y] by (cases "y = x") auto
      then show ?thesis using IH by blast
    qed
    ultimately show ?thesis by blast
  qed
qed simp


lemma link_record_tiktok_id: "tiktok_id (link_record pg plat) = path_video_id (pathname pg)"
  by (simp add: link_record_def eval_video_page_def Let_def split: prod.splits)

lemma scan_route_cases:
  assumes "scan_route w st b = ((c, r), st', s')"
  shows "r = fst (scanVideos w new_service (scan_request_of b)) \<and>
         (if success r then c = 200 \<and> st' = fold (\<lambda>v st. insert_or_replace st v) (videos r) st
          else c = 400 \<and> st' = st)"
  using assms by (auto simp: scan_route_def split: prod.splits if_splits)

lemma scan_route_fresh:
  "scan_route w st b = ((c, r), st', s') \<Longrightarrow> v \<in> set (videos r) \<Longrightarrow> \<not> downloaded v"
proof -
  assume a: "scan_route w st b = ((c, r), st', s')" and v: "v \<in> set (videos r)"
  then have "r = fst (scanVideos w new_service (scan_request_of b))" by (simp add: scan_route_cases)
  with v scanVideos_videos [of w new_service "scan_request_of b"]
  obtain s1 where "v \<in> set (batch_videos w s1 (scan_request_of b))" by auto
  then show ?thesis using batch_videos_fresh by (auto simp: fresh_record_def)
qed

lemma scan_route_stored:
  "scan_route w st b = ((c, r), st', s') \<Longrightarrow> videos r \<noteq> [] \<Longrightarrow>
   st' = fold (\<lambda>v st. insert_or_replace st v) (videos r) st"
  using scan_route_cases [of w st b c r st' s'] scanVideos_videos [of w new_service "scan_request_of b"]
  by (auto split: if_splits)

lemma sql_id_eq_examples:
  "sql_id_eq (KStr ''1'') 1 \<and> sql_id_eq (KStr ''1.0'') 1 \<and> sql_id_eq (KStr ''+1'') 1 \<and>
   sql_id_eq (KStr '' 1'') 1 \<and> sql_id_eq (KStr ''1 '') 1 \<and> sql_id_eq (KStr ''1e0'') 1 \<and>
   sql_id_eq (KStr ''10e-1'') 1 \<and> sql_id_eq (KStr ''.1e1'') 1 \<and> sql_id_eq (KStr ''001'') 1 \<and>
   \<not> sql_id_eq (KStr ''1.5'') 1 \<and> \<not> sql_id_eq (KStr ''1e'') 1 \<and> \<not> sql_id_eq (KStr ''0x1'') 1 \<and>
   \<not> sql_id_eq (KStr ''1 2'') 1 \<and> \<not> sql_id_eq (KStr ''video_1'') 1 \<and> \<not> sql_id_eq (KStr [] ) 0"
  by code_simp

lemma sql_numeric_other_start:
  assumes "\<not> is_ws c" "\<not> is_digit c" "c \<noteq> CHR ''+''" "c \<noteq> CHR ''-''" "c \<noteq> CHR ''.''"
  shows "sql_numeric (c # t) = None"
  using assms by (simp add: sql_numeric_def sql_sign_def sql_fraction_def)

lemma lookup_row_nonnumeric: "sql_numeric s = None \<Longrightarrow> lookup_row st (KStr s) = None"
  by (simp add: lookup_row_def sql_id_eq_def find_None_iff)

lemma nonnumeric_keys_not_found:
  assumes "\<forall>k \<in> set ks. \<exists>s. k = KStr s \<and> sql_numeric s = None"
  shows "\<forall>x \<in> set ks. lookup_row st x = None"
proof
  fix y assume "y \<in> set ks"
  then obtain s where "y = KStr s" "sql_numeric s = None" using assms by blast
  then show "lookup_row st y = None" by (simp add: lookup_row_nonnumeric)
qed

lemma dl_loop_not_found:
  "\<forall>x \<in> set xs. lookup_row st x = None \<Longrightarrow>
   dl_loop dw plat xs (k, st, rs, es) = (k, st, rs, es @ map (\<lambda>x. ''Video '' @ key_str x @ '' not found'') xs)"
  by (induction xs arbitrary: es) simp_all

lemma download_route_not_found:
  assumes "ks \<noteq> []" and "\<forall>x \<in> set ks. lookup_row st x = None"
  shows "download_route dw st \<lparr>b_video_ids = IdsArray ks, b_dl_platform = p, b_dl_cookies = c\<rparr> =
           ((200, DlOk 0 [] (Some (map (\<lambda>k. ''Video '' @ key_str k @ '' not found'') ks))), st)"
proof -
  obtain x xs where ks: "ks = x # xs" using assms(1) by (cases ks) auto
  note nf = dl_loop_not_found [OF assms(2), of dw _ 0 "[]" "[]"]
  show ?thesis unfolding download_route_def by (simp add: ks nf [unfolded ks] del: dl_loop.simps)
qed

lemma fixture_link_tiktok_id: "tiktok_id (link_record fixture_listing ''tiktok'') = ''unknown''"
  by (simp add: link_record_tiktok_id path_video_id_def video_id_part_def fixture_listing_def
      js_split_def starts_with_def js_index_def)

lemma fixture_scan_videos:
  assumes sr: "scan_route (fixture_world fixture_listing) st
      \<lparr>b_platform = ''tiktok'', b_video_links = Some [''https://www.tiktok.com/@a/video/77''],
       b_user_profiles = None, b_hashtags = None, b_cookies = None\<rparr> = ((c, r), st', s')"
  shows "link_record fixture_listing ''tiktok'' \<in> set (videos r) \<and> success r"
proof -
  let ?b = "\<lparr>b_platform = ''tiktok'', b_video_links = Some [''https://www.tiktok.com/@a/video/77''],
             b_user_profiles = None, b_hashtags = None, b_cookies = None\<rparr>"
  let ?w = "fixture_world fixture_listing"
  let ?s1 = "\<lparr>browser = True, cookies = Some [], calls = [Launch]\<rparr>"
  have r: "r = fst (scanVideos ?w new_service (scan_request_of ?b))"
    using scan_route_cases [OF sr] by simp
  have ib: "initBrowser ?w (setCookies (req_cookies (scan_request_of ?b)) new_service) = (Inr (), ?s1)"
    by (simp add: initBrowser_def setCookies_def new_service_def scan_request_of_def or_empty_def log_def)
  have sl: "fst (scanVideoLink ?w ?s1 ''https://www.tiktok.com/@a/video/77'' ''tiktok'') =
            Some (link_record fixture_listing ''tiktok'')"
    by (simp add: scanVideoLink_def open_page_held navigate_def)
  from scanVideos_eq [OF ib] obtain cs where
    "scanVideos ?w new_service (scan_request_of ?b) =
       (\<lparr>success = True, videos = batch_videos ?w ?s1 (scan_request_of ?b), message = None,
         total_count = Some (length (batch_videos ?w ?s1 (scan_request_of ?b)))\<rparr>, log ?s1 cs)"
    unfolding batch_videos_def by blast
  then have "videos r = batch_videos ?w ?s1 (scan_request_of ?b) \<and> success r" by (simp add: r)
  then show ?thesis
    using sl by (simp add: batch_videos_def scan_request_of_def or_empty_def map_filter_simps)
qed

lemma schedule_route_inv: "store_inv st \<Longrightarrow> store_inv (snd (schedule_route st b))"
  using fold_max_ge [of 0 "map post_id (post_rows st)"] fold_max_ge(2) [of _ "map post_id (post_rows st)" 0]
  by (fastforce simp: schedule_route_def store_inv_def Let_def max_def)

lemma download_route_inv:
  assumes "store_inv st"
  shows "store_inv (snd (download_route dw st b))"
proof (cases "b_video_ids b")
  case (IdsArray xs)
  show ?thesis
  proof (cases xs)
    case (Cons x xs')
    let ?plat = "case b_dl_platform b of Some p \<Rightarrow> js_or p ''tiktok'' | None \<Rightarrow> ''tiktok''"
    obtain k' st' rs es where l: "dl_loop dw ?plat (x # xs') (0, st, [], []) = (k', st', rs, es)"
      by (cases "dl_loop dw ?plat (x # xs') (0, st, [], [])") auto
    have "store_inv st'" using dl_loop_keys [OF l] assms store_inv_cong by metis
    then show ?thesis using IdsArray Cons l by (simp add: download_route_def)
  qed (simp add: download_route_def IdsArray assms)
qed (simp_all add: download_route_def assms)

section \<open>Properties\<close>

text \<open>Every route keeps the store consistent: row ids and \<open>tiktok_id\<close>s unique, no row id
  above the table's sequence, post ids unique and bounded by theirs.\<close>

theorem routes_preserve_inv:
  assumes "store_inv st"
  shows "store_inv (fst (snd (scan_route w st b))) \<and> store_inv (snd (download_route dw st db)) \<and>
         store_inv (snd (schedule_route st sb))"
proof -
  obtain c r st' s' where sr: "scan_route w st b = ((c, r), st', s')"
    by (cases "scan_route w st b") auto
  have "store_inv st'"
    using scan_route_cases [OF sr] fold_insert_inv [OF assms] assms by (auto split: if_splits)
  then show ?thesis using sr download_route_inv [OF assms] schedule_route_inv [OF assms] by simp
qed


theorem routes_preserve_inv_witness:
  "store_inv (fst (snd (scan_route (fixture_world fixture_listing) empty_store
      \<lparr>b_platform = ''tiktok'', b_video_links = Some [''https://www.tiktok.com/@a/video/77''],
       b_user_profiles = None, b_hashtags = Some [''#dance''], b_cookies = None\<rparr>))) \<and>
   store_inv (snd (download_route \<lparr>downloads_dir = ''downloads'', fs_error = (\<lambda>_. None), rand = id\<rparr>
      empty_store \<lparr>b_video_ids = IdsArray [KNum 1], b_dl_platform = None, b_dl_cookies = None\<rparr>)) \<and>
   store_inv (snd (schedule_route empty_store
      \<lparr>s_video_id = Some (KNum 1), s_account_id = None, s_platform = Some ''tiktok'', s_time = None\<rparr>))"
  by (rule routes_preserve_inv) (simp add: store_inv_def empty_store_def)

text \<open>C16: \<open>INSERT OR REPLACE\<close> refines an update of the table viewed as a map from
  \<open>tiktok_id\<close> to row: the key of the inserted video now maps to the new row, with the
  next id and the request's timestamp, and every other key is unchanged.\<close>

theorem insert_or_replace_table:
  "video_table (insert_or_replace st v) =
     (video_table st)(tiktok_id v \<mapsto> row_of (next_video_id st) (clock st) v)"
  by (rule ext) (simp add: video_table_def map_of_keyed_filter map_add_def split: option.splits)

text \<open>C17: Re-scanning a video that is already stored replaces its row: the row for that
  \<open>tiktok_id\<close> afterwards is not downloaded, whatever it was before, and has a new,
  larger id, so a download flag and any id the client holds are lost.\<close>

theorem scan_route_resets_download:
  assumes "scan_route w st b = ((c, r), st', s')" and "v \<in> set (videos r)"
    and "video_table st (tiktok_id v) = Some r0"
  shows "\<exists>row. video_table st' (tiktok_id v) = Some row \<and> \<not> row_downloaded row \<and> row_id r0 < row_id row"
proof -
  have st': "st' = fold (\<lambda>v st. insert_or_replace st v) (videos r) st"
    using scan_route_stored [OF assms(1)] assms(2) by (cases "videos r") auto
  from fold_insert_table [of "tiktok_id v" "videos r" st] assms(2)
  obtain v' i where v': "v' \<in> set (videos r)" "tiktok_id v' = tiktok_id v"
    and t: "video_table st' (tiktok_id v) = Some (row_of i (clock st) v')" and i: "next_video_id st \<le> i"
    unfolding st' by auto
  have "\<not> downloaded v'" using scan_route_fresh [OF assms(1) v'(1)] .
  moreover have "row_id r0 < next_video_id st"
    using video_table_SomeD [OF assms(3)] by (rule next_video_id_gt)
  ultimately show ?thesis using t i by auto
qed

theorem scan_route_resets_download_witness:
  "\<exists>row. video_table (fst (snd (scan_route (fixture_world fixture_listing) fixture_store
            \<lparr>b_platform = ''tiktok'', b_video_links = Some [''https://www.tiktok.com/@a/video/77''],
             b_user_profiles = None, b_hashtags = None, b_cookies = None\<rparr>))) ''unknown'' = Some row \<and>
          \<not> row_downloaded row \<and> 1 < row_id row"
proof -
  obtain c r st' s' where sr: "scan_route (fixture_world fixture_listing) fixture_store
      \<lparr>b_platform = ''tiktok'', b_video_links = Some [''https://www.tiktok.com/@a/video/77''],
       b_user_profiles = None, b_hashtags = None, b_cookies = None\<rparr> = ((c, r), st', s')"
    by (cases "scan_route (fixture_world fixture_listing) fixture_store
      \<lparr>b_platform = ''tiktok'', b_video_links = Some [''https://www.tiktok.com/@a/video/77''],
       b_user_profiles = None, b_hashtags = None, b_cookies = None\<rparr>") auto
  have lr: "link_record fixture_listing ''tiktok'' \<in> set (videos r)" using fixture_scan_videos [OF sr] by simp
  have "video_table fixture_store (tiktok_id (link_record fixture_listing ''tiktok'')) =
        Some (hd (video_rows fixture_store))"
    by (simp add: fixture_link_tiktok_id video_table_def fixture_store_def)
  from scan_route_resets_download [OF sr lr this] sr fixture_link_tiktok_id show ?thesis
    by (simp add: fixture_store_def)
qed


text \<open>C18: The download route finds no row for string ids that SQLite's numeric
  affinity does not read as a number (blanks, sign, digits, fraction, exponent), such as the \<open>video_\<dots>\<close>, \<open>user_\<dots>\<close> and \<open>hashtag_\<dots>\<close> ids of scanned
  records: it answers 200 with success, a count of 0 and one "not found" error per id,
  and changes nothing.\<close>

theorem download_route_string_ids:
  assumes "ks \<noteq> []" and "\<forall>k \<in> set ks. \<exists>s. k = KStr s \<and> sql_numeric s = None"
  shows "download_route dw st \<lparr>b_video_ids = IdsArray ks, b_dl_platform = p, b_dl_cookies = c\<rparr> =
           ((200, DlOk 0 [] (Some (map (\<lambda>k. ''Video '' @ key_str k @ '' not found'') ks))), st)"
  using assms(1) nonnumeric_keys_not_found [OF assms(2)] by (rule download_route_not_found)

theorem download_route_string_ids_witness:
  "download_route \<lparr>downloads_dir = ''downloads'', fs_error = (\<lambda>_. None), rand = id\<rparr> fixture_store
     \<lparr>b_video_ids = IdsArray [KStr ''video_7303728609955515653''], b_dl_platform = Some ''tiktok'',
      b_dl_cookies = None\<rparr> =
   ((200, DlOk 0 [] (Some [''Video video_7303728609955515653 not found''])), fixture_store)"
  by (subst download_route_string_ids) (simp_all add: sql_numeric_other_start is_ws_def is_digit_def key_str_def)

text \<open>C19: When the file system does not fail, the download count is the number of
  requested ids that find a row, counted with repetition (an id sent twice counts
  twice), and every found row is marked downloaded.\<close>

theorem download_route_found:
  assumes "fs_error dw = (\<lambda>_. None)" and "ks \<noteq> []"
  shows "\<exists>rs es st'.
     download_route dw st \<lparr>b_video_ids = IdsArray ks, b_dl_platform = p, b_dl_cookies = c\<rparr> =
       ((200, DlOk (length (filter (\<lambda>k. lookup_row st k \<noteq> None) ks)) rs es), st') \<and>
     (\<forall>k \<in> set ks. lookup_row st k \<noteq> None \<longrightarrow> (\<exists>r. lookup_row st' k = Some r \<and> row_downloaded r))"
proof -
  let ?plat = "case p of Some p \<Rightarrow> js_or p ''tiktok'' | None \<Rightarrow> ''tiktok''"
  obtain k' st' rs es where l: "dl_loop dw ?plat ks (0, st, [], []) = (k', st', rs, es)"
    by (cases "dl_loop dw ?plat ks (0, st, [], [])") auto
  note ok = dl_loop_ok [OF assms(1) l]
  obtain x xs where ks: "ks = x # xs" using assms(2) by (cases ks) auto
  show ?thesis using ok l unfolding ks by (auto simp: download_route_def)
qed

theorem download_route_found_witness:
  "\<exists>rs es st'.
     download_route \<lparr>downloads_dir = ''downloads'', fs_error = (\<lambda>_. None), rand = id\<rparr> fixture_store
       \<lparr>b_video_ids = IdsArray [KNum 1, KStr ''1''], b_dl_platform = None, b_dl_cookies = None\<rparr> =
       ((200, DlOk 2 rs es), st') \<and>
     (\<exists>r. lookup_row st' (KNum 1) = Some r \<and> row_downloaded r)"
proof -
  have "\<exists>rs es st'.
     download_route \<lparr>downloads_dir = ''downloads'', fs_error = (\<lambda>_. None), rand = id\<rparr> fixture_store
       \<lparr>b_video_ids = IdsArray [KNum 1, KStr ''1''], b_dl_platform = None, b_dl_cookies = None\<rparr> =
       ((200, DlOk (length (filter (\<lambda>k. lookup_row fixture_store k \<noteq> None) [KNum 1, KStr ''1''])) rs es), st') \<and>
     (\<forall>k \<in> set [KNum 1, KStr ''1'']. lookup_row fixture_store k \<noteq> None \<longrightarrow>
        (\<exists>r. lookup_row st' k = Some r \<and> row_downloaded r))"
    by (rule download_route_found) simp_all
  moreover have "lookup_row fixture_store (KNum 1) \<noteq> None" "lookup_row fixture_store (KStr ''1'') \<noteq> None"
    by code_simp+
  ultimately show ?thesis by auto
qed

text \<open>C20: A download request without an array of ids, or with an empty one, is rejected with
  400 and changes nothing.\<close>

theorem download_route_rejects:
  assumes "b_video_ids b = IdsMissing \<or> b_video_ids b = IdsNotArray \<or> b_video_ids b = IdsArray []"
  shows "download_route dw st b = ((400, DlBad ''Video IDs are required''), st)"
  using assms by (auto simp: download_route_def)

theorem download_route_rejects_witness:
  "download_route \<lparr>downloads_dir = ''downloads'', fs_error = (\<lambda>_. None), rand = id\<rparr> fixture_store
     \<lparr>b_video_ids = IdsArray [], b_dl_platform = None, b_dl_cookies = None\<rparr> =
   ((400, DlBad ''Video IDs are required''), fixture_store)"
  by (rule download_route_rejects) simp

text \<open>C21: A completed download writes the dummy file at
  \<open><dir>/<platform>_<id>_no_watermark.mp4\<close> and reports a size between 1000000 and
  10999999 bytes.\<close>

theorem downloadVideo_result:
  assumes "downloadVideo dw k st vid plat = (Inr d, st')"
  shows "1000000 \<le> file_size d \<and> file_size d \<le> 10999999 \<and>
         file_path d = downloads_dir dw @ ''/'' @ plat @ ''_'' @ vid @ ''_no_watermark.mp4'' \<and>
         files st' (file_path d) = Some (''Dummy video content for '' @ vid)"
  using assms by (auto simp: downloadVideo_def Let_def dl_file_name_def split: option.splits)

theorem downloadVideo_result_witness:
  "file_size (projr (fst (downloadVideo \<lparr>downloads_dir = ''downloads'', fs_error = (\<lambda>_. None),
                                          rand = (\<lambda>_. 99999999)\<rparr> 0 fixture_store ''42'' ''tiktok''))) = 10999999"
proof -
  let ?dw = "\<lparr>downloads_dir = ''downloads'', fs_error = (\<lambda>_. None), rand = (\<lambda>_. 99999999::nat)\<rparr>"
  obtain r st' where d: "downloadVideo ?dw 0 fixture_store ''42'' ''tiktok'' = (r, st')"
    by (cases "downloadVideo ?dw 0 fixture_store ''42'' ''tiktok''") auto
  then obtain x where r: "r = Inr x" by (auto simp: downloadVideo_def Let_def)
  from downloadVideo_result [of ?dw 0 fixture_store "''42''" "''tiktok''" x st'] d r
  have "file_size x \<le> 10999999" by simp
  moreover have "file_size x = 10999999" using d r by (auto simp: downloadVideo_def Let_def)
  ultimately show ?thesis using d r by simp
qed


text \<open>The reported size is not the size of the file written: the dummy content is far
  shorter than any size the stub reports.\<close>

theorem downloadVideo_size_unrelated:
  assumes "downloadVideo dw k st vid plat = (Inr d, st')" and "length vid < 999976"
  shows "files st' (file_path d) = Some c \<Longrightarrow> length c < file_size d"
  using assms by (auto simp: downloadVideo_def Let_def split: option.splits)

theorem downloadVideo_size_unrelated_witness:
  "length (''Dummy video content for '' @ ''42'') <
   file_size (projr (fst (downloadVideo \<lparr>downloads_dir = ''downloads'', fs_error = (\<lambda>_. None),
                                          rand = (\<lambda>_. 0)\<rparr> 0 fixture_store ''42'' ''tiktok'')))"
proof -
  let ?dw = "\<lparr>downloads_dir = ''downloads'', fs_error = (\<lambda>_. None), rand = (\<lambda>_. 0::nat)\<rparr>"
  let ?d = "\<lparr>file_path = ''downloads/tiktok_42_no_watermark.mp4'', file_size = 1000000\<rparr>"
  let ?st' = "fixture_store\<lparr>files := (files fixture_store)(''downloads/tiktok_42_no_watermark.mp4'' :=
                Some (''Dummy video content for '' @ ''42''))\<rparr>"
  have d: "downloadVideo ?dw 0 fixture_store ''42'' ''tiktok'' = (Inr ?d, ?st')"
    by (simp add: downloadVideo_def dl_file_name_def Let_def)
  have "length (''Dummy video content for '' @ ''42'') < file_size ?d"
    by (rule downloadVideo_size_unrelated [OF d]) simp_all
  with d show ?thesis by simp
qed

text \<open>Scheduling a post always succeeds with a fresh id and stores the body's fields as
  given, whether or not the video or account it names exists.\<close>

theorem schedule_route_unchecked:
  "\<exists>i. post_seq st < i \<and>
     schedule_route st b =
       ((200, i), st\<lparr>post_rows := post_rows st @
          [\<lparr>post_id = i, post_video_id = s_video_id b, post_account_id = s_account_id b,
            post_platform = s_platform b, post_time = s_time b, post_status = ''pending'',
            post_created_at = clock st\<rparr>], post_seq := i\<rparr>)"
  by (simp add: schedule_route_def Let_def)

end
