(* ===== verification/Client_Service.thy ===== *)
theory Client_Service
  imports Server_Routes
begin

text \<open>
  The client's HTTP layer, src/client/src/services/videoService.ts.

  \<^item> \<open>axios.post\<close> resolves with the response when its status is 2xx and rejects
    otherwise, with the message \<open>Request failed with status code N\<close>; without any
    response it rejects with \<open>Network Error\<close>. The reply of the server is therefore
    \<open>None\<close> (no response) or its status and body.
  \<^item> \<open>scanVideos\<close> and \<open>downloadVideos\<close> return the server's body when it says
    \<open>success\<close>, a failure result with the body's message otherwise, and a failure
    result with the error's message when \<open>axios\<close> rejects.
  \<^item> Before returning a successful body, both report progress through \<open>onProgress\<close>
    in a loop \<open>for (let i = 0; i <= 100; i += step)\<close>; \<open>progress_ticks\<close> is that loop,
    written with \<open>partial_function (option)\<close> since a step of 0 would never end.
  \<^item> The exported helpers \<open>parseTikTokUrl\<close>, \<open>parseDouyinUrl\<close>,
    \<open>extractVideoMetadata\<close> and \<open>downloadVideoWithoutWatermark\<close> are called nowhere
    in the repository; they are modelled over what the platform gives them (the pathname
    \<open>new URL\<close> parses, the draws of \<open>Math.random\<close>). The \<open>mockVideos\<close> list is
    unused data.
\<close>

section \<open>axios\<close>

definition axios_post :: "(nat \<times> 'a) option \<Rightarrow> string + 'a" where
  "axios_post reply =
     (case reply of
        None \<Rightarrow> Inl ''Network Error''
      | Some (code, body) \<Rightarrow>
          if 200 \<le> code \<and> code < 300 then Inr body
          else Inl (''Request failed with status code '' @ show_nat code))"

section \<open>The progress loop\<close>

partial_function (option) progress_ticks :: "nat \<Rightarrow> nat \<Rightarrow> nat list option" where
  "progress_ticks step i =
     (if i \<le> 100 then Option.bind (progress_ticks step (i + step)) (\<lambda>ys. Some (i # ys)) else Some [])"

section \<open>scanVideos\<close>

text \<open>\<open>response.data.message || 'Scan failed'\<close>\<close>

definition message_or :: "string option \<Rightarrow> string \<Rightarrow> string" where
  "message_or m d = (case m of Some s \<Rightarrow> js_or s d | None \<Rightarrow> d)"

text \<open>Lines 91--130, given the server's reply to the POST.\<close>

definition client_scanVideos :: "(nat \<times> scan_result) option \<Rightarrow> scan_result" where
  "client_scanVideos reply =
     (case axios_post reply of
        Inl m \<Rightarrow> \<lparr>success = False, videos = [], message = Some m, total_count = None\<rparr>
      | Inr d \<Rightarrow>
          if success d then d
          else \<lparr>success = False, videos = [], message = Some (message_or (message d) ''Scan failed''),
                total_count = None\<rparr>)"

section \<open>downloadVideos\<close>

text \<open>\<open>DownloadResult\<close>, lines 41--46.\<close>

record download_result =
  d_success :: bool
  d_count :: nat
  d_message :: "string option"
  d_errors :: "string list option"

text \<open>The JSON body of the download route as the client reads it: the failure body has
  no \<open>downloadedCount\<close>, which the client would read as \<open>undefined\<close>; that body only
  comes with status 400, which \<open>axios\<close> rejects, so its count is never read.\<close>

definition download_body :: "dl_response \<Rightarrow> download_result" where
  "download_body r =
     (case r of
        DlOk c _ es \<Rightarrow> \<lparr>d_success = True, d_count = c, d_message = None, d_errors = es\<rparr>
      | DlBad m \<Rightarrow> \<lparr>d_success = False, d_count = 0, d_message = Some m, d_errors = None\<rparr>)"

text \<open>Lines 132--169.\<close>

definition client_downloadVideos :: "(nat \<times> dl_response) option \<Rightarrow> download_result" where
  "client_downloadVideos reply =
     (case axios_post (map_option (\<lambda>(c, r). (c, download_body r)) reply) of
        Inl m \<Rightarrow> \<lparr>d_success = False, d_count = 0, d_message = Some m, d_errors = None\<rparr>
      | Inr d \<Rightarrow>
          if d_success d then d
          else \<lparr>d_success = False, d_count = 0, d_message = Some (message_or (d_message d) ''Download failed''),
                d_errors = None\<rparr>)"

section \<open>The exported helpers\<close>

text \<open>\<open>parseTikTokUrl\<close> and \<open>parseDouyinUrl\<close>, lines 172--214. \<open>new URL(url)\<close> is the
  platform's parser; the model takes what it yields, the URL's pathname, or \<open>None\<close>
  when the constructor throws. The returned \<open>id\<close> is \<open>None\<close> for \<open>null\<close> and for
  \<open>undefined\<close>.\<close>

datatype url_type = UrlVideo | UrlUser | UrlUnknown | UrlInvalid

text \<open>\<open>p.split(a)[1]?.split(b)[0]\<close>.\<close>

definition segment_after :: "string \<Rightarrow> string \<Rightarrow> string \<Rightarrow> string option" where
  "segment_after a b p = Option.bind (js_index (js_split p a) 1) (\<lambda>x. js_index (js_split x b) 0)"

definition parse_platform_url :: "string \<Rightarrow> string option \<Rightarrow> url_type \<times> string option" where
  "parse_platform_url user_sep pn =
     (case pn of
        None \<Rightarrow> (UrlInvalid, None)
      | Some p \<Rightarrow>
          if js_includes p ''/video/'' then (UrlVideo, segment_after ''/video/'' ''?'' p)
          else if js_includes p user_sep then (UrlUser, segment_after user_sep ''/'' p)
          else (UrlUnknown, None))"

definition parseTikTokUrl :: "string option \<Rightarrow> url_type \<times> string option" where
  "parseTikTokUrl = parse_platform_url ''/@''"

definition parseDouyinUrl :: "string option \<Rightarrow> url_type \<times> string option" where
  "parseDouyinUrl = parse_platform_url ''/user/''"

text \<open>\<open>n.toString(16)\<close>.\<close>

fun show_hex :: "nat \<Rightarrow> string" where
  "show_hex n =
     (if n < 16 then [''0123456789abcdef'' ! n]
      else show_hex (n div 16) @ [''0123456789abcdef'' ! (n mod 16)])"

declare show_hex.simps [simp del]

text \<open>\<open>extractVideoMetadata\<close>, lines 217--238: mock metadata from four draws of
  \<open>Math.random\<close>, \<open>rand k\<close> being \<open>Math.floor(Math.random() * N)\<close> as in the server's
  stub, written \<open>rand k mod N\<close>. The Vietnamese letter o with circumflex and dot below of
  the content is its UTF-8 bytes E1 BB 99.\<close>

record metadata =
  md_title :: string
  md_content :: string
  md_likes :: nat
  md_views :: nat
  md_uploader :: string
  md_thumbnail_url :: string
  md_video_url :: string

definition extractVideoMetadata :: "(nat \<Rightarrow> nat) \<Rightarrow> string \<Rightarrow> string \<Rightarrow> metadata" where
  "extractVideoMetadata rnd vid plat =
     \<lparr>md_title = ''Video '' @ vid,
      md_content = ''N'' @ [CHR 0xE1, CHR 0xBB, CHR 0x99] @ ''i dung video '' @ vid,
      md_likes = rnd 0 mod 50000 + 1000,
      md_views = rnd 1 mod 500000 + 10000,
      md_uploader = ''@user'' @ show_nat (rnd 2 mod 1000),
      md_thumbnail_url = ''https://via.placeholder.com/160x120/'' @ show_hex (rnd 3 mod 16777215) @
                         ''/ffffff?text='' @ plat,
      md_video_url = ''https://example.com/video_'' @ vid @ ''.mp4''\<rparr>"

text \<open>\<open>downloadVideoWithoutWatermark\<close>, lines 241--263, after its two-second wait.\<close>

definition downloadVideoWithoutWatermark :: "(nat \<Rightarrow> nat) \<Rightarrow> string \<Rightarrow> string \<Rightarrow> bool \<times> string \<times> nat" where
  "downloadVideoWithoutWatermark rnd vid plat =
     (True, ''downloads/'' @ plat @ ''_'' @ vid @ ''_no_watermark.mp4'', rnd 0 mod 10000000 + 1000000)"

section \<open>Lemmas\<close>

lemma axios_post_ok: "200 \<le> c \<Longrightarrow> c < 300 \<Longrightarrow> axios_post (Some (c, b)) = Inr b"
  by (simp add: axios_post_def)

lemma axios_post_fail:
  "\<not> (200 \<le> c \<and> c < 300) \<Longrightarrow> axios_post (Some (c, b)) = Inl (''Request failed with status code '' @ show_nat c)"
  by (simp add: axios_post_def)

lemma client_downloadVideos_ok:
  "200 \<le> c \<Longrightarrow> c < 300 \<Longrightarrow>
   client_downloadVideos (Some (c, DlOk n rs es)) = \<lparr>d_success = True, d_count = n, d_message = None, d_errors = es\<rparr>"
  by (simp add: client_downloadVideos_def axios_post_ok download_body_def)

lemma parse_urls_examples:
  "parseTikTokUrl (Some ''/@bob/video/7303728609955515653'') = (UrlVideo, Some ''7303728609955515653'') \<and>
   parseTikTokUrl (Some ''/@bob/'') = (UrlUser, Some ''bob'') \<and>
   parseTikTokUrl (Some ''/t/ZMabc/'') = (UrlUnknown, None) \<and>
   parseDouyinUrl (Some ''/user/MS4wLj/'') = (UrlUser, Some ''MS4wLj'') \<and>
   parseDouyinUrl None = (UrlInvalid, None)"
  by code_simp

lemma parseTikTokUrl_video_id:
  "fst (parseTikTokUrl (Some p)) = UrlVideo \<Longrightarrow> snd (parseTikTokUrl (Some p)) = video_id_part p"
  by (auto simp: parseTikTokUrl_def parse_platform_url_def segment_after_def video_id_part_def split: if_splits)

lemma downloadVideoWithoutWatermark_size:
  "1000000 \<le> snd (snd (downloadVideoWithoutWatermark rnd vid plat)) \<and>
   snd (snd (downloadVideoWithoutWatermark rnd vid plat)) \<le> 10999999"
  by (simp add: downloadVideoWithoutWatermark_def)

end
