(* ===== verification/Video_Scanner_UI.thy ===== *)
theory Video_Scanner_UI
  imports Client_Service
begin

text \<open>
  The scanning screen, src/client/src/components/VideoScanner.tsx: its React state as
  a record \<open>ui\<close>, each handler as one case of a step function on events, and the
  requests it has sent and not yet seen answered.

  \<^item> The \<open>useState\<close> hooks (lines 21--33) are the fields of \<open>ui\<close>;
    \<open>selectedVideos\<close>, a \<open>Set\<close>, is a list without repetitions in insertion order,
    which is the order \<open>Array.from\<close> gives.
  \<^item> \<open>handleScan\<close> and \<open>handleDownload\<close> are \<open>async\<close>: their code up to the
    \<open>await\<close> is the click event, which also records the request in \<open>inflight\<close>; the
    rest (the result, then the \<open>finally\<close>) is a separate event, \<open>ScanReturns i r\<close> or
    \<open>DownloadReturns i r\<close>, for the \<open>i\<close>-th pending request, with \<open>r\<close> what
    \<open>videoService\<close> returned. Replies may come in any order. The closure of
    \<open>handleDownload\<close> keeps the selection of the click, so the request records it.
  \<^item> A disabled button fires nothing: each click has the button's \<open>disabled\<close>
    condition (lines 269--358) as a guard, then the handler's own checks.
  \<^item> \<open>alert\<close> and \<open>window.confirm\<close> only talk to the user; the answer to
    \<open>confirm\<close> is part of the delete event. The progress values reported while a reply
    is processed end at 0 (the \<open>finally\<close>), and are not kept.
\<close>

section \<open>The input parser\<close>

text \<open>\<open>parseInput\<close>, lines 36--62: every non-blank line, trimmed, goes to the first
  list whose test it passes; a line passing none is dropped.\<close>

record parsed_input =
  p_video_links :: "string list"
  p_user_profiles :: "string list"
  p_hashtags :: "string list"

definition classify_line :: "string \<Rightarrow> parsed_input \<Rightarrow> parsed_input" where
  "classify_line t r =
     (if js_includes t ''/video/'' then r\<lparr>p_video_links := p_video_links r @ [t]\<rparr>
      else if js_includes t ''/@'' then r\<lparr>p_user_profiles := p_user_profiles r @ [t]\<rparr>
      else if starts_with ''#'' t then r\<lparr>p_hashtags := p_hashtags r @ [t]\<rparr>
      else if js_includes t ''tiktok.com'' \<or> js_includes t ''douyin.com'' then
        (if js_includes t ''/@'' then r\<lparr>p_user_profiles := p_user_profiles r @ [t]\<rparr>
         else r\<lparr>p_video_links := p_video_links r @ [t]\<rparr>)
      else r)"

definition parseInput :: "string \<Rightarrow> parsed_input" where
  "parseInput input =
     fold (\<lambda>line r. classify_line (js_trim line) r)
       (filter (\<lambda>line. js_trim line \<noteq> []) (js_split input [CHR 0x0A]))
       \<lparr>p_video_links = [], p_user_profiles = [], p_hashtags = []\<rparr>"

section \<open>The screen's state\<close>

datatype request =
    ScanCall scan_request
  | DownloadCall "string list" string string

record ui =
  ui_platform :: string
  ui_links :: string
  ui_cookies :: string
  is_scanning :: bool
  is_downloading :: bool
  range_from :: int
  range_to :: int
  filter_views :: int
  ui_videos :: "video list"
  selected :: "string list"
  scan_progress :: nat
  download_progress :: nat
  search_term :: string
  inflight :: "request list"

definition ui_init :: ui where
  "ui_init =
     \<lparr>ui_platform = ''tiktok'', ui_links = [], ui_cookies = [], is_scanning = False,
      is_downloading = False, range_from = 0, range_to = 0, filter_views = 0, ui_videos = [],
      selected = [], scan_progress = 0, download_progress = 0, search_term = [], inflight = []\<rparr>"

text \<open>\<open>new Set(xs)\<close>: the first occurrence of each element, in order.\<close>

definition js_set_of :: "'a list \<Rightarrow> 'a list" where
  "js_set_of xs = fold (\<lambda>x acc. if x \<in> set acc then acc else acc @ [x]) xs []"

text \<open>\<open>s.toLowerCase()\<close> on ASCII letters.\<close>

definition js_lower :: "string \<Rightarrow> string" where
  "js_lower s =
     map (\<lambda>c. let n = (of_char c :: nat) in if 65 \<le> n \<and> n \<le> 90 then char_of (n + 32) else c) s"

text \<open>\<open>filteredVideos\<close>, lines 190--201: the rows the table shows.\<close>

definition shown_videos :: "ui \<Rightarrow> video list" where
  "shown_videos s =
     (if search_term s = [] then ui_videos s
      else filter (\<lambda>v. js_includes (js_lower (title v)) (js_lower (search_term s)) \<or>
                       js_includes (js_lower (content v)) (js_lower (search_term s)) \<or>
                       js_includes (js_lower (uploader v)) (js_lower (search_term s)) \<or>
                       js_includes (tiktok_id v) (search_term s))
             (ui_videos s))"

section \<open>Events and handlers\<close>

datatype ui_event =
    EditLinks string | EditCookies string | PickPlatform string
  | EditRange int int | EditFilter int | EditSearch string
  | ClickScan | ClickStopScan | ClickDownload | ClickStopDownload | ClickDeleteList bool
  | ClickSelectAll | ToggleVideo string | ClickSelectRange | ClickFilterViews
  | ScanReturns nat scan_result
  | DownloadReturns nat download_result

definition remove_nth :: "nat \<Rightarrow> 'a list \<Rightarrow> 'a list" where
  "remove_nth i xs = take i xs @ drop (Suc i) xs"

text \<open>\<open>handleScan\<close> up to its \<open>await\<close>, lines 64--86.\<close>

definition click_scan :: "ui \<Rightarrow> ui" where
  "click_scan s =
     (if is_scanning s \<or> js_trim (ui_links s) = [] then s
      else let p = parseInput (ui_links s)
           in s\<lparr>is_scanning := True, scan_progress := 0, ui_videos := [], selected := [],
                inflight := inflight s @
                  [ScanCall \<lparr>req_platform = ui_platform s, video_links = p_video_links p,
                             user_profiles = p_user_profiles p, hashtags = p_hashtags p,
                             req_cookies = ui_cookies s\<rparr>]\<rparr>)"

text \<open>The rest of \<open>handleScan\<close>, lines 88--100.\<close>

definition scan_returns :: "ui \<Rightarrow> scan_result \<Rightarrow> ui" where
  "scan_returns s r =
     s\<lparr>ui_videos := (if success r then videos r else ui_videos s), is_scanning := False,
       scan_progress := 0\<rparr>"

text \<open>\<open>handleDownload\<close> up to its \<open>await\<close>, lines 108--124, behind the button's
  \<open>disabled={isDownloading || selectedVideos.size === 0 || videos.length === 0}\<close>.\<close>

definition click_download :: "ui \<Rightarrow> ui" where
  "click_download s =
     (if is_downloading s \<or> selected s = [] \<or> ui_videos s = [] then s
      else s\<lparr>is_downloading := True, download_progress := 0,
             inflight := inflight s @ [DownloadCall (selected s) (ui_platform s) (ui_cookies s)]\<rparr>)"

text \<open>The rest of \<open>handleDownload\<close>, lines 126--143: the videos selected at the click
  are marked when the server says \<open>success\<close>.\<close>

definition download_returns :: "ui \<Rightarrow> string list \<Rightarrow> download_result \<Rightarrow> ui" where
  "download_returns s ids r =
     (if d_success r then
        s\<lparr>ui_videos := map (\<lambda>v. if v_id v \<in> set ids then v\<lparr>downloaded := True, status := Completed\<rparr> else v)
                         (ui_videos s),
          selected := []\<rparr>
      else s)\<lparr>is_downloading := False, download_progress := 0\<rparr>"

text \<open>\<open>handleSelectAll\<close>, lines 158--164.\<close>

definition select_all :: "ui \<Rightarrow> ui" where
  "select_all s =
     (if length (selected s) = length (ui_videos s) then s\<lparr>selected := []\<rparr>
      else s\<lparr>selected := js_set_of (map v_id (ui_videos s))\<rparr>)"

text \<open>\<open>handleSelectVideo\<close>, lines 166--174, from a checkbox of a shown row.\<close>

definition toggle_video :: "ui \<Rightarrow> string \<Rightarrow> ui" where
  "toggle_video s i =
     (if i \<notin> v_id ` set (shown_videos s) then s
      else if i \<in> set (selected s) then s\<lparr>selected := removeAll i (selected s)\<rparr>
      else s\<lparr>selected := selected s @ [i]\<rparr>)"

text \<open>\<open>handleSelectRange\<close>, lines 176--181: \<open>videos.slice(from - 1, to)\<close>, the
  items from index \<open>from - 1\<close> up to, not including, index \<open>to\<close>, both cut at the
  length.\<close>

definition select_range :: "ui \<Rightarrow> ui" where
  "select_range s =
     (if 0 < range_from s \<and> 0 < range_to s \<and> range_from s \<le> range_to s then
        s\<lparr>selected := js_set_of (map v_id (take (nat (range_to s) - nat (range_from s - 1))
                                                (drop (nat (range_from s - 1)) (ui_videos s))))\<rparr>
      else s)"

text \<open>\<open>handleFilterByViews\<close>, lines 183--188.\<close>

definition filter_by_views :: "ui \<Rightarrow> ui" where
  "filter_by_views s =
     (if 0 < filter_views s then s\<lparr>ui_videos := filter (\<lambda>v. filter_views s \<le> int (views v)) (ui_videos s)\<rparr>
      else s)"

text \<open>One event. A reply names a pending request of its kind; anything else is no event.
  The header checkbox that calls \<open>handleSelectAll\<close> is rendered only while \<open>videos\<close> is
  not empty (line 386), so clicking it is no event otherwise.\<close>

fun ui_step :: "ui \<Rightarrow> ui_event \<Rightarrow> ui" where
  "ui_step s (EditLinks t) = s\<lparr>ui_links := t\<rparr>"
| "ui_step s (EditCookies t) = s\<lparr>ui_cookies := t\<rparr>"
| "ui_step s (PickPlatform p) = s\<lparr>ui_platform := p\<rparr>"
| "ui_step s (EditRange a b) = s\<lparr>range_from := a, range_to := b\<rparr>"
| "ui_step s (EditFilter n) = s\<lparr>filter_views := n\<rparr>"
| "ui_step s (EditSearch t) = s\<lparr>search_term := t\<rparr>"
| "ui_step s ClickScan = click_scan s"
| "ui_step s ClickStopScan =
     (if is_scanning s then s\<lparr>is_scanning := False, scan_progress := 0\<rparr> else s)"
| "ui_step s ClickDownload = click_download s"
| "ui_step s ClickStopDownload =
     (if is_downloading s then s\<lparr>is_downloading := False, download_progress := 0\<rparr> else s)"
| "ui_step s (ClickDeleteList ok) =
     (if ui_videos s = [] \<or> \<not> ok then s else s\<lparr>ui_videos := [], selected := []\<rparr>)"
| "ui_step s ClickSelectAll = (if ui_videos s = [] then s else select_all s)"
| "ui_step s (ToggleVideo i) = toggle_video s i"
| "ui_step s ClickSelectRange = select_range s"
| "ui_step s ClickFilterViews = filter_by_views s"
| "ui_step s (ScanReturns i r) =
     (if i < length (inflight s) \<and> (case inflight s ! i of ScanCall _ \<Rightarrow> True | _ \<Rightarrow> False)
      then scan_returns (s\<lparr>inflight := remove_nth i (inflight s)\<rparr>) r else s)"
| "ui_step s (DownloadReturns i r) =
     (if i < length (inflight s) then
        (case inflight s ! i of
           DownloadCall ids _ _ \<Rightarrow> download_returns (s\<lparr>inflight := remove_nth i (inflight s)\<rparr>) ids r
         | _ \<Rightarrow> s)
      else s)"

text \<open>Runs of events.\<close>

definition ui_run :: "ui \<Rightarrow> ui_event list \<Rightarrow> ui" where
  "ui_run s es = fold (\<lambda>e s. ui_step s e) es s"

section \<open>Reachable states\<close>

text \<open>The replies the server can give to a scan: records as the scanners build them,
  pending and not downloaded (what the scan route's records satisfy, see
  \<open>Spec2Isabelle\<close>).\<close>

fun reply_ok :: "ui_event \<Rightarrow> bool" where
  "reply_ok (ScanReturns i r) = list_all (\<lambda>v. status v = Pending \<and> \<not> downloaded v) (videos r)"
| "reply_ok e = True"

inductive ui_reach :: "ui \<Rightarrow> bool" where
  init: "ui_reach ui_init"
| step: "ui_reach s \<Longrightarrow> reply_ok e \<Longrightarrow> ui_reach (ui_step s e)"

text \<open>The consistency every reachable state keeps.\<close>

definition ui_inv :: "ui \<Rightarrow> bool" where
  "ui_inv s \<longleftrightarrow>
     distinct (selected s) \<and>
     (\<forall>v \<in> set (ui_videos s). (status v = Pending \<and> \<not> downloaded v) \<or> (status v = Completed \<and> downloaded v))"

section \<open>Fixtures\<close>

text \<open>A scanned clip, and a session: enter a link, scan, receive two clips,
  select the second, filter by 100 views.\<close>

definition fixture_clip :: "string \<Rightarrow> nat \<Rightarrow> video" where
  "fixture_clip t n =
     pending_record (''video_'' @ t)
       \<lparr>tiktok_id = t, title = ''Clip'', content = [], likes = 0, views = n, uploader = ''u'',
        thumbnail_url = ''https://p16.tiktokcdn.com/a.jpeg'', video_url = [], platform = ''tiktok''\<rparr>"

definition fixture_events :: "ui_event list" where
  "fixture_events =
     [EditLinks ''https://www.tiktok.com/@a/video/77'', ClickScan,
      ScanReturns 0 \<lparr>success = True, videos = [fixture_clip ''77'' 500, fixture_clip ''78'' 10],
                     message = None, total_count = Some 2\<rparr>,
      ToggleVideo ''video_78'', EditFilter 100, ClickFilterViews]"

text \<open>A second session: scan two clips, select all, unselect and reselect the first,
  download, and the server reports success.\<close>

definition fixture_download_events :: "ui_event list" where
  "fixture_download_events =
     [EditLinks ''https://www.tiktok.com/@a/video/77'', ClickScan,
      ScanReturns 0 \<lparr>success = True, videos = [fixture_clip ''77'' 500, fixture_clip ''78'' 10],
                     message = None, total_count = Some 2\<rparr>,
      ClickSelectAll, ToggleVideo ''video_77'', ToggleVideo ''video_77'', ClickDownload,
      DownloadReturns 0 \<lparr>d_success = True, d_count = 0, d_message = None, d_errors = None\<rparr>]"

section \<open>Lemmas\<close>

lemma js_set_of_fold:
  "distinct acc \<Longrightarrow> distinct (fold (\<lambda>x acc. if x \<in> set acc then acc else acc @ [x]) xs acc) \<and>
     set (fold (\<lambda>x acc. if x \<in> set acc then acc else acc @ [x]) xs acc) = set acc \<union> set xs"
  by (induction xs arbitrary: acc) auto

lemma js_set_of_distinct [simp]: "distinct (js_set_of xs)"
  and set_js_set_of [simp]: "set (js_set_of xs) = set xs"
  using js_set_of_fold [of "[]" xs] by (simp_all add: js_set_of_def)

lemma length_js_set_of: "length (js_set_of xs) = card (set xs)"
  using distinct_card [OF js_set_of_distinct [of xs]] by simp

lemma ui_step_inv: "ui_inv s \<Longrightarrow> reply_ok e \<Longrightarrow> ui_inv (ui_step s e)"
proof (cases e)
  case (ScanReturns i r)
  assume "ui_inv s" "reply_ok e"
  with ScanReturns show ?thesis
    by (auto simp: ui_inv_def scan_returns_def list_all_iff)
next
  case (DownloadReturns i r)
  assume "ui_inv s"
  with DownloadReturns show ?thesis
    by (auto simp: ui_inv_def download_returns_def split: request.splits)
qed (auto simp: ui_inv_def click_scan_def Let_def click_download_def select_all_def toggle_video_def
      select_range_def filter_by_views_def distinct_removeAll)

lemma ui_reach_inv: "ui_reach s \<Longrightarrow> ui_inv s"
proof (induction rule: ui_reach.induct)
  case init
  show ?case by (simp add: ui_inv_def ui_init_def)
next
  case (step s e)
  from step.IH step.hyps(2) show ?case by (rule ui_step_inv)
qed

lemma ui_reach_run: "ui_reach s \<Longrightarrow> list_all reply_ok es \<Longrightarrow> ui_reach (ui_run s es)"
  by (induction es arbitrary: s) (simp_all add: ui_run_def ui_reach.step)

lemma fixture_clip_simps [simp]:
  "v_id (fixture_clip t n) = ''video_'' @ t" "views (fixture_clip t n) = n"
  "status (fixture_clip t n) = Pending" "downloaded (fixture_clip t n) = False"
  "title (fixture_clip t n) = ''Clip''" "tiktok_id (fixture_clip t n) = t"
  by (simp_all add: fixture_clip_def)

lemma fixture_run:
  "ui_videos (ui_run ui_init fixture_events) = [fixture_clip ''77'' 500]"
  "selected (ui_run ui_init fixture_events) = [''video_78'']"
  by code_simp+

lemma fixture_reach: "ui_reach (ui_run ui_init fixture_events)"
  by (rule ui_reach_run [OF ui_reach.init]) (simp add: fixture_events_def)

lemma select_all_duplicates:
  assumes "\<not> distinct (map v_id (ui_videos s))" and "selected s = js_set_of (map v_id (ui_videos s))"
  shows "select_all s = s"
proof -
  have "length (selected s) < length (ui_videos s)"
    using assms card_length [of "map v_id (ui_videos s)"] card_distinct [of "map v_id (ui_videos s)"]
    by (auto simp: length_js_set_of order.strict_iff_order)
  then show ?thesis using assms(2) by (simp add: select_all_def)
qed

lemma download_returns_marks:
  "d_success r \<Longrightarrow> v \<in> set (ui_videos (download_returns s ids r)) \<Longrightarrow> v_id v \<in> set ids \<Longrightarrow>
   status v = Completed \<and> downloaded v"
  by (auto simp: download_returns_def)

section \<open>Properties\<close>

text \<open>C6: Every reachable state of the screen has a selection without repetitions, and
  every listed video is either pending and not downloaded or completed and downloaded,
  provided the server's scan replies hold pending, not downloaded records.\<close>

theorem ui_reach_consistent:
  assumes "ui_reach s"
  shows "distinct (selected s) \<and>
         (\<forall>v \<in> set (ui_videos s). (status v = Pending \<and> \<not> downloaded v) \<or> (status v = Completed \<and> downloaded v))"
  using ui_reach_inv [OF assms] by (simp add: ui_inv_def)

theorem ui_reach_consistent_witness:
  "distinct (selected (ui_run ui_init fixture_download_events)) \<and>
   (status (ui_videos (ui_run ui_init fixture_download_events) ! 1) = Completed) =
     downloaded (ui_videos (ui_run ui_init fixture_download_events) ! 1)"
proof -
  have r: "ui_reach (ui_run ui_init fixture_download_events)"
    by (rule ui_reach_run [OF ui_reach.init]) (simp add: fixture_download_events_def)
  have "1 < length (ui_videos (ui_run ui_init fixture_download_events))"
    by code_simp
  then have "ui_videos (ui_run ui_init fixture_download_events) ! 1 \<in> set (ui_videos (ui_run ui_init fixture_download_events))"
    by simp
  with ui_reach_consistent [OF r] show ?thesis by auto
qed

text \<open>C34: Filtering by views keeps the selection of the videos it removes: a selected
  video with fewer views than the threshold leaves the list while its id stays selected,
  and as long as some video is left, the download button sends the whole selection,
  the hidden video included.\<close>

theorem filter_keeps_hidden_selection:
  assumes "v \<in> set (ui_videos s)" and "v_id v \<in> set (selected s)" and "int (views v) < filter_views s"
    and "distinct (map v_id (ui_videos s))" and "u \<in> set (ui_videos s)" and "filter_views s \<le> int (views u)"
    and "\<not> is_downloading s"
  shows "v_id v \<notin> v_id ` set (ui_videos (ui_step s ClickFilterViews)) \<and>
         selected (ui_step s ClickFilterViews) = selected s \<and>
         inflight (ui_step (ui_step s ClickFilterViews) ClickDownload) =
           inflight s @ [DownloadCall (selected s) (ui_platform s) (ui_cookies s)]"
proof -
  have pos: "0 < filter_views s" using assms(3) by linarith
  then have f: "ui_step s ClickFilterViews = s\<lparr>ui_videos := filter (\<lambda>v. filter_views s \<le> int (views v)) (ui_videos s)\<rparr>"
    by (simp add: filter_by_views_def)
  have "w = v" if "w \<in> set (ui_videos s)" "v_id w = v_id v" for w
    using that assms(1,4) by (auto simp: distinct_map dest: inj_onD)
  then have "v_id v \<notin> v_id ` set (filter (\<lambda>v. filter_views s \<le> int (views v)) (ui_videos s))"
    using assms(3) by force
  moreover have "filter (\<lambda>v. filter_views s \<le> int (views v)) (ui_videos s) \<noteq> []"
    using assms(5,6) by (auto simp: filter_empty_conv)
  moreover have "selected s \<noteq> []" using assms(2) by auto
  ultimately show ?thesis using f assms(7) by (simp add: click_download_def)
qed

theorem filter_keeps_hidden_selection_witness:
  "''video_78'' \<notin> v_id ` set (ui_videos (ui_run ui_init fixture_events)) \<and>
   inflight (ui_step (ui_run ui_init fixture_events) ClickDownload) = [DownloadCall [''video_78''] ''tiktok'' []]"
proof -
  let ?s = "ui_run ui_init (take 5 fixture_events)"
  have e: "ui_run ui_init fixture_events = ui_step ?s ClickFilterViews"
    by (simp add: ui_run_def fixture_events_def)
  have "ui_videos ?s = [fixture_clip ''77'' 500, fixture_clip ''78'' 10]" "selected ?s = [''video_78'']"
    "filter_views ?s = 100" "\<not> is_downloading ?s" "inflight ?s = []" "ui_platform ?s = ''tiktok''"
    "ui_cookies ?s = []"
    by code_simp+
  with filter_keeps_hidden_selection [of "fixture_clip ''78'' 10" ?s "fixture_clip ''77'' 500"]
  show ?thesis unfolding e by simp
qed

text \<open>C24: Stopping a scan does not cancel it: the screen stops showing the scan as running,
  and when the server's answer arrives it still replaces the list.\<close>

theorem stop_scan_no_cancel:
  assumes "i < length (inflight s)" and "inflight s ! i = ScanCall q" and "success r"
  shows "\<not> is_scanning (ui_step s ClickStopScan) \<and>
         ui_videos (ui_step (ui_step s ClickStopScan) (ScanReturns i r)) = videos r"
  using assms by (simp add: scan_returns_def)

theorem stop_scan_no_cancel_witness:
  "\<not> is_scanning (ui_step (ui_run ui_init (take 2 fixture_events)) ClickStopScan) \<and>
   ui_videos (ui_step (ui_step (ui_run ui_init (take 2 fixture_events)) ClickStopScan)
     (ScanReturns 0 \<lparr>success = True, videos = [fixture_clip ''77'' 500], message = None, total_count = Some 1\<rparr>)) =
   [fixture_clip ''77'' 500]"
proof -
  have "inflight (ui_run ui_init (take 2 fixture_events)) =
        [ScanCall \<lparr>req_platform = ''tiktok'', video_links = [''https://www.tiktok.com/@a/video/77''],
                   user_profiles = [], hashtags = [], req_cookies = []\<rparr>]"
    by code_simp
  from stop_scan_no_cancel [of 0 "ui_run ui_init (take 2 fixture_events)", OF _ _ _] this
  show ?thesis by simp
qed

text \<open>C25: The progress loop \<open>for (let i = 0; i <= 100; i += step)\<close> terminates for every
  positive step and reports \<open>i, i + step, ...\<close> up to 100.\<close>

theorem progress_ticks_terminates:
  assumes "0 < step"
  shows "progress_ticks step i =
           Some (map (\<lambda>k. i + k * step) [0..<(if i \<le> 100 then (100 - i) div step + 1 else 0)])"
proof (induction i rule: measure_induct_rule [where f = "\<lambda>i. 101 - i"])
  case (less i)
  show ?case
  proof (cases "i \<le> 100")
    case True
    have IH: "progress_ticks step (i + step) =
        Some (map (\<lambda>k. i + step + k * step) [0..<(if i + step \<le> 100 then (100 - (i + step)) div step + 1 else 0)])"
      using less assms True by simp
    have n: "(100 - i) div step + 1 = Suc (if i + step \<le> 100 then (100 - (i + step)) div step + 1 else 0)"
    proof (cases "i + step \<le> 100")
      case True
      then have e: "100 - i = (100 - (i + step)) + step" by simp
      have "(100 - i) div step = (100 - (i + step)) div step + 1"
        unfolding e using assms by (simp add: div_add_self2)
      then show ?thesis using True by simp
    next
      case False
      then have "100 - i < step" using assms by linarith
      then show ?thesis using False by simp
    qed
    have "map (\<lambda>k. i + k * step) [0..<Suc m] = i # map (\<lambda>k. i + step + k * step) [0..<m]" for m
      by (simp add: upt_conv_Cons map_Suc_upt [symmetric] del: upt_Suc)
    then show ?thesis
      using True IH n by (subst progress_ticks.simps) simp
  next
    case False
    then show ?thesis by (subst progress_ticks.simps) simp
  qed
qed

theorem progress_ticks_terminates_witness: "progress_ticks 20 0 = Some [0, 20, 40, 60, 80, 100]"
  by (simp add: progress_ticks_terminates upt_rec)

text \<open>The input parser on a mixed input: a video link, a profile link with blanks, a
  hashtag, a bare word (dropped), a short link of the platform (taken as a video link)
  and a blank line (dropped).\<close>

theorem parseInput_examples:
  "parseInput (js_join [CHR 0x0A]
     [''https://www.tiktok.com/@a/video/77'', ''  https://www.tiktok.com/@bob  '', ''#dance'', ''dance'',
      ''https://vm.tiktok.com/ZMabc/'', '' '']) =
   \<lparr>p_video_links = [''https://www.tiktok.com/@a/video/77'', ''https://vm.tiktok.com/ZMabc/''],
    p_user_profiles = [''https://www.tiktok.com/@bob''], p_hashtags = [''#dance'']\<rparr>"
  by code_simp

end
