(* ===== verification/Video_Scanner_View.thy ===== *)
theory Video_Scanner_View
  imports Video_Scanner_UI
begin

text \<open>
  What the scanning screen renders, src/client/src/components/VideoScanner.tsx lines
  203--483, as a function of the state \<open>ui\<close> of \<open>Video_Scanner_UI\<close>, and what its
  inputs do with the text typed into them.

  \<^item> The rendered page is the record \<open>view\<close>: the platform tabs, the two text areas,
    every button with its \<open>disabled\<close> condition and its label, the progress bars, the
    number inputs, and the table of videos. The Vietnamese captions are fixed text and
    are left out; a label that depends on the state is a constructor carrying what it
    shows.
  \<^item> The table has two forms: the list of \<open>filteredVideos\<close>, numbered from 1, with a
    checkbox per row and a header checkbox, when \<open>videos\<close> is not empty; a header and
    a fixed message otherwise. Numbers are shown with \<open>toLocaleString()\<close>, whose
    separators depend on the locale and are not modelled.
  \<^item> The three number inputs set the state to \<open>parseInt(e.target.value) || 0\<close>.
    \<open>parseInt\<close> reads optional blanks, a sign and the longest run of decimal digits;
    with none it gives \<open>NaN\<close>, which \<open>|| 0\<close> turns into 0. The value of an
    \<open>input type="number"\<close> is a decimal numeral or empty, never a \<open>0x\<close> literal, so
    \<open>parseInt\<close>'s hexadecimal prefix is not modelled.
\<close>

section \<open>Number inputs\<close>

text \<open>\<open>parseInt(s)\<close> in base 10, \<open>None\<close> for \<open>NaN\<close>.\<close>

definition sign_and_rest :: "string \<Rightarrow> int \<times> string" where
  "sign_and_rest t =
     (case t of
        c # r \<Rightarrow> if c = CHR ''-'' then (-1, r) else if c = CHR ''+'' then (1, r) else (1, t)
      | [] \<Rightarrow> (1, []))"

definition parse_int :: "string \<Rightarrow> int option" where
  "parse_int s =
     (let (sg, r) = sign_and_rest (dropWhile is_ws s); d = takeWhile is_digit r
      in if d = [] then None else Some (sg * int (digits_value d)))"

text \<open>\<open>parseInt(e.target.value) || 0\<close>: \<open>NaN\<close> and \<open>-0\<close> are falsy.\<close>

definition int_or_zero :: "string \<Rightarrow> int" where
  "int_or_zero s = (case parse_int s of Some n \<Rightarrow> n | None \<Rightarrow> 0)"

text \<open>\<open>String(n)\<close>, what \<open>value={n}\<close> puts in the input, for the integers a JavaScript
  number holds exactly (below \<open>2^53\<close>): the decimal numeral. Larger values, where
  \<open>parseInt\<close> rounds and \<open>String\<close> switches to exponent form from \<open>10^21\<close> on, are
  not modelled.\<close>

definition show_int :: "int \<Rightarrow> string" where
  "show_int n = (if n < 0 then CHR ''-'' # show_nat (nat (- n)) else show_nat (nat n))"

text \<open>What the user types into the inputs, lines 300--330, and the event it makes: the
  range is replaced by \<open>{ ...selectedRange, from }\<close> or \<open>{ ...selectedRange, to }\<close>.\<close>

datatype input = InputFrom string | InputTo string | InputFilter string

fun on_input :: "ui \<Rightarrow> input \<Rightarrow> ui_event" where
  "on_input s (InputFrom t) = EditRange (int_or_zero t) (range_to s)"
| "on_input s (InputTo t) = EditRange (range_from s) (int_or_zero t)"
| "on_input s (InputFilter t) = EditFilter (int_or_zero t)"

section \<open>The rendered page\<close>

text \<open>The status column, lines 438--451: one icon per status, none for
  \<open>'scanning'\<close>.\<close>

datatype status_icon = IconCheck | IconAlert | IconSpinner | IconCircle

definition status_icon_of :: "status \<Rightarrow> status_icon option" where
  "status_icon_of st =
     (case st of
        Completed \<Rightarrow> Some IconCheck | Error \<Rightarrow> Some IconAlert | Downloading \<Rightarrow> Some IconSpinner
      | Pending \<Rightarrow> Some IconCircle | Scanning \<Rightarrow> None)"

text \<open>A row of the table, lines 411--452.\<close>

record table_row =
  r_number :: nat
  r_checked :: bool
  r_highlight :: bool
  r_thumbnail :: string
  r_tiktok_id :: string
  r_title :: string
  r_content :: string
  r_likes :: nat
  r_views :: nat
  r_icon :: "status_icon option"

definition table_row_of :: "string list \<Rightarrow> nat \<Rightarrow> video \<Rightarrow> table_row" where
  "table_row_of sel k v =
     \<lparr>r_number = k + 1, r_checked = (v_id v \<in> set sel), r_highlight = (v_id v \<in> set sel),
      r_thumbnail = thumbnail_url v, r_tiktok_id = tiktok_id v, r_title = title v, r_content = content v,
      r_likes = likes v, r_views = views v, r_icon = status_icon_of (status v)\<rparr>"

text \<open>The table, lines 386--479: the header checkbox is checked when
  \<open>selectedVideos.size === videos.length\<close>; the empty form's checkbox has no state.\<close>

datatype table = EmptyTable | VideoTable bool "table_row list"

definition table_of :: "ui \<Rightarrow> table" where
  "table_of s =
     (if ui_videos s = [] then EmptyTable
      else VideoTable (length (selected s) = length (ui_videos s))
             (map (\<lambda>(k, v). table_row_of (selected s) k v) (enumerate 0 (shown_videos s))))"

text \<open>The labels that depend on the state: the scan button shows the progress while
  scanning and its caption otherwise (line 273); the download button shows the progress
  while downloading and the size of the selection otherwise (line 347).\<close>

datatype scan_label = ScanRunning nat | ScanIdle

datatype download_label = DownloadRunning nat | DownloadSelected nat

record view =
  tab_tiktok :: bool
  tab_douyin :: bool
  links_text :: string
  cookies_text :: string
  scan_enabled :: bool
  scan_caption :: scan_label
  stop_scan_enabled :: bool
  scan_bar :: "nat option"
  range_text :: "string \<times> string"
  filter_text :: string
  download_enabled :: bool
  download_caption :: download_label
  stop_download_enabled :: bool
  delete_enabled :: bool
  download_bar :: "nat option"
  search_text :: string
  video_table :: table

text \<open>The JSX of lines 203--483.\<close>

definition render :: "ui \<Rightarrow> view" where
  "render s =
     \<lparr>tab_tiktok = (ui_platform s = ''tiktok''), tab_douyin = (ui_platform s = ''douyin''),
      links_text = ui_links s, cookies_text = ui_cookies s,
      scan_enabled = (\<not> is_scanning s),
      scan_caption = (if is_scanning s then ScanRunning (scan_progress s) else ScanIdle),
      stop_scan_enabled = is_scanning s,
      scan_bar = (if is_scanning s then Some (scan_progress s) else None),
      range_text = (show_int (range_from s), show_int (range_to s)),
      filter_text = show_int (filter_views s),
      download_enabled = (\<not> (is_downloading s \<or> selected s = [] \<or> ui_videos s = [])),
      download_caption =
        (if is_downloading s then DownloadRunning (download_progress s) else DownloadSelected (length (selected s))),
      stop_download_enabled = is_downloading s,
      delete_enabled = (ui_videos s \<noteq> []),
      download_bar = (if is_downloading s then Some (download_progress s) else None),
      search_text = search_term s,
      video_table = table_of s\<rparr>"

text \<open>The checkbox of the row numbered \<open>n\<close>: \<open>onChange={() => handleSelectVideo(video.id)}\<close>
  of the \<open>n\<close>-th shown video.\<close>

definition click_row :: "ui \<Rightarrow> nat \<Rightarrow> ui_event option" where
  "click_row s n =
     (if 0 < n \<and> n \<le> length (shown_videos s) then Some (ToggleVideo (v_id (shown_videos s ! (n - 1)))) else None)"

section \<open>Fixtures\<close>

text \<open>A session that scans two clips and searches for \<open>78\<close>.\<close>

definition search_session :: "ui_event list" where
  "search_session = take 3 fixture_events @ [EditSearch ''78'']"

section \<open>Lemmas\<close>

lemma int_or_zero_examples:
  "int_or_zero [] = 0 \<and> int_or_zero ''-'' = 0 \<and> int_or_zero ''1.5'' = 1 \<and> int_or_zero ''1e3'' = 1 \<and>
   int_or_zero '' -12'' = -12 \<and> int_or_zero ''abc'' = 0"
  by code_simp

lemma length_shown_videos: "length (shown_videos s) \<le> length (ui_videos s)"
  by (simp add: shown_videos_def)

lemma table_of_nonempty:
  "ui_videos s \<noteq> [] \<Longrightarrow>
   video_table (render s) = VideoTable (length (selected s) = length (ui_videos s))
     (map (\<lambda>(k, v). table_row_of (selected s) k v) (enumerate 0 (shown_videos s)))"
  by (simp add: render_def table_of_def)

lemma row_in_table:
  "k < length (shown_videos s) \<Longrightarrow>
   table_row_of (selected s) k (shown_videos s ! k)
     \<in> set (map (\<lambda>(k, v). table_row_of (selected s) k v) (enumerate 0 (shown_videos s)))"
  by (force simp: in_set_enumerate_eq)

lemma nth_table:
  "k < length (shown_videos s) \<Longrightarrow>
   map (\<lambda>(k, v). table_row_of (selected s) k v) (enumerate 0 (shown_videos s)) ! k =
     table_row_of (selected s) k (shown_videos s ! k)"
  by (simp add: nth_enumerate_eq)

section \<open>Properties\<close>

text \<open>C33: The header checkbox can claim that every row is selected while a row is not: in
  any reachable state without a search whose selection holds an id that is not listed
  (as after filtering out a selected video) and has as many ids as the list has videos,
  the header checkbox is checked and some row's checkbox is not.\<close>

theorem header_checked_row_unchecked:
  assumes "ui_reach s" and "search_term s = []" and "distinct (map v_id (ui_videos s))"
    and "length (selected s) = length (ui_videos s)" and "x \<in> set (selected s)"
    and "x \<notin> v_id ` set (ui_videos s)"
  shows "\<exists>rows. video_table (render s) = VideoTable True rows \<and> (\<exists>r. r \<in> set rows \<and> \<not> r_checked r)"
proof -
  have d: "distinct (selected s)" using ui_reach_inv [OF assms(1)] by (simp add: ui_inv_def)
  have ne: "ui_videos s \<noteq> []" using assms(4,5) by auto
  have "\<not> set (map v_id (ui_videos s)) \<subseteq> set (selected s)"
  proof
    assume sub: "set (map v_id (ui_videos s)) \<subseteq> set (selected s)"
    have "card (set (map v_id (ui_videos s))) = card (set (selected s))"
      using distinct_card [OF assms(3)] distinct_card [OF d] assms(4) by simp
    with sub have "set (map v_id (ui_videos s)) = set (selected s)" by (simp add: card_subset_eq)
    with assms(5,6) show False by auto
  qed
  then obtain v where v: "v \<in> set (ui_videos s)" "v_id v \<notin> set (selected s)" by auto
  from v(1) obtain k where "k < length (ui_videos s)" "ui_videos s ! k = v" by (meson in_set_conv_nth)
  with v(2) have k: "k < length (ui_videos s)" "v_id (ui_videos s ! k) \<notin> set (selected s)" by simp_all
  have sh: "shown_videos s = ui_videos s" using assms(2) by (simp add: shown_videos_def)
  have u: "\<not> r_checked (table_row_of (selected s) k (shown_videos s ! k))"
    using k(2) sh by (simp add: table_row_of_def)
  have r: "table_row_of (selected s) k (shown_videos s ! k)
             \<in> set (map (\<lambda>(k, v). table_row_of (selected s) k v) (enumerate 0 (shown_videos s)))"
    by (rule row_in_table) (simp add: sh k(1))
  from table_of_nonempty [OF ne] assms(4)
  have "video_table (render s) =
        VideoTable True (map (\<lambda>(k, v). table_row_of (selected s) k v) (enumerate 0 (shown_videos s)))"
    by simp
  with r u show ?thesis by blast
qed

theorem header_checked_row_unchecked_witness:
  "\<exists>rows. video_table (render (ui_run ui_init fixture_events)) = VideoTable True rows \<and>
          (\<exists>r. r \<in> set rows \<and> \<not> r_checked r)"
proof -
  have "search_term (ui_run ui_init fixture_events) = []" by code_simp
  then show ?thesis
    using header_checked_row_unchecked [OF fixture_reach, of "''video_78''"] by (simp add: fixture_run)
qed

text \<open>C35: The rows are numbered within the search result, but \<open>select\<close> of rows "from k
  to k" slices the whole list: whenever the video of row \<open>k\<close> is not the \<open>k\<close>-th video
  of the list, selecting rows \<open>k\<close> to \<open>k\<close> selects that other video, possibly not
  shown, and leaves row \<open>k\<close> unchecked.\<close>

theorem range_ignores_numbering:
  assumes "0 < k" and "k \<le> length (shown_videos s)"
    and "v_id (shown_videos s ! (k - 1)) \<noteq> v_id (ui_videos s ! (k - 1))"
  shows "selected (ui_run s [EditRange (int k) (int k), ClickSelectRange]) = [v_id (ui_videos s ! (k - 1))] \<and>
         (\<exists>h rows. video_table (render (ui_run s [EditRange (int k) (int k), ClickSelectRange])) = VideoTable h rows \<and>
                   r_number (rows ! (k - 1)) = k \<and> \<not> r_checked (rows ! (k - 1)))"
proof -
  have kl: "k \<le> length (ui_videos s)" using assms(2) length_shown_videos [of s] by simp
  let ?s' = "ui_run s [EditRange (int k) (int k), ClickSelectRange]"
  have "drop (k - 1) (ui_videos s) = ui_videos s ! (k - 1) # drop (Suc (k - 1)) (ui_videos s)"
    using Cons_nth_drop_Suc [of "k - 1" "ui_videos s"] assms(1) kl by simp
  then have "take (k - (k - 1)) (drop (k - 1) (ui_videos s)) = [ui_videos s ! (k - 1)]"
    using assms(1) by simp
  then have s': "?s' = s\<lparr>range_from := int k, range_to := int k, selected := [v_id (ui_videos s ! (k - 1))]\<rparr>"
    using assms(1) kl by (simp add: ui_run_def select_range_def nat_diff_distrib js_set_of_def)
  then have v: "ui_videos ?s' = ui_videos s" "shown_videos ?s' = shown_videos s"
    and sel: "selected ?s' = [v_id (ui_videos s ! (k - 1))]" by (simp_all add: shown_videos_def)
  have ne: "ui_videos ?s' \<noteq> []" using v(1) kl assms(1) by auto
  have "k - 1 < length (shown_videos ?s')" using assms(1,2) v(2) by simp
  from nth_table [OF this] have "r_number (map (\<lambda>(k, v). table_row_of (selected ?s') k v) (enumerate 0 (shown_videos ?s')) ! (k - 1)) = k \<and>
             \<not> r_checked (map (\<lambda>(k, v). table_row_of (selected ?s') k v) (enumerate 0 (shown_videos ?s')) ! (k - 1))"
    using assms(1,3) v(2) sel by (simp add: table_row_of_def)
  with table_of_nonempty [OF ne] sel show ?thesis by blast
qed

theorem range_ignores_numbering_witness:
  "selected (ui_run (ui_run ui_init search_session) [EditRange 1 1, ClickSelectRange]) = [''video_77''] \<and>
   (\<exists>h rows. video_table (render (ui_run (ui_run ui_init search_session) [EditRange 1 1, ClickSelectRange])) =
               VideoTable h rows \<and> r_number (rows ! 0) = 1 \<and> \<not> r_checked (rows ! 0))"
proof -
  have "1 \<le> length (shown_videos (ui_run ui_init search_session))"
    and "v_id (shown_videos (ui_run ui_init search_session) ! 0) \<noteq> v_id (ui_videos (ui_run ui_init search_session) ! 0)"
    and "v_id (ui_videos (ui_run ui_init search_session) ! 0) = ''video_77''"
    by code_simp+
  with range_ignores_numbering [of 1 "ui_run ui_init search_session"] show ?thesis by simp
qed

end
