(* ===== verification/Server_App.thy ===== *)
theory Server_App
  imports Server_Routes
begin

text \<open>
  The Express application of src/server/index.js as a whole: the middleware (lines
  10--13), the routes of \<open>Server_Routes\<close> and \<open>/api/health\<close> (lines 59--62), and
  Express's answer to any other request. A request is taken as the route sees it: the
  method and path select the handler, and the parsed body is the route's body record.

  \<^item> \<open>express.json()\<close> answers 400 to a request whose body is not JSON before any
    route runs.
  \<^item> \<open>express.static('public')\<close> serves a file of the directory \<open>public\<close> for a
    \<open>GET\<close> to its path and passes every other request on; the directory is the oracle
    \<open>pub\<close>. The repository has no src/server/public, so the witnesses take it empty.
    \<open>cors()\<close> only adds headers and is not modelled.
  \<^item> The server's life is the relation \<open>server_step\<close>: the scan route runs in any
    browser world, the download stub in any file-system world, and the listing of
    \<open>GET /api/videos\<close> is any list \<open>videos_listing\<close> allows. \<open>server_reach\<close> holds of
    the stores reachable from the tables \<open>db.serialize\<close> creates; before each request
    the clock, the value of \<open>CURRENT_TIMESTAMP\<close>, may take any value.
\<close>

section \<open>Requests and responses\<close>

datatype http_request =
    HealthReq
  | ScanReq scan_body
  | DownloadReq dl_body
  | ScheduleReq sched_body
  | ListReq
  | OtherReq string string
  | BadJsonReq string

datatype http_response =
    RHealth string string
  | RScan nat scan_result
  | RDownload nat dl_response
  | RSchedule nat nat
  | RList "row list"
  | RStatic string
  | RNotFound string
  | RBadJson

text \<open>Lines 59--62.\<close>

definition health :: http_response where
  "health = RHealth ''OK'' ''TikTok Automation Server is running''"

text \<open>\<open>express.static\<close> for a request no route matches, then Express's final handler:
  \<open>404 Cannot METHOD path\<close>.\<close>

definition fallback :: "(string \<Rightarrow> string option) \<Rightarrow> string \<Rightarrow> string \<Rightarrow> http_response" where
  "fallback pub m p =
     (case (if m = ''GET'' then pub p else None) of
        Some f \<Rightarrow> RStatic f
      | None \<Rightarrow> RNotFound (''Cannot '' @ m @ '' '' @ p))"

text \<open>A newest-first listing: one of the answers \<open>ORDER BY created_at DESC\<close> allows.\<close>

definition newest_first :: "store \<Rightarrow> row list" where
  "newest_first st = rev (sort_key row_created_at (video_rows st))"

section \<open>The server\<close>

inductive server_step :: "(string \<Rightarrow> string option) \<Rightarrow> store \<Rightarrow> http_request \<Rightarrow> http_response \<Rightarrow> store \<Rightarrow> bool" where
  health: "server_step pub st HealthReq health st"
| scan: "scan_route w st b = ((c, r), st', s') \<Longrightarrow> server_step pub st (ScanReq b) (RScan c r) st'"
| download: "download_route dw st b = ((c, r), st') \<Longrightarrow> server_step pub st (DownloadReq b) (RDownload c r) st'"
| schedule: "schedule_route st b = ((c, i), st') \<Longrightarrow> server_step pub st (ScheduleReq b) (RSchedule c i) st'"
| list: "videos_listing st rs \<Longrightarrow> server_step pub st ListReq (RList rs) st"
| other: "server_step pub st (OtherReq m p) (fallback pub m p) st"
| bad_json: "server_step pub st (BadJsonReq p) RBadJson st"

inductive_cases server_stepE: "server_step pub st q a st'"

inductive server_reach :: "(string \<Rightarrow> string option) \<Rightarrow> store \<Rightarrow> bool" where
  init: "server_reach pub empty_store"
| step: "server_reach pub st \<Longrightarrow> server_step pub (st\<lparr>clock := t\<rparr>) q a st' \<Longrightarrow> server_reach pub st'"

section \<open>Lemmas\<close>

lemma store_inv_clock [simp]: "store_inv (st\<lparr>clock := t\<rparr>) = store_inv st"
  by (simp add: store_inv_def)

lemma server_step_inv: "server_step pub st q a st' \<Longrightarrow> store_inv st \<Longrightarrow> store_inv st'"
proof (induction rule: server_step.induct)
  case (scan w st b c r st' s' pub)
  from routes_preserve_inv [OF scan.prems, of w b] scan.hyps show ?case by simp
next
  case (download dw st b c r st' pub)
  from download_route_inv [OF download.prems, of dw b] download.hyps show ?case by simp
next
  case (schedule st b c i st' pub)
  from schedule_route_inv [OF schedule.prems, of b] schedule.hyps show ?case by simp
qed

lemma empty_store_inv: "store_inv empty_store"
  by (simp add: store_inv_def empty_store_def)

lemma newest_first_listing: "videos_listing st (newest_first st)"
proof -
  have "sorted (map row_created_at (sort_key row_created_at (video_rows st)))" by simp
  then have "sorted_wrt (\<lambda>a b. row_created_at a \<le> row_created_at b) (sort_key row_created_at (video_rows st))"
    by (simp only: sorted_map)
  then show ?thesis unfolding videos_listing_def newest_first_def by (simp add: sorted_wrt_rev)
qed

inductive_cases scan_stepE: "server_step pub st (ScanReq b) a st'"

inductive_cases list_stepE: "server_step pub st ListReq a st'"

lemma listing_rows: "videos_listing st rs \<Longrightarrow> set rs = set (video_rows st)"
  by (simp add: videos_listing_def flip: set_mset_mset)

lemma server_total: "\<exists>a st'. server_step pub st q a st'"
proof (cases q)
  case (ScanReq b)
  obtain c r st' s' where "scan_route w st b = ((c, r), st', s')" by (cases "scan_route w st b") auto
  then have "server_step pub st (ScanReq b) (RScan c r) st'" by (rule server_step.scan)
  then show ?thesis using ScanReq by blast
next
  case (DownloadReq b)
  obtain c r st' where "download_route dw st b = ((c, r), st')" by (cases "download_route dw st b") auto
  then have "server_step pub st (DownloadReq b) (RDownload c r) st'" by (rule server_step.download)
  then show ?thesis using DownloadReq by blast
next
  case (ScheduleReq b)
  obtain c i st' where "schedule_route st b = ((c, i), st')" by (cases "schedule_route st b") auto
  then have "server_step pub st (ScheduleReq b) (RSchedule c i) st'" by (rule server_step.schedule)
  then show ?thesis using ScheduleReq by blast
next
  case ListReq
  have "server_step pub st ListReq (RList (newest_first st)) st" by (rule server_step.list [OF newest_first_listing])
  then show ?thesis using ListReq by blast
next
  case HealthReq
  then show ?thesis using server_step.health by blast
next
  case (OtherReq m p)
  then show ?thesis using server_step.other by blast
next
  case (BadJsonReq p)
  then show ?thesis using server_step.bad_json by blast
qed

section \<open>Properties\<close>

text \<open>C15: Every database state the server reaches, from the empty tables through any
  sequence of requests answered in any browser and file-system world, keeps the row ids
  and the \<open>tiktok_id\<close>s of \<open>videos\<close> unique and the ids of both tables bounded by
  their \<open>AUTOINCREMENT\<close> sequences.\<close>

theorem server_reach_inv:
  assumes "server_reach pub st"
  shows "store_inv st"
  using assms
proof (induction rule: server_reach.induct)
  case init show ?case by (rule empty_store_inv)
next
  case (step pub st t q a st')
  from step.hyps(2) show ?case by (rule server_step_inv) (simp add: step.IH)
qed

theorem server_reach_inv_witness:
  "store_inv (snd (schedule_route (empty_store\<lparr>clock := 3\<rparr>)
     \<lparr>s_video_id = Some (KNum 1), s_account_id = None, s_platform = Some ''tiktok'', s_time = None\<rparr>))"
proof -
  let ?sb = "\<lparr>s_video_id = Some (KNum 1), s_account_id = None, s_platform = Some ''tiktok'', s_time = None\<rparr>"
  obtain c i st' where sr: "schedule_route (empty_store\<lparr>clock := 3\<rparr>) ?sb = ((c, i), st')"
    by (cases "schedule_route (empty_store\<lparr>clock := 3\<rparr>) ?sb") auto
  have "server_reach (\<lambda>_. None) st'"
    by (rule server_reach.step [OF server_reach.init server_step.schedule [OF sr]])
  from server_reach_inv [OF this] sr show ?thesis by simp
qed

text \<open>C36: A scan request followed by \<open>GET /api/videos\<close>: the listing does not change the
  database, and it holds, for every video the scan returned, a row with its
  \<open>tiktok_id\<close>, not downloaded, stamped with the scan request's time.\<close>

theorem scan_then_list:
  assumes "server_step pub st (ScanReq b) (RScan c r) st'" and "server_step pub st' ListReq (RList rs) st''"
    and "v \<in> set (videos r)"
  shows "st'' = st' \<and>
         (\<exists>row. row \<in> set rs \<and> row_tiktok_id row = tiktok_id v \<and> \<not> row_downloaded row \<and>
                row_created_at row = clock st)"
proof -
  from assms(1) obtain w s' where sr: "scan_route w st b = ((c, r), st', s')" by (auto elim: scan_stepE)
  from assms(2) have st'': "st'' = st'" and l: "videos_listing st' rs" by (auto elim: list_stepE)
  have st': "st' = fold (\<lambda>v st. insert_or_replace st v) (videos r) st"
    using scan_route_stored [OF sr] assms(3) by (cases "videos r") auto
  from fold_insert_table [of "tiktok_id v" "videos r" st] assms(3)
  obtain v' i where v': "v' \<in> set (videos r)" "tiktok_id v' = tiktok_id v"
    and t: "video_table st' (tiktok_id v) = Some (row_of i (clock st) v')"
    unfolding st' by auto
  have "row_of i (clock st) v' \<in> set rs" using video_table_SomeD [OF t] listing_rows [OF l] by simp
  moreover have "\<not> downloaded v'" using scan_route_fresh [OF sr v'(1)] .
  ultimately show ?thesis using st'' v'(2) by auto
qed

theorem scan_then_list_witness:
  "\<exists>row. row \<in> set (newest_first (fst (snd (scan_route (fixture_world fixture_listing) empty_store
            \<lparr>b_platform = ''tiktok'', b_video_links = Some [''https://www.tiktok.com/@a/video/77''],
             b_user_profiles = None, b_hashtags = None, b_cookies = None\<rparr>)))) \<and>
          row_tiktok_id row = ''unknown'' \<and> \<not> row_downloaded row"
proof -
  obtain c r st' s' where sr: "scan_route (fixture_world fixture_listing) empty_store
      \<lparr>b_platform = ''tiktok'', b_video_links = Some [''https://www.tiktok.com/@a/video/77''],
       b_user_profiles = None, b_hashtags = None, b_cookies = None\<rparr> = ((c, r), st', s')"
    by (cases "scan_route (fixture_world fixture_listing) empty_store
      \<lparr>b_platform = ''tiktok'', b_video_links = Some [''https://www.tiktok.com/@a/video/77''],
       b_user_profiles = None, b_hashtags = None, b_cookies = None\<rparr>") auto
  have v: "link_record fixture_listing ''tiktok'' \<in> set (videos r)" using fixture_scan_videos [OF sr] by simp
  from scan_then_list [OF server_step.scan [OF sr, of "\<lambda>_. None"]
         server_step.list [OF newest_first_listing, of "\<lambda>_. None" st'] v]
  show ?thesis using sr fixture_link_tiktok_id by auto
qed

end
