(* ===== verification/Electron_Shell.thy ===== *)
theory Electron_Shell
  imports Prelude
begin

text \<open>
  The desktop shell, src/electron/main.js and src/electron/preload.js: the Electron main
  process as a state machine over the record \<open>shell\<close>, one event per callback it
  registers.

  \<^item> The module variables \<open>mainWindow\<close> and \<open>serverProcess\<close>, what Electron itself
    tracks (the open windows, the application menu, the \<open>before-quit\<close> listeners,
    whether the app is quitting) and what the process does that can be observed (the
    messages sent to a window, the dialogs shown, the faults reported by the
    \<open>uncaughtException\<close> and \<open>unhandledRejection\<close> handlers) are the fields of
    \<open>shell\<close>; \<open>process.platform\<close> and \<open>isDev\<close> are fixed at start.
  \<^item> \<open>createWindow\<close> (lines 8--56), \<open>app.quit()\<close> with the \<open>before-quit\<close> listeners,
    the \<open>closed\<close> and \<open>window-all-closed\<close> handlers, the five menu entries with a
    \<open>click\<close> of their own (lines 58--145), the \<open>activate\<close> handler, the error handlers
    (lines 174--186) are the cases of \<open>shell_step\<close>. Once the app quits no event is
    handled any more.
  \<^item> A click that reads \<open>mainWindow.webContents\<close> while \<open>mainWindow\<close> is \<open>null\<close>
    throws a \<open>TypeError\<close>; thrown in a synchronous click it is an uncaught exception,
    in the \<open>async\<close> one an unhandled rejection. The menu roles (undo, reload, zoom ...)
    are Electron's own and are not modelled.
  \<^item> The IPC handlers (lines 165--171) and the channels the preload script exposes.
\<close>

section \<open>State\<close>

datatype main_fault = Uncaught string | Unhandled string

record shell =
  sh_platform :: string
  is_dev :: bool
  app_ready :: bool
  main_window :: "nat option"
  windows :: "nat list"
  next_window :: nat
  shown :: "nat list"
  loaded :: "(nat \<times> string) list"
  devtools :: "nat list"
  app_menu :: bool
  quit_listeners :: nat
  server_process :: "nat option"
  killed :: "nat list"
  quitting :: bool
  sent :: "(nat \<times> string \<times> string option) list"
  faults :: "main_fault list"
  dialogs :: "string list"

text \<open>The process at start: \<open>let mainWindow; let serverProcess;\<close> (lines 5--6).\<close>

definition shell_init :: "string \<Rightarrow> bool \<Rightarrow> shell" where
  "shell_init p d =
     \<lparr>sh_platform = p, is_dev = d, app_ready = False, main_window = None, windows = [], next_window = 0,
      shown = [], loaded = [], devtools = [], app_menu = False, quit_listeners = 0, server_process = None,
      killed = [], quitting = False, sent = [], faults = [], dialogs = []\<rparr>"

section \<open>Operations\<close>

text \<open>\<open>createWindow\<close>, lines 8--56: a new window, loaded from the development server or
  the build; one more \<open>before-quit\<close> listener on every call.\<close>

definition createWindow :: "shell \<Rightarrow> shell" where
  "createWindow s =
     (let w = next_window s in
      s\<lparr>main_window := Some w, windows := windows s @ [w], next_window := Suc w,
        loaded := loaded s @ [(w, if is_dev s then ''http://localhost:3000'' else ''../client/build/index.html'')],
        devtools := (if is_dev s then devtools s @ [w] else devtools s),
        quit_listeners := Suc (quit_listeners s)\<rparr>)"

text \<open>\<open>app.quit()\<close>: every \<open>before-quit\<close> listener kills \<open>serverProcess\<close> when it is set,
  then Electron closes the windows (each \<open>closed\<close> handler clears \<open>mainWindow\<close>) without
  emitting \<open>window-all-closed\<close>.\<close>

definition app_quit :: "shell \<Rightarrow> shell" where
  "app_quit s =
     s\<lparr>killed := killed s @ (case server_process s of Some p \<Rightarrow> replicate (quit_listeners s) p | None \<Rightarrow> []),
       quitting := True, windows := [], main_window := (if windows s = [] then main_window s else None)\<rparr>"

text \<open>The user closes window \<open>w\<close>: its \<open>closed\<close> handler (lines 46--48) sets \<open>mainWindow\<close>
  to \<open>null\<close>; when no window is left, \<open>window-all-closed\<close> (lines 158--162) quits except
  on macOS.\<close>

definition close_window :: "shell \<Rightarrow> nat \<Rightarrow> shell" where
  "close_window s w =
     (if w \<notin> set (windows s) then s
      else let s' = s\<lparr>windows := removeAll w (windows s), main_window := None\<rparr>
           in if windows s' = [] \<and> sh_platform s \<noteq> ''darwin'' then app_quit s' else s')"

text \<open>\<open>mainWindow.webContents.send(channel, payload)\<close>, or the \<open>TypeError\<close> it throws
  when \<open>mainWindow\<close> is \<open>null\<close>.\<close>

definition null_read :: "string \<Rightarrow> string" where
  "null_read f = ''TypeError: Cannot read properties of null (reading '' @ [CHR 0x27] @ f @ [CHR 0x27] @ '')''"

definition send_main :: "shell \<Rightarrow> string \<Rightarrow> string option \<Rightarrow> string + shell" where
  "send_main s ch p =
     (case main_window s of
        None \<Rightarrow> Inl (null_read ''webContents'')
      | Some w \<Rightarrow> Inr (s\<lparr>sent := sent s @ [(w, ch, p)]\<rparr>))"

text \<open>The \<open>uncaughtException\<close> and \<open>unhandledRejection\<close> handlers, lines 174--186: log,
  and forward to the window when there is one.\<close>

definition fault_msg :: "main_fault \<Rightarrow> string" where
  "fault_msg f = (case f of Uncaught m \<Rightarrow> m | Unhandled m \<Rightarrow> m)"

definition report :: "shell \<Rightarrow> main_fault \<Rightarrow> shell" where
  "report s f =
     (case main_window s of
        None \<Rightarrow> s\<lparr>faults := faults s @ [f]\<rparr>
      | Some w \<Rightarrow> s\<lparr>faults := faults s @ [f], sent := sent s @ [(w, ''error'', Some (fault_msg f))]\<rparr>)"

text \<open>A callback's outcome: the state it leaves, or the fault it raises.\<close>

definition settle :: "shell \<Rightarrow> (string \<Rightarrow> main_fault) \<Rightarrow> string + shell \<Rightarrow> shell" where
  "settle s k r = (case r of Inl m \<Rightarrow> report s (k m) | Inr s' \<Rightarrow> s')"

section \<open>Events\<close>

datatype shell_event =
    AppReady | Activate | ReadyToShow nat | CloseWindow nat
  | MenuNewScan | MenuOpenFolder bool "string list" | MenuExit | MenuAbout
  | MainError string

text \<open>The handlers. \<open>ReadyToShow w\<close> is the \<open>once('ready-to-show')\<close> of window \<open>w\<close>,
  whose callback shows \<open>mainWindow\<close> and builds the menu; the menu entries exist once
  the menu is set; \<open>MenuOpenFolder c ps\<close> is the entry with the dialog's answer.\<close>

fun shell_handle :: "shell \<Rightarrow> shell_event \<Rightarrow> shell" where
  "shell_handle s AppReady = (if app_ready s then s else createWindow (s\<lparr>app_ready := True\<rparr>))"
| "shell_handle s Activate = (if app_ready s \<and> windows s = [] then createWindow s else s)"
| "shell_handle s (ReadyToShow w) =
     (if w \<in> set (windows s) \<and> w \<notin> set (shown s) then
        (case main_window s of
           None \<Rightarrow> report s (Uncaught (null_read ''show''))
         | Some m \<Rightarrow> s\<lparr>shown := shown s @ [m], app_menu := True\<rparr>)
      else s)"
| "shell_handle s (CloseWindow w) = close_window s w"
| "shell_handle s MenuNewScan =
     (if app_menu s then settle s Uncaught (send_main s ''new-scan'' None) else s)"
| "shell_handle s (MenuOpenFolder c ps) =
     (if app_menu s then
        (let s1 = s\<lparr>dialogs := dialogs s @ [''Open Downloads Folder'']\<rparr>
         in if c then s1 else settle s1 Unhandled (send_main s1 ''open-folder'' (js_index ps 0)))
      else s)"
| "shell_handle s MenuExit = (if app_menu s then app_quit s else s)"
| "shell_handle s MenuAbout =
     (if app_menu s then s\<lparr>dialogs := dialogs s @ [''About TikTok Automation Tool'']\<rparr> else s)"
| "shell_handle s (MainError m) = report s (Uncaught m)"

definition shell_step :: "shell \<Rightarrow> shell_event \<Rightarrow> shell" where
  "shell_step s e = (if quitting s then s else shell_handle s e)"

definition shell_run :: "shell \<Rightarrow> shell_event list \<Rightarrow> shell" where
  "shell_run s es = fold (\<lambda>e s. shell_step s e) es s"

inductive shell_reach :: "shell \<Rightarrow> bool" where
  init: "shell_reach (shell_init p d)"
| step: "shell_reach s \<Longrightarrow> shell_reach (shell_step s e)"

section \<open>IPC\<close>

text \<open>\<open>ipcMain.handle\<close>, lines 165--171, and \<open>ipcRenderer.invoke\<close> of a channel with
  no handler, which rejects.\<close>

record app_info =
  app_version :: string
  app_name :: string

definition ipc_invoke :: "app_info \<Rightarrow> string \<Rightarrow> string + string" where
  "ipc_invoke a ch =
     (if ch = ''get-app-version'' then Inr (app_version a)
      else if ch = ''get-app-name'' then Inr (app_name a)
      else Inl (''No handler registered for '' @ [CHR 0x27] @ ch @ [CHR 0x27]))"

text \<open>preload.js: the channels \<open>electronAPI\<close> invokes and the ones it subscribes to.\<close>

definition preload_invokes :: "string list" where
  "preload_invokes = [''get-app-version'', ''get-app-name'']"

definition preload_listens :: "string list" where
  "preload_listens = [''open-folder'', ''new-scan'', ''error'']"

section \<open>Invariant\<close>

text \<open>What every reachable state keeps: the window structure, a window only once the app is
  ready, a window left as long as the app runs off macOS, the listener count, and the
  channels used.\<close>

definition shell_inv :: "shell \<Rightarrow> bool" where
  "shell_inv s \<longleftrightarrow>
     ((windows s = [] \<and> main_window s = None) \<or> (\<exists>w. windows s = [w] \<and> main_window s = Some w \<and> w < next_window s)) \<and>
     (windows s \<noteq> [] \<longrightarrow> app_ready s) \<and> set (shown s) \<subseteq> {..<next_window s} \<and> (app_menu s \<longrightarrow> app_ready s) \<and>
     (app_ready s \<and> \<not> quitting s \<and> sh_platform s \<noteq> ''darwin'' \<longrightarrow> windows s \<noteq> []) \<and>
     quit_listeners s = next_window s \<and> server_process s = None \<and> killed s = [] \<and>
     (\<forall>(w, ch, p) \<in> set (sent s). ch \<in> set preload_listens)"

section \<open>Lemmas\<close>

lemma report_inv: "shell_inv s \<Longrightarrow> shell_inv (report s f)"
  by (auto simp: shell_inv_def report_def preload_listens_def split: option.splits)

lemma settle_send_inv:
  "shell_inv s \<Longrightarrow> ch \<in> set preload_listens \<Longrightarrow> shell_inv (settle s k (send_main s ch p))"
  by (auto simp: settle_def send_main_def report_inv split: option.splits)
     (auto simp: shell_inv_def)

lemma app_quit_inv: "shell_inv s \<Longrightarrow> shell_inv (app_quit s)"
  by (auto simp: shell_inv_def app_quit_def)

lemma createWindow_inv: "shell_inv s \<Longrightarrow> windows s = [] \<Longrightarrow> shell_inv (createWindow (s\<lparr>app_ready := True\<rparr>))"
  by (auto simp: shell_inv_def createWindow_def Let_def)

lemma close_window_inv: "shell_inv s \<Longrightarrow> shell_inv (close_window s w)"
proof -
  assume i: "shell_inv s"
  show ?thesis
  proof (cases "w \<in> set (windows s)")
    case True
    with i have "windows s = [w]" by (auto simp: shell_inv_def)
    with i show ?thesis by (auto simp: close_window_def shell_inv_def app_quit_def Let_def)
  qed (simp add: close_window_def i)
qed

lemma shell_handle_inv: "shell_inv s \<Longrightarrow> shell_inv (shell_handle s e)"
proof (cases e)
  case AppReady
  assume i: "shell_inv s"
  then have "\<not> app_ready s \<Longrightarrow> windows s = []" by (auto simp: shell_inv_def)
  with i show ?thesis using AppReady createWindow_inv [of s] by auto
next
  case Activate
  assume i: "shell_inv s"
  show ?thesis
  proof (cases "app_ready s \<and> windows s = []")
    case True
    then have "s\<lparr>app_ready := True\<rparr> = s" by simp
    with createWindow_inv [of s] i True show ?thesis using Activate by simp
  qed (use i Activate in auto)
next
  case (ReadyToShow w)
  assume "shell_inv s" then show ?thesis using ReadyToShow
    by (auto simp: shell_inv_def split: option.splits)
next
  case (MenuOpenFolder c ps)
  assume i: "shell_inv s"
  then have "shell_inv (s\<lparr>dialogs := dialogs s @ [''Open Downloads Folder'']\<rparr>)" by (simp add: shell_inv_def)
  then show ?thesis using MenuOpenFolder i by (auto simp: Let_def preload_listens_def intro: settle_send_inv)
qed (auto simp: close_window_inv settle_send_inv preload_listens_def app_quit_inv report_inv,
     auto simp: shell_inv_def)

lemma shell_step_inv: "shell_inv s \<Longrightarrow> shell_inv (shell_step s e)"
  by (simp add: shell_step_def shell_handle_inv)

lemma shell_reach_inv: "shell_reach s \<Longrightarrow> shell_inv s"
proof (induction rule: shell_reach.induct)
  case (init p d) show ?case by (simp add: shell_inv_def shell_init_def)
next
  case (step s e) from step.IH show ?case by (rule shell_step_inv)
qed

lemma shell_reach_run: "shell_reach s \<Longrightarrow> shell_reach (shell_run s es)"
  by (induction es arbitrary: s) (simp_all add: shell_run_def shell_reach.step)


lemma shell_run_Cons [simp]: "shell_run s (e # es) = shell_run (shell_step s e) es"
  by (simp add: shell_run_def)

lemma shell_run_Nil [simp]: "shell_run s [] = s"
  by (simp add: shell_run_def)

lemma show_main:
  "main_window s = Some w \<Longrightarrow> windows s = [w] \<Longrightarrow> w \<notin> set (shown s) \<Longrightarrow> \<not> quitting s \<Longrightarrow>
   shell_step s (ReadyToShow w) = s\<lparr>shown := shown s @ [w], app_menu := True\<rparr>"
  by (simp add: shell_step_def)

section \<open>Properties\<close>

text \<open>C26: The main process has at most one window, and \<open>mainWindow\<close> is that window
  when it is open and \<open>null\<close> when none is: \<open>createWindow\<close> is only called at start and
  by \<open>activate\<close> when no window is left.\<close>

theorem shell_one_window:
  assumes "shell_reach s"
  shows "(windows s = [] \<and> main_window s = None) \<or> (\<exists>w. windows s = [w] \<and> main_window s = Some w)"
  using shell_reach_inv [OF assms] by (auto simp: shell_inv_def)

theorem shell_one_window_witness:
  "windows (shell_run (shell_init ''darwin'' False) [AppReady]) = [0] \<and>
   main_window (shell_run (shell_init ''darwin'' False) [AppReady]) = Some 0"
  using shell_one_window [OF shell_reach_run [OF shell_reach.init, of "''darwin''" False "[AppReady]"]]
  by (simp add: shell_step_def shell_init_def createWindow_def)

text \<open>C28: Except on macOS, whenever the application menu can be used the window exists, so
  \<open>New Scan\<close> sends its message to it: closing the last window quits the app.\<close>

theorem menu_safe_off_macos:
  assumes "sh_platform s \<noteq> ''darwin''" and "shell_reach s" and "\<not> quitting s" and "app_menu s"
  shows "\<exists>w. main_window s = Some w \<and> shell_step s MenuNewScan = s\<lparr>sent := sent s @ [(w, ''new-scan'', None)]\<rparr>"
proof -
  from shell_reach_inv [OF assms(2)] assms obtain w where "main_window s = Some w"
    by (auto simp: shell_inv_def)
  with assms show ?thesis by (simp add: shell_step_def settle_def send_main_def)
qed

theorem menu_safe_off_macos_witness:
  "sent (shell_step (shell_run (shell_init ''linux'' False) [AppReady, ReadyToShow 0]) MenuNewScan) =
   [(0, ''new-scan'', None)]"
proof -
  let ?s = "shell_run (shell_init ''linux'' False) [AppReady, ReadyToShow 0]"
  have "shell_reach ?s" by (rule shell_reach_run [OF shell_reach.init])
  moreover have "sh_platform ?s = ''linux'' \<and> \<not> quitting ?s \<and> app_menu ?s \<and> sent ?s = [] \<and> main_window ?s = Some 0"
    by (simp add: shell_step_def shell_init_def createWindow_def)
  ultimately show ?thesis using menu_safe_off_macos [of ?s] by auto
qed

text \<open>C27: On macOS the app outlives its window and keeps its menu: in any reachable
  state with the menu set, once the user closes the main window, \<open>New Scan\<close> throws a
  \<open>TypeError\<close> reading \<open>mainWindow.webContents\<close> (an uncaught exception) and \<open>Open
  Downloads Folder\<close> rejects with it (an unhandled rejection); nothing is sent.\<close>

theorem new_scan_throws_on_macos:
  assumes "sh_platform s = ''darwin''" and "shell_reach s" and "\<not> quitting s" and "app_menu s"
    and "main_window s = Some w"
  shows "\<not> quitting (shell_run s [CloseWindow w]) \<and> app_menu (shell_run s [CloseWindow w]) \<and>
         faults (shell_run s [CloseWindow w, MenuNewScan]) = faults s @ [Uncaught (null_read ''webContents'')] \<and>
         sent (shell_run s [CloseWindow w, MenuNewScan]) = sent s \<and>
         faults (shell_run s [CloseWindow w, MenuOpenFolder False ps]) =
           faults s @ [Unhandled (null_read ''webContents'')] \<and>
         sent (shell_run s [CloseWindow w, MenuOpenFolder False ps]) = sent s"
proof -
  from shell_reach_inv [OF assms(2)] assms(5) have "windows s = [w]" by (auto simp: shell_inv_def)
  then have "shell_run s [CloseWindow w] = s\<lparr>windows := [], main_window := None\<rparr>"
    using assms(1,3) by (simp add: shell_step_def close_window_def)
  then show ?thesis using assms(3,4) by (simp add: shell_step_def settle_def send_main_def report_def)
qed

theorem new_scan_throws_on_macos_witness:
  "faults (shell_run (shell_init ''darwin'' False) [AppReady, ReadyToShow 0, CloseWindow 0, MenuNewScan]) =
     [Uncaught (null_read ''webContents'')] \<and>
   sent (shell_run (shell_init ''darwin'' False) [AppReady, ReadyToShow 0, CloseWindow 0, MenuNewScan]) = [] \<and>
   faults (shell_run (shell_init ''darwin'' False)
     [AppReady, ReadyToShow 0, CloseWindow 0, MenuOpenFolder False [''/home/u/downloads'']]) =
     [Unhandled (null_read ''webContents'')]"
proof -
  let ?s = "shell_run (shell_init ''darwin'' False) [AppReady, ReadyToShow 0]"
  have r: "shell_reach ?s" by (rule shell_reach_run [OF shell_reach.init])
  have "sh_platform ?s = ''darwin'' \<and> \<not> quitting ?s \<and> app_menu ?s \<and> main_window ?s = Some 0 \<and>
        faults ?s = [] \<and> sent ?s = []"
    by (simp add: shell_step_def shell_init_def createWindow_def)
  then have "faults (shell_run ?s [CloseWindow 0, MenuNewScan]) = [Uncaught (null_read ''webContents'')] \<and>
             sent (shell_run ?s [CloseWindow 0, MenuNewScan]) = [] \<and>
             faults (shell_run ?s [CloseWindow 0, MenuOpenFolder False [''/home/u/downloads'']]) =
               [Unhandled (null_read ''webContents'')]"
    using new_scan_throws_on_macos [OF _ r, of 0 "[''/home/u/downloads'']"] by simp
  then show ?thesis by (simp only: shell_run_Cons shell_run_Nil)
qed

text \<open>C29: One \<open>before-quit\<close> listener is added per window ever created, and none of them
  kills anything: \<open>serverProcess\<close> is never assigned.\<close>

theorem quit_listeners_leak:
  assumes "shell_reach s"
  shows "quit_listeners s = next_window s \<and> killed s = []"
  using shell_reach_inv [OF assms] by (simp add: shell_inv_def)

theorem quit_listeners_leak_witness:
  "quit_listeners (shell_run (shell_init ''darwin'' False)
     [AppReady, CloseWindow 0, Activate, CloseWindow 1, Activate, MenuExit]) = 3"
  using quit_listeners_leak [OF shell_reach_run [OF shell_reach.init, of "''darwin''" False
     "[AppReady, CloseWindow 0, Activate, CloseWindow 1, Activate, MenuExit]"]]
  by (simp add: shell_step_def shell_init_def createWindow_def close_window_def)

text \<open>C30: Once the app is ready and until it quits, a shown main window can always be
  reached again: showing the current window, or on macOS \<open>activate\<close> creating a new one.\<close>

theorem shell_window_recoverable:
  assumes "shell_reach s" and "app_ready s" and "\<not> quitting s"
  shows "\<exists>es w. main_window (shell_run s es) = Some w \<and> w \<in> set (shown (shell_run s es)) \<and>
                \<not> quitting (shell_run s es)"
proof -
  have i: "shell_inv s" using assms(1) by (rule shell_reach_inv)
  show ?thesis
  proof (cases "main_window s")
    case None
    with i have w: "windows s = []" and sh: "next_window s \<notin> set (shown s)" by (auto simp: shell_inv_def)
    let ?s1 = "shell_step s Activate"
    have s1: "?s1 = createWindow s" using assms(2,3) w by (simp add: shell_step_def)
    then have "main_window ?s1 = Some (next_window s)" "windows ?s1 = [next_window s]"
      "next_window s \<notin> set (shown ?s1)" "\<not> quitting ?s1"
      using sh assms(3) w by (simp_all add: createWindow_def Let_def)
    then have "main_window (shell_run s [Activate, ReadyToShow (next_window s)]) = Some (next_window s) \<and>
               next_window s \<in> set (shown (shell_run s [Activate, ReadyToShow (next_window s)])) \<and>
               \<not> quitting (shell_run s [Activate, ReadyToShow (next_window s)])"
      by (simp add: show_main)
    then show ?thesis by blast
  next
    case (Some w)
    with i have ww: "windows s = [w]" by (auto simp: shell_inv_def)
    show ?thesis
    proof (cases "w \<in> set (shown s)")
      case True
      then have "main_window (shell_run s []) = Some w \<and> w \<in> set (shown (shell_run s [])) \<and>
                 \<not> quitting (shell_run s [])" using Some assms(3) by simp
      then show ?thesis by blast
    next
      case False
      then have "main_window (shell_run s [ReadyToShow w]) = Some w \<and>
                 w \<in> set (shown (shell_run s [ReadyToShow w])) \<and> \<not> quitting (shell_run s [ReadyToShow w])"
        using Some ww assms(3) by (simp add: show_main)
      then show ?thesis by blast
    qed
  qed
qed

theorem shell_window_recoverable_witness:
  "\<exists>es w. main_window (shell_run (shell_run (shell_init ''darwin'' False) [AppReady, CloseWindow 0]) es) = Some w"
proof -
  let ?s = "shell_run (shell_init ''darwin'' False) [AppReady, CloseWindow 0]"
  have "app_ready ?s \<and> \<not> quitting ?s"
    by (simp add: shell_step_def shell_init_def createWindow_def close_window_def)
  then show ?thesis using shell_window_recoverable [OF shell_reach_run [OF shell_reach.init]] by blast
qed

text \<open>C31: The main process and the preload script agree on the channels: every message the
  main process sends is on a channel the preload script lets the page subscribe to, and
  every channel the preload script invokes has a handler.\<close>

theorem ipc_channels_agree:
  assumes "shell_reach s"
  shows "(\<forall>(w, ch, p) \<in> set (sent s). ch \<in> set preload_listens) \<and>
         (\<forall>ch \<in> set preload_invokes. \<exists>v. ipc_invoke a ch = Inr v)"
  using shell_reach_inv [OF assms] by (auto simp: shell_inv_def preload_invokes_def ipc_invoke_def)

theorem ipc_channels_agree_witness:
  "sent (shell_run (shell_init ''linux'' False) [AppReady, ReadyToShow 0, MenuNewScan, MainError ''boom'']) =
     [(0, ''new-scan'', None), (0, ''error'', Some ''boom'')] \<and>
   ''new-scan'' \<in> set preload_listens \<and> ''error'' \<in> set preload_listens \<and>
   ipc_invoke \<lparr>app_version = ''2.0.0'', app_name = ''marketing''\<rparr> ''get-app-name'' = Inr ''marketing''"
proof -
  let ?s = "shell_run (shell_init ''linux'' False) [AppReady, ReadyToShow 0, MenuNewScan, MainError ''boom'']"
  have "sent ?s = [(0, ''new-scan'', None), (0, ''error'', Some ''boom'')]"
    by (simp add: shell_step_def shell_init_def createWindow_def settle_def send_main_def report_def fault_msg_def)
  moreover from ipc_channels_agree [OF shell_reach_run [OF shell_reach.init, of "''linux''" False
      "[AppReady, ReadyToShow 0, MenuNewScan, MainError ''boom'']"], of "\<lparr>app_version = ''2.0.0'', app_name = ''marketing''\<rparr>"]
  have "\<forall>(w, ch, p) \<in> set (sent ?s). ch \<in> set preload_listens"
    and "\<exists>v. ipc_invoke \<lparr>app_version = ''2.0.0'', app_name = ''marketing''\<rparr> ''get-app-name'' = Inr v"
    by (auto simp: preload_invokes_def)
  ultimately show ?thesis by (auto simp: ipc_invoke_def)
qed

end
