(* ===== verification/Navigation.thy ===== *)
theory Navigation
  imports Prelude "HOL-Library.Multiset"
begin

text \<open>
  The navigation of the client: src/client/src/App.tsx holds the active menu id and
  renders one screen for it; src/client/src/components/Sidebar.tsx lists the menu items
  by section and reports a click with the item's id.

  \<^item> \<open>renderContent\<close> is a \<open>switch\<close> on the id with a default; it is the association
    list of its cases, \<open>app_routes\<close>, looked up in order, with \<open>VideoScanner\<close> as the
    default.
  \<^item> The sidebar's items keep their id, icon, section and badge; the Vietnamese labels
    are display text and are left out. \<open>renderSection\<close> filters the items of one
    section; the sidebar renders the sections in order, each button active when its id
    is the active one.
  \<^item> A click calls \<open>onMenuChange(item.id)\<close>, which is \<open>setActiveMenu\<close>.
\<close>

section \<open>The app\<close>

text \<open>The screens \<open>App\<close> imports, one constructor per component.\<close>

datatype screen =
    VideoScanner | DownloadedVideos | AIManagement | VideoEditor | VideoGroupManagement
  | MusicLibrary | AccountManagement | AccountGroupManagement | ProxyManagement | PostSchedule
  | BatchScheduling | FBReelsComments | PostReelsProfile | PostReelsFanpage | PostReelsInstagram
  | PostYoutubeShort | PostTiktok

text \<open>The cases of the \<open>switch\<close> of \<open>renderContent\<close>, App.tsx lines 32--70.\<close>

definition app_routes :: "(string \<times> screen) list" where
  "app_routes =
     [(''scan-video'', VideoScanner), (''downloaded-videos'', DownloadedVideos),
      (''ai-management'', AIManagement), (''video-editor'', VideoEditor),
      (''video-group-management'', VideoGroupManagement), (''music-library'', MusicLibrary),
      (''account-management'', AccountManagement), (''account-group-management'', AccountGroupManagement),
      (''proxy-management'', ProxyManagement), (''post-schedule'', PostSchedule),
      (''batch-scheduling'', BatchScheduling), (''fb-reels-comments'', FBReelsComments),
      (''post-reels-profile'', PostReelsProfile), (''post-reels-fanpage'', PostReelsFanpage),
      (''post-reels-instagram'', PostReelsInstagram), (''post-youtube-short'', PostYoutubeShort),
      (''post-tiktok'', PostTiktok)]"

definition renderContent :: "string \<Rightarrow> screen" where
  "renderContent m = (case map_of app_routes m of Some c \<Rightarrow> c | None \<Rightarrow> VideoScanner)"

text \<open>\<open>useState('scan-video')\<close> and \<open>onMenuChange={setActiveMenu}\<close>.\<close>

definition app_init :: string where
  "app_init = ''scan-video''"

definition app_click :: "string \<Rightarrow> string \<Rightarrow> string" where
  "app_click active i = i"

section \<open>The sidebar\<close>

datatype icon =
    Search | Download | Brain | Scissors | FolderOpen | Music | Users | UserCheck | Shield
  | Calendar | Clock | MessageSquare | Instagram | Youtube | Facebook

record menu_item =
  mi_id :: string
  mi_icon :: icon
  mi_section :: string
  mi_badge :: "string option"

definition item :: "string \<Rightarrow> icon \<Rightarrow> string \<Rightarrow> menu_item" where
  "item i c sec = \<lparr>mi_id = i, mi_icon = c, mi_section = sec, mi_badge = None\<rparr>"

text \<open>\<open>menuItems\<close>, Sidebar.tsx lines 26--130.\<close>

definition menuItems :: "menu_item list" where
  "menuItems =
     [item ''scan-video'' Search ''main'', item ''downloaded-videos'' Download ''main'',
      item ''ai-management'' Brain ''main'', item ''video-editor'' Scissors ''main'',
      item ''video-group-management'' FolderOpen ''main'', item ''music-library'' Music ''main'',
      item ''account-management'' Users ''management'', item ''account-group-management'' UserCheck ''management'',
      item ''proxy-management'' Shield ''management'', item ''post-schedule'' Calendar ''management'',
      item ''batch-scheduling'' Clock ''management'',
      (item ''fb-reels-comments'' MessageSquare ''management'')\<lparr>mi_badge := Some ''NEW''\<rparr>,
      item ''post-reels-profile'' Facebook ''posting'', item ''post-reels-fanpage'' Facebook ''posting'',
      item ''post-reels-instagram'' Instagram ''posting'', item ''post-youtube-short'' Youtube ''posting'',
      item ''post-tiktok'' Facebook ''posting'']"

text \<open>\<open>sections\<close>, lines 132--136, by id.\<close>

definition sections :: "string list" where
  "sections = [''main'', ''management'', ''posting'']"

text \<open>A rendered button: the item's id, whether it is active, its badge.\<close>

type_synonym button = "string \<times> bool \<times> string option"

text \<open>\<open>renderSection\<close>, lines 138--172, and the sidebar's body, lines 174--182.\<close>

definition renderSection :: "string \<Rightarrow> string \<Rightarrow> button list" where
  "renderSection active sid =
     map (\<lambda>i. (mi_id i, active = mi_id i, mi_badge i)) (filter (\<lambda>i. mi_section i = sid) menuItems)"

definition sidebar :: "string \<Rightarrow> button list" where
  "sidebar active = concat (map (renderSection active) sections)"

text \<open>A session of clicks on sidebar buttons.\<close>

definition nav_run :: "string \<Rightarrow> string list \<Rightarrow> string" where
  "nav_run active clicks = fold (\<lambda>i a. app_click a i) clicks active"

text \<open>The page \<open>App\<close> returns, lines 72--107: a fixed header, the sidebar given
  \<open>activeMenu\<close> and \<open>setActiveMenu\<close>, and \<open>renderContent()\<close> in the main area.\<close>

definition app_render :: "string \<Rightarrow> button list \<times> screen" where
  "app_render active = (sidebar active, renderContent active)"

section \<open>Lemmas\<close>

lemma sidebar_concat:
  "sidebar a = map (\<lambda>i. (mi_id i, a = mi_id i, mi_badge i))
                 (concat (map (\<lambda>s. filter (\<lambda>i. mi_section i = s) menuItems) sections))"
  unfolding sidebar_def map_concat renderSection_def [abs_def] by (simp add: comp_def)

lemma sections_cover: "concat (map (\<lambda>s. filter (\<lambda>i. mi_section i = s) menuItems) sections) = menuItems"
  by code_simp

lemma menu_ids_distinct: "distinct (map mi_id menuItems)"
  by code_simp

lemma nav_run_closed: "set clicks \<subseteq> S \<Longrightarrow> a \<in> S \<Longrightarrow> nav_run a clicks \<in> S"
  by (induction clicks arbitrary: a) (simp_all add: nav_run_def app_click_def)

lemma active_buttons:
  "length (filter (\<lambda>b. fst (snd b)) (sidebar a)) = count (mset (map mi_id menuItems)) a"
proof -
  have "length (filter (\<lambda>b. fst (snd b)) (sidebar a)) = length (filter (\<lambda>i. a = mi_id i) menuItems)"
    by (simp add: sidebar_concat sections_cover filter_map comp_def)
  also have "\<dots> = count (mset (map mi_id menuItems)) a"
    by (simp only: count_mset count_list_eq_length_filter filter_map length_map comp_def)
  finally show ?thesis .
qed

lemma app_render_agrees:
  "active \<in> set (map mi_id menuItems) \<Longrightarrow>
   \<exists>b. b \<in> set (fst (app_render active)) \<and> fst (snd b) \<and> renderContent (fst b) = snd (app_render active)"
  by (auto simp: app_render_def sidebar_concat sections_cover)

section \<open>Properties\<close>

text \<open>The sidebar and the app's \<open>switch\<close> agree: the menu ids are exactly the cases of
  \<open>renderContent\<close>, so no item falls to the default, and distinct items render distinct
  screens.\<close>

theorem routes_match_menu:
  "set (map mi_id menuItems) = fst ` set app_routes \<and> inj_on renderContent (set (map mi_id menuItems))"
proof
  show "set (map mi_id menuItems) = fst ` set app_routes" by (simp add: menuItems_def app_routes_def item_def)
  have "distinct (map renderContent (map mi_id menuItems))" by code_simp
  then show "inj_on renderContent (set (map mi_id menuItems))" by (simp only: distinct_map)
qed

text \<open>C32: Whatever sidebar buttons the user clicks, exactly one button is highlighted as
  active.\<close>

theorem one_active_button:
  assumes "set clicks \<subseteq> set (map mi_id menuItems)"
  shows "length (filter (\<lambda>b. fst (snd b)) (sidebar (nav_run app_init clicks))) = 1"
proof -
  have "app_init \<in> set (map mi_id menuItems)" by (simp add: app_init_def menuItems_def item_def)
  with assms have "nav_run app_init clicks \<in> set (map mi_id menuItems)" by (rule nav_run_closed)
  then show ?thesis using menu_ids_distinct by (simp add: active_buttons distinct_count_atmost_1)
qed

theorem one_active_button_witness:
  "length (filter (\<lambda>b. fst (snd b)) (sidebar (nav_run app_init [''post-tiktok'', ''music-library'']))) = 1"
  by (rule one_active_button) (simp add: menuItems_def item_def)

end
