(* ===== verification/Spec2Isabelle.thy ===== *)
theory Spec2Isabelle
  imports Video_Scanner_View Server_App Electron_Shell Navigation
begin

text \<open>
  \<^bold>\<open>A verification library for the short-video scanning tool (namkellbi/marketing).\<close>

  \<^bold>\<open>The program.\<close> An Electron desktop shell (src/electron) loads a React client
  (src/client). Its one working screen, \<open>VideoScanner\<close>
  (src/client/src/components/VideoScanner.tsx), sorts the lines the user types into
  video links, profile links and hashtags and posts them, with a cookie header, to
  the Express server (src/server/index.js, route \<open>POST /api/scan-videos\<close>). The
  route runs \<open>TikTokService.scanVideos\<close> (src/server/services/tiktokService.js), which
  drives one headless browser: per link, per profile and per hashtag it opens a page,
  sets the parsed cookies, navigates, reads fields from the page through chains of
  CSS selectors and closes the page. The records found are stored in SQLite
  (\<open>INSERT OR REPLACE\<close>) and returned; the client shows them, lets the user select
  some and posts their ids to \<open>POST /api/download-video\<close>, whose download step is a
  stub that writes a dummy file.

  \<^bold>\<open>The library,\<close> one theory per component, leaves first. Every operation is an
  executable HOL function of the state it reads and writes.
  \<^item> \<open>Prelude\<close>: the JavaScript string primitives the code calls (\<open>trim\<close>,
    \<open>split\<close>, \<open>join\<close>, \<open>includes\<close>, \<open>replace\<close>, \<open>parseInt\<close> of a digit string,
    \<open>`${n}`\<close>, \<open>encodeURIComponent\<close>, the \<open>||\<close> of strings and of element chains)
    and their lemmas: trimming, splitting at a separator as the inverse of joining,
    the pieces of a split, decimal rendering read back.
  \<^item> \<open>Cookie_Codec\<close>: \<open>parseCookies\<close> (lines 40--57). Round trip with the header
    encoding of well-formed pairs; the shape of every parsed cookie; values cut at
    \<open>=\<close>; blank values kept as empty ones.
  \<^item> \<open>Video_Model\<close>: the record every scanner returns (the evaluated metadata spread
    into an object with \<open>id\<close>, \<open>downloaded\<close>, \<open>status\<close>) and the placeholder
    thumbnail.
  \<^item> \<open>Field_Extractor\<close>: a rendered page as its answers to the selector queries the
    code asks (\<open>page\<close>, \<open>node\<close>); text and count fields, the thumbnail and media
    URL search of \<open>extractMediaUrls\<close> (lines 444--525). The code's chains take the
    first element found: when its text is blank the code returns the field's default,
    where the spec's first-non-blank contract (\<open>spec_text_field\<close>) goes on to the
    selectors after it.
  \<^item> \<open>Browser_Session\<close>: the service state \<open>svc\<close> (\<open>this.browser\<close>,
    \<open>this.cookies\<close> and the list of Puppeteer calls made so far), the browser as an
    oracle record \<open>world\<close> (launch, navigation and scroll outcomes, every theorem
    holding for every world; an answer depends on the call's arguments, not on the
    calls before it; \<open>browser.newPage()\<close> and \<open>page.setCookie()\<close> are taken to
    succeed), \<open>initBrowser\<close>, \<open>setCookies\<close>, \<open>closeBrowser\<close>
    and the page prologue shared by the scanners.
  \<^item> \<open>Link_Scanner\<close>: \<open>scanVideoLink\<close> (lines 113--274) with its catch clause and
    the retry after a timeout. The retry reads \<open>page\<close>, a \<open>const\<close> of the
    \<open>try\<close> block, so in JavaScript it throws a \<open>ReferenceError\<close>; the model binds
    \<open>page\<close> in the catch clause through \<open>catch_page_binding\<close>, which is \<open>None\<close>.
  \<^item> \<open>Feed_Scanners\<close>: \<open>scanUserProfile\<close>, \<open>scanHashtag\<close>, \<open>scrollToLoadMore\<close>
    (lines 276--442): caps of 20 and 15 records, ids, defaults, the dead fallbacks of
    the \<open>querySelectorAll\<close> chains, fixtures for the witnesses.
  \<^item> \<open>Scan_Orchestrator\<close>: \<open>scanVideos\<close> (lines 59--111): the result of a batch is
    the concatenation, links then profiles then hashtags, of what each scanner returns
    alone in the state after the launch (\<open>batch_videos\<close>); a launch failure; freshness
    of every record; the size bound; one launch per batch.
  \<^item> \<open>Server_Routes\<close>: the Express routes of src/server/index.js over the SQLite
    database as a record \<open>store\<close> (the \<open>videos\<close> and \<open>scheduled_posts\<close> rows with
    their \<open>AUTOINCREMENT\<close> sequences, the request's timestamp, the files written), and
    the download stub \<open>downloadVideo\<close>. \<open>INSERT OR REPLACE\<close> refines a map update
    of the table keyed by \<open>tiktok_id\<close>; every route keeps the keys unique; a re-scan
    resets the download flag; \<open>WHERE id = ?\<close> compares a bound text the way SQLite's
    numeric affinity does (\<open>sql_numeric\<close>: blanks, sign, digits, fraction, exponent,
    compared by exact value, so \<open>'1.0'\<close>, \<open>'+1'\<close> and \<open>' 1'\<close> find row 1), and the
    ids the scan hands out have no numeric reading, so they never find a row of the
    download route; the stub's size range and its unrelated size; unchecked foreign
    keys of the schedule route.
  \<^item> \<open>Server_App\<close>: the Express application around the routes (index.js lines
    7--15, 59--62, 256--264): the JSON and static middleware, \<open>/api/health\<close>, Express's
    404, and the server's life as an inductive step relation over requests, in which
    the scan and download routes run in any world and the listing is any order
    \<open>ORDER BY created_at DESC\<close> allows. Every request is answered; every reachable
    database keeps its keys unique; a scan followed by the listing shows a fresh row for
    each video returned.
  \<^item> \<open>Client_Service\<close>: src/client/src/services/videoService.ts. \<open>axios.post\<close>
    as a function of the server's reply (2xx resolves, any other status and a missing
    response reject with axios's message), \<open>scanVideos\<close> and \<open>downloadVideos\<close>
    of the client, and their progress loop \<open>for (i = 0; i <= 100; i += step)\<close>
    as a \<open>partial_function (option)\<close>, which returns for every positive step; the
    exported helpers nothing calls (URL parsing over the pathname, the two mocks).
  \<^item> \<open>Video_Scanner_UI\<close>: the screen (src/client/src/components/VideoScanner.tsx).
    \<open>parseInput\<close>; the \<open>useState\<close> hooks as a record \<open>ui\<close>; each handler as a
    case of \<open>ui_step\<close> on an event; the awaited requests as a list of pending calls whose
    replies are separate events arriving in any order; \<open>ui_reach\<close>, the states a
    session reaches, and its invariant by rule induction (a selection without
    repetitions, every video pending or completed and downloaded); that stopping a
    scan does not cancel it; that filtering keeps hidden videos selected and the
    download button sends them. The select-all checkbox exists only while the list is
    not empty (line 386), so its click is guarded by that.
  \<^item> \<open>Video_Scanner_View\<close>: what the screen renders (VideoScanner.tsx lines
    203--483) as a function \<open>render\<close> of its state: the buttons with their
    \<open>disabled\<close> conditions and labels, the progress bars, the table of rows; and the
    number inputs' \<open>parseInt(...) || 0\<close>. In every reachable state whose selection
    holds an unlisted id and is as long as the list, the header checkbox is checked while
    a row is not; the range selection counts the rows of the whole list while the table
    numbers the rows of the search result, so selecting rows \<open>k\<close> to \<open>k\<close> can select
    a video other than row \<open>k\<close>'s.
  \<^item> \<open>Electron_Shell\<close>: the Electron main process (src/electron/main.js) as a state
    machine: \<open>mainWindow\<close>, \<open>serverProcess\<close>, the open windows, the menu, the
    \<open>before-quit\<close> listeners, the messages sent and the faults reported; one case of
    \<open>shell_step\<close> per registered callback; \<open>shell_reach\<close> and its invariant by rule
    induction (at most one window, the listener count); the \<open>TypeError\<close> of the menu on
    macOS, from every reachable state, once the window is closed, and its absence
    elsewhere; that a shown window can
    always be reached again (liveness); the channels of main.js and preload.js agree.
  \<^item> \<open>Navigation\<close>: App.tsx's active menu id and its \<open>switch\<close>, and Sidebar.tsx's items,
    sections and buttons: the sidebar's ids are exactly the cases of the switch, one button is active after any
    clicks.
  \<^item> This theory: the properties that span the layers. Every scan reply the client
    hands the screen is one \<open>ui_reach\<close> admits, so the screen invariant holds for the
    whole program; a download started from the screen with the ids of the scan finds no
    row and still marks the videos completed; a failed scan shows axios's message and
    not the server's.

  \<^bold>\<open>Loops and bounds.\<close> Every loop of the modelled code but one is bounded by its input:
  the three batch loops by the request's lists, the scroll loop by its constant 3,
  the selector chains by their lists, the route's loop over \<open>videoIds\<close> by that
  list; all are structural recursions (\<open>fun\<close>,
  \<open>primrec\<close>) or list combinators, so no fuel is needed. \<open>split_from\<close> recurses
  on a shrinking suffix (a \<open>function\<close> with a \<open>measure\<close>). The one loop that need
  not end, the client's progress loop with a step of 0, is a \<open>partial_function
  (option)\<close>; the steps the code uses are 20 and 10, for which it returns.

  \<^bold>\<open>Not modelled.\<close> How CSS selectors match elements, which elements a real
  page has, and when \<open>page.evaluate\<close> itself fails (the world decides what a
  navigation yields), failures of \<open>browser.newPage()\<close> and \<open>page.setCookie()\<close>
  (taken to succeed), and a browser whose answers depend on earlier calls (the oracle
  answers each call from its arguments); JavaScript numbers above \<open>2^53\<close> (counts
  are \<open>nat\<close>, the number inputs hold integers, and \<open>String(n)\<close> is the decimal
  numeral, where JavaScript switches to exponent form from \<open>10^21\<close> on); SQLite's
  \<open>REAL\<close> arithmetic (a bound id text with a fraction or an exponent is compared by its
  exact decimal value, where SQLite first rounds it to a double);
  strings as UTF-16 (the model's strings are byte strings, \<open>encodeURIComponent\<close>
  encodes bytes and cannot meet lone surrogates; \<open>trim\<close> drops the ASCII white
  space only, not NBSP or other Unicode spaces); logging. In the client: React's
  rendering machinery (the scanning screen's output is modelled as a view, not as DOM),
  the \<open>alert\<close> and \<open>window.confirm\<close> dialogs (a confirmation is the event's flag),
  the fixed Vietnamese captions, \<open>toLocaleString\<close>, the eleven placeholder screens
  (static markup with no state, no handler and no condition, so there is nothing to
  model), Electron's built-in menu roles, the styling and configuration files (data,
  no logic); in videoService.ts the unused mock list, the WHATWG URL parser itself, the
  delays between progress reports and the TypeScript interfaces (types only). In the
  server: the \<open>accounts\<close> table (created, never used), \<open>cors()\<close> headers, the 500
  branches (reached only when SQLite or Express themselves fail), JSON values of the
  body other than the ones modelled (a missing \<open>platform\<close> is passed on as
  \<open>undefined\<close>; ids are numbers or strings; non-integer numbers are not modelled),
  and the time at which unawaited statements complete relative to the response.
\<close>

section \<open>Lemmas across components\<close>

lemma prefixed_nonnumeric:
  "x = ''video_'' @ t \<or> x = ''user_'' @ t \<or> x = ''hashtag_'' @ t \<Longrightarrow> sql_numeric x = None"
  by (elim disjE) (simp_all add: sql_numeric_other_start is_ws_def is_digit_def)

lemma prefixed_ids_nonnumeric:
  assumes "\<forall>i \<in> set ids. \<exists>t. i = ''video_'' @ t \<or> i = ''user_'' @ t \<or> i = ''hashtag_'' @ t"
  shows "\<forall>k \<in> set (map KStr ids). \<exists>s. k = KStr s \<and> sql_numeric s = None"
proof
  fix k assume "k \<in> set (map KStr ids)"
  then obtain x where x: "x \<in> set ids" "k = KStr x" by auto
  with assms obtain t where "x = ''video_'' @ t \<or> x = ''user_'' @ t \<or> x = ''hashtag_'' @ t" by blast
  then have "sql_numeric x = None" by (rule prefixed_nonnumeric)
  with x show "\<exists>s. k = KStr s \<and> sql_numeric s = None" by blast
qed

lemma scan_route_pending:
  "v \<in> set (videos (snd (fst (scan_route w st b)))) \<Longrightarrow> status v = Pending \<and> \<not> downloaded v"
proof -
  assume v: "v \<in> set (videos (snd (fst (scan_route w st b))))"
  obtain c r st' s' where sr: "scan_route w st b = ((c, r), st', s')" by (cases "scan_route w st b") auto
  then have "r = fst (scanVideos w new_service (scan_request_of b))" by (simp add: scan_route_cases)
  with v sr scanVideos_videos [of w new_service "scan_request_of b"]
  obtain s1 where "v \<in> set (batch_videos w s1 (scan_request_of b))" by auto
  then show ?thesis using batch_videos_fresh by (auto simp: fresh_record_def)
qed

section \<open>Properties across components\<close>

text \<open>C3: Downloading from the screen marks videos completed although the server found none
  of them: the ids the scan hands out (\<open>video_\<close>, \<open>user_\<close>, \<open>hashtag_\<close>
  followed by anything) are posted by the download button, the route finds no row for any of
  them and answers 200 with a count of 0 without changing the database, the client reports
  success, and the screen marks every one of those videos \<open>completed\<close> and downloaded.\<close>

theorem download_from_ui_marks_unfound:
  assumes "i < length (inflight s)" and "inflight s ! i = DownloadCall ids plat ck" and "ids \<noteq> []"
    and "\<forall>x \<in> set ids. \<exists>t. x = ''video_'' @ t \<or> x = ''user_'' @ t \<or> x = ''hashtag_'' @ t"
    and "download_route dw st \<lparr>b_video_ids = IdsArray (map KStr ids), b_dl_platform = Some plat,
                                b_dl_cookies = Some ck\<rparr> = (reply, st')"
  shows "st' = st \<and> d_success (client_downloadVideos (Some reply)) \<and>
         d_count (client_downloadVideos (Some reply)) = 0 \<and>
         (\<forall>v \<in> set (ui_videos (ui_step s (DownloadReturns i (client_downloadVideos (Some reply))))).
            v_id v \<in> set ids \<longrightarrow> status v = Completed \<and> downloaded v)"
proof -
  let ?es = "map (\<lambda>k. ''Video '' @ key_str k @ '' not found'') (map KStr ids)"
  have ne: "map KStr ids \<noteq> []" using assms(3) by simp
  have "download_route dw st \<lparr>b_video_ids = IdsArray (map KStr ids), b_dl_platform = Some plat,
                                b_dl_cookies = Some ck\<rparr> = ((200, DlOk 0 [] (Some ?es)), st)"
    using ne nonnumeric_keys_not_found [OF prefixed_ids_nonnumeric [OF assms(4)]]
    by (rule download_route_not_found)
  with assms(5) [symmetric] have "(reply, st') = ((200, DlOk 0 [] (Some ?es)), st)" by (rule trans)
  then have r: "reply = (200, DlOk 0 [] (Some ?es))" and st: "st' = st" by (simp_all only: prod.inject)
  have c: "client_downloadVideos (Some reply) =
             \<lparr>d_success = True, d_count = 0, d_message = None, d_errors = Some ?es\<rparr>"
    unfolding r by (rule client_downloadVideos_ok) simp_all
  have "ui_step s (DownloadReturns i (client_downloadVideos (Some reply))) =
        download_returns (s\<lparr>inflight := remove_nth i (inflight s)\<rparr>) ids (client_downloadVideos (Some reply))"
    using assms(1,2) by simp
  moreover have ds: "d_success (client_downloadVideos (Some reply))"
    and "d_count (client_downloadVideos (Some reply)) = 0" by (simp_all only: c download_result.simps)
  ultimately show ?thesis
    using st download_returns_marks [OF ds, of _ "s\<lparr>inflight := remove_nth i (inflight s)\<rparr>" ids]
    by (simp only: simp_thms) blast
qed

theorem download_from_ui_marks_unfound_witness:
  "snd (download_route \<lparr>downloads_dir = ''downloads'', fs_error = (\<lambda>_. None), rand = id\<rparr> fixture_store
          \<lparr>b_video_ids = IdsArray [KStr ''video_78''], b_dl_platform = Some ''tiktok'', b_dl_cookies = Some []\<rparr>) =
     fixture_store \<and>
   status (ui_videos (ui_step (ui_run ui_init (take 4 fixture_events @ [ClickDownload]))
     (DownloadReturns 0 (client_downloadVideos (Some (fst (download_route
        \<lparr>downloads_dir = ''downloads'', fs_error = (\<lambda>_. None), rand = id\<rparr> fixture_store
        \<lparr>b_video_ids = IdsArray [KStr ''video_78''], b_dl_platform = Some ''tiktok'', b_dl_cookies = Some []\<rparr>)))))) ! 1) =
   Completed"
proof -
  let ?dw = "\<lparr>downloads_dir = ''downloads'', fs_error = (\<lambda>_. None), rand = id\<rparr>"
  let ?b = "\<lparr>b_video_ids = IdsArray (map KStr [''video_78'']), b_dl_platform = Some ''tiktok'', b_dl_cookies = Some []\<rparr>"
  let ?s = "ui_run ui_init (take 4 fixture_events @ [ClickDownload])"
  let ?u = "ui_step ?s (DownloadReturns 0 (client_downloadVideos (Some (fst (download_route ?dw fixture_store ?b)))))"
  have inf: "inflight ?s = [DownloadCall [''video_78''] ''tiktok'' []]" by code_simp
  have "\<forall>x \<in> set [''video_78'']. \<exists>t. x = ''video_'' @ t \<or> x = ''user_'' @ t \<or> x = ''hashtag_'' @ t"
    by simp
  from download_from_ui_marks_unfound [of 0 ?s "[''video_78'']" "''tiktok''" "[]" ?dw fixture_store
         "fst (download_route ?dw fixture_store ?b)" "snd (download_route ?dw fixture_store ?b)", OF _ _ _ this]
  have th: "snd (download_route ?dw fixture_store ?b) = fixture_store \<and>
            (\<forall>v \<in> set (ui_videos ?u). v_id v \<in> set [''video_78''] \<longrightarrow> status v = Completed \<and> downloaded v)"
    using inf by simp
  have "ui_videos ?u ! 1 \<in> set (ui_videos ?u) \<and> v_id (ui_videos ?u ! 1) = ''video_78''" by code_simp
  with th show ?thesis by simp
qed

text \<open>C23: The client never shows the server's own message of a failed scan: the route answers
  a failure only with status 400, which \<open>axios\<close> rejects, so \<open>scanVideos\<close> of the client
  returns \<open>Request failed with status code 400\<close> in place of the body's message.\<close>

theorem client_scan_hides_server_message:
  "client_scanVideos (Some (fst (scan_route w st b))) =
     (if success (snd (fst (scan_route w st b))) then snd (fst (scan_route w st b))
      else \<lparr>success = False, videos = [], message = Some ''Request failed with status code 400'',
            total_count = None\<rparr>)"
proof -
  obtain c r st' s' where sr: "scan_route w st b = ((c, r), st', s')" by (cases "scan_route w st b") auto
  have "show_nat 400 = ''400''" by code_simp
  then show ?thesis using scan_route_cases [OF sr]
    by (auto simp: sr client_scanVideos_def axios_post_ok axios_post_fail)
qed

text \<open>C22: Whatever the scan route answers, the client hands the screen only records that are
  pending and not downloaded, and so does a failed request: every scan reply the screen
  receives is one the reachable-state relation \<open>ui_reach\<close> admits.\<close>

theorem scan_replies_admissible:
  "reply_ok (ScanReturns i (client_scanVideos None)) \<and>
   reply_ok (ScanReturns i (client_scanVideos (Some (fst (scan_route w st b)))))"
proof -
  obtain c r where cr: "fst (scan_route w st b) = (c, r)" by (cases "fst (scan_route w st b)") auto
  have "list_all (\<lambda>v. status v = Pending \<and> \<not> downloaded v) (videos r)"
    using scan_route_pending [of _ w st b] cr by (simp add: list_all_iff)
  then show ?thesis by (simp add: cr client_scanVideos_def axios_post_def split: sum.splits)
qed

end
